(* ===== verification/OmniPost_Prelude.thy ===== *)
theory OmniPost_Prelude
  imports Main "HOL-Library.Word" "HOL-Library.Multiset" "HOL-Library.AList"
begin

text \<open>
  Shared vocabulary of the OmniPost development: the model of JavaScript strings as
  sequences of UTF-16 code units, the coercions the sources rely on (truthiness of a
  string, \<open>a || b\<close>, \<open>trim\<close>), the stable comparator sort behind
  \<open>Array.prototype.sort\<close>, insertion-ordered counters behind
  \<open>Record<string, number>\<close>, and the lemma collections the component theories fill.
\<close>

section \<open>Lemma collections\<close>

named_theorems handler_defs "definitions of the event handlers, unfolded to compute a handler"
named_theorems patch_defs "definitions of the per-platform patches of the result table"
named_theorems frame_simps "fields and table slots that an operation leaves unchanged"

section \<open>JavaScript strings\<close>

text \<open>
  A JavaScript string is a finite sequence of 16-bit code units; \<open>length\<close>,
  \<open>substring\<close> and \<open>trim\<close> count and inspect code units. Literals of the
  sources are ASCII and are embedded with \<open>js\<close>.
\<close>

type_synonym code_unit = "16 word"
type_synonym jsstring = "code_unit list"

definition js :: "string \<Rightarrow> jsstring" where
  "js s = map of_char s"

definition truthy :: "jsstring \<Rightarrow> bool" where
  "truthy s \<longleftrightarrow> s \<noteq> []"

definition truthy_opt :: "jsstring option \<Rightarrow> bool" where
  "truthy_opt x = (case x of None \<Rightarrow> False | Some s \<Rightarrow> truthy s)"

definition js_or :: "jsstring option \<Rightarrow> jsstring \<Rightarrow> jsstring" where
  "js_or x d = (case x of None \<Rightarrow> d | Some s \<Rightarrow> if truthy s then s else d)"

definition js_whitespace :: "code_unit \<Rightarrow> bool" where
  "js_whitespace c \<longleftrightarrow>
     c \<in> set [0x09, 0x0A, 0x0B, 0x0C, 0x0D, 0x20, 0xA0, 0x1680,
               0x2028, 0x2029, 0x202F, 0x205F, 0x3000, 0xFEFF]
     \<or> (0x2000 \<le> c \<and> c \<le> 0x200A)"

definition trim :: "jsstring \<Rightarrow> jsstring" where
  "trim s = rev (dropWhile js_whitespace (rev (dropWhile js_whitespace s)))"

definition substring0 :: "nat \<Rightarrow> jsstring \<Rightarrow> jsstring" where
  "substring0 n s = take n s"

definition startsWith :: "jsstring \<Rightarrow> jsstring \<Rightarrow> bool" where
  "startsWith s p \<longleftrightarrow> take (length p) s = p"

text \<open>A template literal that spans several source lines: its lines joined by line feeds.\<close>

fun js_lines :: "jsstring list \<Rightarrow> jsstring" where
  "js_lines [] = []"
| "js_lines [l] = l"
| "js_lines (l # ls) = l @ 0x0A # js_lines ls"

section \<open>Stable sorting with a comparator\<close>

text \<open>
  \<open>Array.prototype.sort\<close> is stable: with a comparator \<open>cmp\<close>, an element stays in
  front of every later element it does not compare greater than. \<open>js_sort\<close> is
  insertion sort with that rule; for the comparators of the sources, which subtract two
  numeric keys, it is the library's \<open>sort_key\<close>, and any other stable sorting routine
  returns the same list (\<open>js_sort_unique\<close>).
\<close>

fun insert_by :: "('a \<Rightarrow> 'a \<Rightarrow> int) \<Rightarrow> 'a \<Rightarrow> 'a list \<Rightarrow> 'a list" where
  "insert_by cmp x [] = [x]"
| "insert_by cmp x (y # ys) = (if cmp x y \<le> 0 then x # y # ys else y # insert_by cmp x ys)"

definition js_sort :: "('a \<Rightarrow> 'a \<Rightarrow> int) \<Rightarrow> 'a list \<Rightarrow> 'a list" where
  "js_sort cmp xs = foldr (insert_by cmp) xs []"

abbreviation ascending :: "('a \<Rightarrow> int) \<Rightarrow> 'a \<Rightarrow> 'a \<Rightarrow> int" where
  "ascending f \<equiv> (\<lambda>a b. f a - f b)"

abbreviation descending :: "('a \<Rightarrow> int) \<Rightarrow> 'a \<Rightarrow> 'a \<Rightarrow> int" where
  "descending f \<equiv> (\<lambda>a b. f b - f a)"

section \<open>Insertion-ordered counters\<close>

text \<open>
  An object used as \<open>Record<string, number>\<close> with keys that are not integer-like lists
  its entries in the order of first assignment. It is an association list in which
  \<open>AList.update\<close> overwrites in place or appends; \<open>count_of\<close> is the read
  \<open>counts[k] || 0\<close> and \<open>add_count\<close> the statement
  \<open>counts[k] = (counts[k] || 0) + n\<close>.
\<close>

type_synonym 'k counters = "('k \<times> int) list"

definition count_of :: "'k counters \<Rightarrow> 'k \<Rightarrow> int" where
  "count_of cs k = (case map_of cs k of None \<Rightarrow> 0 | Some c \<Rightarrow> c)"

definition add_count :: "'k \<Rightarrow> int \<Rightarrow> 'k counters \<Rightarrow> 'k counters" where
  "add_count k n cs = AList.update k (count_of cs k + n) cs"

section \<open>Strings: lemmas\<close>

lemma of_char_less_256: "(of_char c :: nat) < 256"
proof -
  have "(of_char c :: nat) mod 256 = of_char c" by simp
  then show ?thesis by (metis mod_less_divisor zero_less_numeral)
qed

lemma unat_of_char: "unat (of_char c :: code_unit) = of_char c"
proof -
  have "(of_char c :: nat) < 2 ^ 16"
    by (rule less_le_trans [OF of_char_less_256]) simp
  moreover have "(of_char c :: code_unit) = of_nat (of_char c)"
    by (simp add: of_nat_of_char)
  ultimately show ?thesis
    by (simp add: unat_of_nat)
qed

lemma of_char_code_unit_eq_iff [simp]: "(of_char c :: code_unit) = of_char d \<longleftrightarrow> c = d"
proof
  assume "(of_char c :: code_unit) = of_char d"
  then have "unat (of_char c :: code_unit) = unat (of_char d :: code_unit)" by simp
  then show "c = d" by (simp add: unat_of_char)
qed simp

lemma js_eq_iff [simp]: "js s = js t \<longleftrightarrow> s = t"
  unfolding js_def by (induction s arbitrary: t) (auto simp: Cons_eq_map_conv)

lemma js_Nil [simp]: "js [] = []"
  by (simp add: js_def)

lemma js_eq_Nil_iff [simp]: "js s = [] \<longleftrightarrow> s = []"
  by (simp add: js_def)

lemma js_append: "js (s @ t) = js s @ js t"
  by (simp add: js_def)

lemma length_js [simp]: "length (js s) = length s"
  by (simp add: js_def)

lemma truthy_js [simp]: "truthy (js s) \<longleftrightarrow> s \<noteq> []"
  by (simp add: truthy_def)

lemma truthy_opt_simps [simp]:
  "truthy_opt None = False"
  "truthy_opt (Some s) = (s \<noteq> [])"
  by (simp_all add: truthy_opt_def truthy_def)

lemma js_or_simps [simp]:
  "js_or None d = d"
  "js_or (Some []) d = d"
  "s \<noteq> [] \<Longrightarrow> js_or (Some s) d = s"
  by (simp_all add: js_or_def truthy_def)

lemma js_or_js: "s \<noteq> [] \<Longrightarrow> js_or (Some (js s)) d = js s"
  by (simp add: js_or_def truthy_def js_def)

lemma js_or_nonempty: "d \<noteq> [] \<Longrightarrow> js_or x d \<noteq> []"
  by (auto simp: js_or_def truthy_def split: option.splits)

lemma all_dropWhile_iff: "(\<forall>x\<in>set (dropWhile P xs). P x) \<longleftrightarrow> (\<forall>x\<in>set xs. P x)"
  by (induction xs) auto

lemma trim_eq_Nil_iff: "trim s = [] \<longleftrightarrow> (\<forall>c\<in>set s. js_whitespace c)"
  by (simp add: trim_def dropWhile_eq_Nil_conv all_dropWhile_iff)

lemma trim_Nil [simp]: "trim [] = []"
  by (simp add: trim_def)

lemma length_substring0 [simp]: "length (substring0 n s) = min (length s) n"
  by (simp add: substring0_def)

lemma substring0_short: "length s \<le> n \<Longrightarrow> substring0 n s = s"
  by (simp add: substring0_def)

lemma startsWith_append [simp]: "startsWith (p @ s) p"
  by (simp add: startsWith_def)

lemma startsWith_iff: "startsWith s p \<longleftrightarrow> (\<exists>t. s = p @ t)"
proof
  assume "startsWith s p"
  then have "s = p @ drop (length p) s"
    by (metis append_take_drop_id startsWith_def)
  then show "\<exists>t. s = p @ t" ..
qed auto

section \<open>Sorting: lemmas\<close>

lemma insert_by_ascending: "insert_by (ascending f) x ys = insort_key f x ys"
  by (induction ys) auto

lemma js_sort_ascending: "js_sort (ascending f) xs = sort_key f xs"
  by (induction xs) (simp_all add: js_sort_def insert_by_ascending)

lemma js_sort_descending: "js_sort (descending f) xs = sort_key (\<lambda>x. - f x) xs"
proof -
  have "descending f = ascending (\<lambda>x. - f x)"
    by (simp add: fun_eq_iff)
  then show ?thesis
    by (simp only: js_sort_ascending)
qed

lemma mset_insert_by [simp]: "mset (insert_by cmp x ys) = add_mset x (mset ys)"
  by (induction ys) simp_all

lemma mset_js_sort [simp]: "mset (js_sort cmp xs) = mset xs"
  by (induction xs) (simp_all add: js_sort_def)

lemma set_js_sort [simp]: "set (js_sort cmp xs) = set xs"
  by (rule mset_eq_setD) simp

lemma length_js_sort [simp]: "length (js_sort cmp xs) = length xs"
  by (rule mset_eq_length) simp

lemma js_sort_Nil [simp]: "js_sort cmp [] = []"
  by (simp add: js_sort_def)

lemma sorted_js_sort_ascending: "sorted (map f (js_sort (ascending f) xs))"
  by (simp add: js_sort_ascending)

lemma js_sort_stable:
  "filter (\<lambda>y. f y = k) (js_sort (ascending f) xs) = filter (\<lambda>y. f y = k) xs"
  by (simp add: js_sort_ascending sort_key_stable)

lemma js_sort_unique:
  assumes "mset ys = mset xs"
    and "sorted (map f ys)"
    and "\<And>k. filter (\<lambda>y. f y = k) ys = filter (\<lambda>y. f y = k) xs"
  shows "js_sort (ascending f) xs = ys"
proof -
  have "filter (\<lambda>x. f k = f x) ys = filter (\<lambda>x. f k = f x) xs" for k
    using assms(3) [of "f k"] by (simp add: eq_commute)
  with assms(1,2) show ?thesis
    by (simp add: js_sort_ascending properties_for_sort_key)
qed

lemma sort_key_snoc:
  "sorted (map f xs) \<Longrightarrow>
   sort_key f (xs @ [x]) = filter (\<lambda>y. f y \<le> f x) xs @ x # filter (\<lambda>y. f x < f y) xs"
proof (induction xs)
  case Nil
  then show ?case by simp
next
  case (Cons a xs)
  then have IH: "sort_key f (xs @ [x]) =
      filter (\<lambda>y. f y \<le> f x) xs @ x # filter (\<lambda>y. f x < f y) xs"
    and le: "\<forall>y\<in>set xs. f a \<le> f y"
    by simp_all
  show ?case
  proof (cases "f a \<le> f x")
    case True
    with le have "\<forall>y\<in>set (filter (\<lambda>y. f y \<le> f x) xs @ x # filter (\<lambda>y. f x < f y) xs).
        f a \<le> f y"
      by auto
    then show ?thesis using True IH by (simp add: insort_is_Cons)
  next
    case False
    with le have "filter (\<lambda>y. f y \<le> f x) xs = []" and "filter (\<lambda>y. f x < f y) xs = xs"
      by (auto simp: filter_empty_conv intro!: filter_True)
    then show ?thesis using False IH le by (simp add: insort_is_Cons)
  qed
qed

lemma sorted_filter_split:
  "sorted (map f xs) \<Longrightarrow> filter (\<lambda>y. f y \<le> d) xs @ filter (\<lambda>y. d < f y) xs = xs"
proof (induction xs)
  case Nil
  then show ?case by simp
next
  case (Cons a xs)
  then have le: "\<forall>y\<in>set xs. f a \<le> f y" and IH: "filter (\<lambda>y. f y \<le> d) xs @ filter (\<lambda>y. d < f y) xs = xs"
    by simp_all
  show ?case
  proof (cases "f a \<le> d")
    case True
    with IH show ?thesis by simp
  next
    case False
    with le have "filter (\<lambda>y. f y \<le> d) xs = []"
      by (auto simp: filter_empty_conv)
    with False IH show ?thesis by simp
  qed
qed

lemma filter_id_conv: "(\<forall>x\<in>set xs. P x) \<Longrightarrow> filter P xs = xs"
  by (rule filter_True) simp

lemma js_sort_snoc:
  "sorted (map f xs) \<Longrightarrow>
   js_sort (ascending f) (xs @ [x]) =
     filter (\<lambda>y. f y \<le> f x) xs @ x # filter (\<lambda>y. f x < f y) xs"
  by (simp add: js_sort_ascending sort_key_snoc)

section \<open>Counters: lemmas\<close>

lemma count_of_Nil [simp]: "count_of [] k = 0"
  by (simp add: count_of_def)

lemma count_of_add_count [simp]:
  "count_of (add_count k n cs) k' = (if k' = k then count_of cs k + n else count_of cs k')"
  by (simp add: count_of_def add_count_def update_conv')

lemma keys_add_count:
  "map fst (add_count k n cs) = (if k \<in> fst ` set cs then map fst cs else map fst cs @ [k])"
  by (simp add: add_count_def update_keys)

lemma distinct_add_count [simp]:
  "distinct (map fst cs) \<Longrightarrow> distinct (map fst (add_count k n cs))"
  by (simp add: add_count_def distinct_update)

lemma count_of_eq_snd: "distinct (map fst cs) \<Longrightarrow> (k, c) \<in> set cs \<Longrightarrow> count_of cs k = c"
  by (simp add: count_of_def)

lemma count_of_notin: "k \<notin> fst ` set cs \<Longrightarrow> count_of cs k = 0"
  by (simp add: count_of_def map_of_eq_None_iff [THEN iffD2])

lemma sum_list_add_count:
  "distinct (map fst cs) \<Longrightarrow>
   sum_list (map snd (add_count k n cs)) = sum_list (map snd cs) + n"
proof (induction cs)
  case Nil
  then show ?case by (simp add: add_count_def)
next
  case (Cons p cs)
  obtain k' c where p: "p = (k', c)" by (cases p)
  show ?case
  proof (cases "k = k'")
    case True
    then show ?thesis by (simp add: p add_count_def count_of_def)
  next
    case False
    with Cons have "sum_list (map snd (add_count k n cs)) = sum_list (map snd cs) + n"
      by simp
    with False show ?thesis
      by (simp add: p add_count_def count_of_def)
  qed
qed

end
