(* ===== verification/OmniPost_Types.thy ===== *)
theory OmniPost_Types
  imports OmniPost_Prelude
begin

text \<open>
  The data model of \<^verbatim>\<open>src/types.ts\<close> and the tables of \<^verbatim>\<open>src/constants.ts\<close>: the
  string enums as datatypes with the strings they stand for, the interfaces as records, the
  result table \<open>Record<Platform, GenerationResult>\<close> as a total function on the closed
  enumeration, and the configuration constants. The lemmas show that the enum strings
  identify their members and that each table lists every member exactly once.
\<close>

section \<open>Enumerations\<close>

datatype platform = LINKEDIN | TWITTER | INSTAGRAM | THREADS

datatype tone = PROFESSIONAL | WITTY | URGENT | INSPIRATIONAL | CASUAL

datatype image_size = SIZE_1K | SIZE_2K | SIZE_4K

datatype language =
  ENGLISH | SPANISH | FRENCH | GERMAN | PORTUGUESE | JAPANESE | HINDI | CHINESE

datatype refinement_action = Shorten | Expand | Funnier | Rewrite

datatype model_tier = Flash_2_5 | Pro_2_5 | Pro_3_0

datatype status = Idle | Loading_text | Loading_image | Completed | Error | Refining

fun Platform_value :: "platform \<Rightarrow> jsstring" where
  "Platform_value LINKEDIN = js ''LinkedIn''"
| "Platform_value TWITTER = js ''Twitter''"
| "Platform_value INSTAGRAM = js ''Instagram''"
| "Platform_value THREADS = js ''Threads''"

fun Tone_value :: "tone \<Rightarrow> jsstring" where
  "Tone_value PROFESSIONAL = js ''Professional''"
| "Tone_value WITTY = js ''Witty''"
| "Tone_value URGENT = js ''Urgent''"
| "Tone_value INSPIRATIONAL = js ''Inspirational''"
| "Tone_value CASUAL = js ''Casual''"

fun ImageSize_value :: "image_size \<Rightarrow> jsstring" where
  "ImageSize_value SIZE_1K = js ''1K''"
| "ImageSize_value SIZE_2K = js ''2K''"
| "ImageSize_value SIZE_4K = js ''4K''"

fun Language_value :: "language \<Rightarrow> jsstring" where
  "Language_value ENGLISH = js ''English''"
| "Language_value SPANISH = js ''Spanish''"
| "Language_value FRENCH = js ''French''"
| "Language_value GERMAN = js ''German''"
| "Language_value PORTUGUESE = js ''Portuguese''"
| "Language_value JAPANESE = js ''Japanese''"
| "Language_value HINDI = js ''Hindi''"
| "Language_value CHINESE = js ''Chinese''"

fun RefinementAction_value :: "refinement_action \<Rightarrow> jsstring" where
  "RefinementAction_value Shorten = js ''shorten''"
| "RefinementAction_value Expand = js ''expand''"
| "RefinementAction_value Funnier = js ''funnier''"
| "RefinementAction_value Rewrite = js ''rewrite''"

fun ModelTier_value :: "model_tier \<Rightarrow> jsstring" where
  "ModelTier_value Flash_2_5 = js ''flash-2.5''"
| "ModelTier_value Pro_2_5 = js ''pro-2.5''"
| "ModelTier_value Pro_3_0 = js ''pro-3.0''"

text \<open>\<open>Object.values(Platform)\<close>: the members in declaration order.\<close>

definition Platform_values :: "platform list" where
  "Platform_values = [LINKEDIN, TWITTER, INSTAGRAM, THREADS]"

definition Tone_values :: "tone list" where
  "Tone_values = [PROFESSIONAL, WITTY, URGENT, INSPIRATIONAL, CASUAL]"

instantiation platform :: enum
begin

definition enum_platform :: "platform list" where
  "enum_platform = Platform_values"

definition enum_all_platform :: "(platform \<Rightarrow> bool) \<Rightarrow> bool" where
  "enum_all_platform P \<longleftrightarrow> list_all P Platform_values"

definition enum_ex_platform :: "(platform \<Rightarrow> bool) \<Rightarrow> bool" where
  "enum_ex_platform P \<longleftrightarrow> list_ex P Platform_values"

instance
proof
  have all: "x \<in> set Platform_values" for x
    by (cases x) (simp_all add: Platform_values_def)
  show "(UNIV :: platform set) = set enum_class.enum"
    using all by (auto simp: enum_platform_def)
  show "distinct (enum_class.enum :: platform list)"
    by (simp add: enum_platform_def Platform_values_def)
  show "enum_class.enum_all P = Ball (UNIV :: platform set) P" for P
    using all by (auto simp: enum_all_platform_def list_all_iff)
  show "enum_class.enum_ex P = Bex (UNIV :: platform set) P" for P
    using all by (auto simp: enum_ex_platform_def list_ex_iff)
qed

end

section \<open>Interfaces\<close>

text \<open>
  \<open>GenerationResult\<close>: \<open>imageUrl: string | null\<close> and \<open>error?: string\<close> are options;
  the field \<open>text\<close> is spelled \<open>text'\<close>, the plain word being reserved.
\<close>

record generation_result =
  platform :: platform
  text' :: jsstring
  imageUrl :: "jsstring option"
  imageEnabled :: bool
  status :: status
  error :: "jsstring option"

text \<open>
  \<open>ScheduledPost\<close>: a \<open>Date\<close> is its time value \<open>getTime()\<close>, an integer number of
  milliseconds (the date picker of the result card only produces valid dates).
\<close>

record scheduled_post =
  post_id :: jsstring
  post_platform :: platform
  post_text :: jsstring
  post_imageUrl :: "jsstring option"
  scheduledDate :: int

record generation_request =
  request_topic :: jsstring
  request_tone :: tone
  request_imageSize :: image_size

record generation_history_item =
  timestamp :: int
  item_tone :: tone
  platforms :: "platform list"

type_synonym generation_state = "platform \<Rightarrow> generation_result"

section \<open>Configuration tables\<close>

record platform_config =
  aspectRatio :: jsstring
  iconName :: jsstring
  description :: jsstring
  color :: jsstring

fun PLATFORM_CONFIG :: "platform \<Rightarrow> platform_config" where
  "PLATFORM_CONFIG LINKEDIN =
     \<lparr>aspectRatio = js ''16:9'', iconName = js ''linkedin'',
      description = js ''Long-form, professional insights.'', color = js ''blue-700''\<rparr>"
| "PLATFORM_CONFIG TWITTER =
     \<lparr>aspectRatio = js ''16:9'', iconName = js ''twitter'',
      description = js ''Short, punchy, hashtag-aware.'', color = js ''sky-500''\<rparr>"
| "PLATFORM_CONFIG INSTAGRAM =
     \<lparr>aspectRatio = js ''1:1'', iconName = js ''instagram'',
      description = js ''Visual-first, engaging captions.'', color = js ''pink-600''\<rparr>"
| "PLATFORM_CONFIG THREADS =
     \<lparr>aspectRatio = js ''3:4'', iconName = js ''at-sign'',
      description = js ''Conversational, authentic, thread-starter.'',
      color = js ''neutral-900''\<rparr>"

text \<open>
  \<open>LANGUAGES\<close>: each label is a flag (two regional-indicator symbols, four code units)
  followed by a space and the language's name.
\<close>

definition flag :: "code_unit \<Rightarrow> code_unit \<Rightarrow> jsstring" where
  "flag a b = [0xD83C, a, 0xD83C, b]"

definition LANGUAGES :: "(language \<times> jsstring) list" where
  "LANGUAGES =
    [(ENGLISH, flag 0xDDFA 0xDDF8 @ js '' English''),
     (SPANISH, flag 0xDDEA 0xDDF8 @ js '' Spanish''),
     (FRENCH, flag 0xDDEB 0xDDF7 @ js '' French''),
     (GERMAN, flag 0xDDE9 0xDDEA @ js '' German''),
     (PORTUGUESE, flag 0xDDE7 0xDDF7 @ js '' Portuguese''),
     (CHINESE, flag 0xDDE8 0xDDF3 @ js '' Chinese''),
     (JAPANESE, flag 0xDDEF 0xDDF5 @ js '' Japanese''),
     (HINDI, flag 0xDDEE 0xDDF3 @ js '' Hindi'')]"

record refinement_option =
  action :: refinement_action
  action_label :: jsstring
  action_icon :: jsstring

definition REFINEMENT_ACTIONS :: "refinement_option list" where
  "REFINEMENT_ACTIONS =
    [\<lparr>action = Shorten, action_label = js ''Shorten'', action_icon = js ''minimize-2''\<rparr>,
     \<lparr>action = Expand, action_label = js ''Expand'', action_icon = js ''maximize-2''\<rparr>,
     \<lparr>action = Funnier, action_label = js ''Make Funnier'', action_icon = js ''smile''\<rparr>,
     \<lparr>action = Rewrite, action_label = js ''Rewrite'', action_icon = js ''refresh-cw''\<rparr>]"

definition DEFAULT_IMAGE_MODEL :: jsstring where
  "DEFAULT_IMAGE_MODEL = js ''gemini-2.5-flash-image''"

definition DEFAULT_TEXT_MODEL :: jsstring where
  "DEFAULT_TEXT_MODEL = js ''gemini-2.5-flash''"

definition PRO_2_5_TEXT_MODEL :: jsstring where
  "PRO_2_5_TEXT_MODEL = js ''gemini-2.5-pro-preview-09-2025''"

definition PRO_IMAGE_MODEL :: jsstring where
  "PRO_IMAGE_MODEL = js ''gemini-3-pro-image-preview''"

definition PRO_TEXT_MODEL :: jsstring where
  "PRO_TEXT_MODEL = js ''gemini-3-pro-preview''"

record model_option =
  option_id :: model_tier
  option_label :: jsstring
  shortLabel :: jsstring
  option_icon :: jsstring

definition MODEL_OPTIONS :: "model_option list" where
  "MODEL_OPTIONS =
    [\<lparr>option_id = Flash_2_5, option_label = js ''Gemini 2.5 Flash'',
      shortLabel = js ''Flash 2.5'', option_icon = js ''zap''\<rparr>,
     \<lparr>option_id = Pro_2_5, option_label = js ''Gemini 2.5 Pro'',
      shortLabel = js ''Pro 2.5'', option_icon = js ''brain''\<rparr>,
     \<lparr>option_id = Pro_3_0, option_label = js ''Gemini 3.0 Pro'',
      shortLabel = js ''Pro 3.0'', option_icon = js ''crown''\<rparr>]"

lemmas model_names =
  DEFAULT_IMAGE_MODEL_def DEFAULT_TEXT_MODEL_def PRO_2_5_TEXT_MODEL_def
  PRO_IMAGE_MODEL_def PRO_TEXT_MODEL_def

section \<open>The enum strings identify their members\<close>

lemma Platform_value_inj [simp]: "Platform_value p = Platform_value q \<longleftrightarrow> p = q"
  by (cases p; cases q) simp_all

lemma Tone_value_inj [simp]: "Tone_value s = Tone_value t \<longleftrightarrow> s = t"
  by (cases s; cases t) simp_all

lemma Language_value_inj [simp]: "Language_value k = Language_value l \<longleftrightarrow> k = l"
  by (cases k; cases l) simp_all

lemma Platform_value_nonempty [simp]: "Platform_value p \<noteq> []"
  by (cases p) simp_all

lemma Tone_value_nonempty [simp]: "Tone_value t \<noteq> []"
  by (cases t) simp_all

section \<open>The tables are complete and free of duplicates\<close>

lemma set_Platform_values [simp]: "set Platform_values = UNIV"
  by (auto simp: Platform_values_def intro: platform.exhaust)

lemma distinct_Platform_values [simp]: "distinct Platform_values"
  by (simp add: Platform_values_def)

lemma length_Platform_values [simp]: "length Platform_values = 4"
  by (simp add: Platform_values_def)

lemma finite_platforms [simp]: "finite (A :: platform set)"
  by (rule finite_subset [of _ UNIV]) simp_all

lemma card_platforms_le: "card (A :: platform set) \<le> 4"
proof -
  have "card A \<le> card (set Platform_values)"
    by (rule card_mono) simp_all
  also have "\<dots> = 4"
    by (simp only: distinct_card [OF distinct_Platform_values] length_Platform_values)
  finally show ?thesis .
qed

lemma distinct_platforms_length: "distinct (ps :: platform list) \<Longrightarrow> length ps \<le> 4"
  using card_platforms_le [of "set ps"] by (simp add: distinct_card)

lemma LANGUAGES_complete: "fst ` set LANGUAGES = UNIV"
proof -
  have "l \<in> fst ` set LANGUAGES" for l
    by (cases l) (simp_all add: LANGUAGES_def)
  then show ?thesis by auto
qed

lemma LANGUAGES_distinct: "distinct (map fst LANGUAGES)"
  by (simp add: LANGUAGES_def)

lemma REFINEMENT_ACTIONS_complete: "action ` set REFINEMENT_ACTIONS = UNIV"
proof -
  have "a \<in> action ` set REFINEMENT_ACTIONS" for a
    by (cases a) (simp_all add: REFINEMENT_ACTIONS_def)
  then show ?thesis by auto
qed

lemma MODEL_OPTIONS_complete: "option_id ` set MODEL_OPTIONS = UNIV"
proof -
  have "m \<in> option_id ` set MODEL_OPTIONS" for m
    by (cases m) (simp_all add: MODEL_OPTIONS_def)
  then show ?thesis by auto
qed

lemma MODEL_OPTIONS_distinct: "distinct (map option_id MODEL_OPTIONS)"
  by (simp add: MODEL_OPTIONS_def)

end
