(* ===== verification/Gemini_Service.thy ===== *)
theory Gemini_Service
  imports OmniPost_Types
begin

text \<open>
  The content-service client of \<^verbatim>\<open>src/services/geminiService.ts\<close>. Each exported
  \<open>async\<close> function is split at its single \<open>await\<close>: a \<open>_request\<close> function
  computes what is sent (or the exception raised before anything is sent) and a
  \<open>_settle\<close> function turns the provider's outcome into the function's result. The
  provider itself is not modelled: its outcome is an argument, \<open>Inl\<close> an exception and
  \<open>Inr\<close> a response. The lemmas state which model serves which tier, what the
  requests contain, and when each function fails.
\<close>

section \<open>Exceptions and the environment\<close>

datatype js_error = JsError (message: "jsstring option")

record ai_studio =
  hasSelectedApiKey :: bool
  openSelectKey :: "js_error option"

record js_env =
  aistudio :: "ai_studio option"
  API_KEY :: "jsstring option"

type_synonym 'a outcome = "js_error + 'a"

section \<open>Key handling\<close>

definition key_missing :: js_error where
  "key_missing = JsError (Some (js ''API Key not found. Please select a key.''))"

definition getAIClient :: "js_env \<Rightarrow> jsstring outcome" where
  "getAIClient env =
     (case API_KEY env of
        None \<Rightarrow> Inl key_missing
      | Some apiKey \<Rightarrow> if \<not> truthy apiKey then Inl key_missing else Inr apiKey)"

definition ensureApiKey :: "js_env \<Rightarrow> bool" where
  "ensureApiKey env =
     (case aistudio env of
        Some studio \<Rightarrow> (case openSelectKey studio of None \<Rightarrow> True | Some e \<Rightarrow> False)
      | None \<Rightarrow> truthy_opt (API_KEY env))"

definition checkApiKeyConnection :: "js_env \<Rightarrow> bool" where
  "checkApiKeyConnection env =
     (case aistudio env of
        Some studio \<Rightarrow> hasSelectedApiKey studio
      | None \<Rightarrow> truthy_opt (API_KEY env))"

section \<open>Model selection\<close>

fun getModelName :: "model_tier \<Rightarrow> jsstring" where
  "getModelName Flash_2_5 = DEFAULT_TEXT_MODEL"
| "getModelName Pro_2_5 = PRO_2_5_TEXT_MODEL"
| "getModelName Pro_3_0 = PRO_TEXT_MODEL"

definition getImageModelName :: "model_tier \<Rightarrow> jsstring" where
  "getImageModelName tier =
     (if tier = Pro_2_5 \<or> tier = Pro_3_0 then PRO_IMAGE_MODEL else DEFAULT_IMAGE_MODEL)"

section \<open>Text generation\<close>

text \<open>The \<open>temperature\<close> 0.7 is kept as the decimal literal: 7 tenths.\<close>

record text_request =
  text_model :: jsstring
  contents :: jsstring
  systemInstruction :: jsstring
  temperature_tenths :: nat

fun platformInstructions :: "platform \<Rightarrow> bool \<Rightarrow> jsstring" where
  "platformInstructions LINKEDIN isThread =
     (if isThread
      then js ''- Create a carousel-style text breakdown (Slide 1, Slide 2, etc.). Professional and structured.''
      else js ''- Professional tone, structured, uses paragraphs. Approx 100-150 words.'')"
| "platformInstructions TWITTER isThread =
     (if isThread
      then js ''- Create a numbered thread (1/X, 2/X). Punchy and concise per tweet.''
      else js ''- Under 280 characters. Punchy. Use 1-2 relevant hashtags.'')"
| "platformInstructions INSTAGRAM isThread =
     (if isThread
      then js ''- Create text suitable for a carousel post (Slide 1, Slide 2...). Engaging hooks.''
      else js ''- Engaging hook, emoji friendly, includes a block of 5-10 relevant hashtags at the end.'')"
| "platformInstructions THREADS isThread =
     (if isThread
      then js ''- Create a numbered thread. Conversational and authentic.''
      else js ''- Conversational, authentic tone. Can be up to 500 chars but keeping it concise is good. No hashtags or very few.'')"

definition keywords_line :: "jsstring \<Rightarrow> jsstring" where
  "keywords_line keywords =
     (if truthy keywords then js ''MUST INCLUDE these keywords: '' @ keywords else [])"

definition brandVoice_line :: "jsstring \<Rightarrow> jsstring" where
  "brandVoice_line brandVoice =
     (if truthy brandVoice then js ''Brand Voice/Style Instructions: '' @ brandVoice else [])"

definition text_systemInstruction ::
  "platform \<Rightarrow> tone \<Rightarrow> language \<Rightarrow> jsstring \<Rightarrow> jsstring \<Rightarrow> bool \<Rightarrow> jsstring" where
  \<open>text_systemInstruction plat tone language keywords brandVoice isThread =
     js_lines
      [js ''You are a social media expert. '',
       js ''  Write a '' @ Tone_value tone @ js '' post for '' @ Platform_value plat
         @ js '' about the user's topic.'',
       js ''  '',
       js ''  Language: Write strictly in '' @ Language_value language @ js ''.'',
       js ''  '',
       js ''  Rules for '' @ Platform_value plat @ js '':'',
       js ''  '' @ platformInstructions plat isThread,
       js ''  '',
       js ''  '' @ keywords_line keywords,
       js ''  '' @ brandVoice_line brandVoice,
       js ''  '',
       js ''  Do not include any preamble like "Here is the post". Just return the content.'']\<close>

definition generatePlatformText_request ::
  "js_env \<Rightarrow> platform \<Rightarrow> jsstring \<Rightarrow> tone \<Rightarrow> language \<Rightarrow> jsstring \<Rightarrow> jsstring \<Rightarrow> bool
     \<Rightarrow> model_tier \<Rightarrow> text_request outcome" where
  "generatePlatformText_request env plat topic tone language keywords brandVoice isThread
       modelTier =
     (case getAIClient env of
        Inl e \<Rightarrow> Inl e
      | Inr ai \<Rightarrow>
          Inr \<lparr>text_model = getModelName modelTier,
               contents = topic,
               systemInstruction =
                 text_systemInstruction plat tone language keywords brandVoice isThread,
               temperature_tenths = 7\<rparr>)"

text \<open>A text response carries \<open>response.text\<close>, which may be undefined.\<close>

type_synonym text_response = "jsstring option"

definition generatePlatformText_settle :: "text_response outcome \<Rightarrow> jsstring outcome" where
  "generatePlatformText_settle r =
     (case r of Inl e \<Rightarrow> Inl e | Inr response \<Rightarrow> Inr (js_or response []))"

section \<open>Refinement\<close>

fun refinementPrompts :: "refinement_action \<Rightarrow> jsstring" where
  "refinementPrompts Shorten = js ''Shorten this significantly while keeping the core message.''"
| "refinementPrompts Expand =
     js ''Expand on this with more details, examples, or emotional depth.''"
| "refinementPrompts Funnier = js ''Make this funnier, wittier, and more lighthearted.''"
| "refinementPrompts Rewrite =
     js ''Rewrite this completely with a fresh perspective but same meaning.''"

definition refine_systemInstruction ::
  "platform \<Rightarrow> refinement_action \<Rightarrow> tone \<Rightarrow> language \<Rightarrow> jsstring" where
  "refine_systemInstruction plat act tone language =
     js_lines
      [js ''You are a social media editor.'',
       js ''  Platform: '' @ Platform_value plat,
       js ''  Target Tone: '' @ Tone_value tone,
       js ''  Language: '' @ Language_value language,
       js ''  '',
       js ''  Task: '' @ refinementPrompts act,
       js ''  '',
       js ''  Maintain platform best practices (length, hashtags, formatting).'',
       js ''  Return ONLY the refined text.'']"

definition refineContent_request ::
  "js_env \<Rightarrow> platform \<Rightarrow> jsstring \<Rightarrow> refinement_action \<Rightarrow> tone \<Rightarrow> language \<Rightarrow> model_tier
     \<Rightarrow> text_request outcome" where
  "refineContent_request env plat currentText act tone language modelTier =
     (case getAIClient env of
        Inl e \<Rightarrow> Inl e
      | Inr ai \<Rightarrow>
          Inr \<lparr>text_model = getModelName modelTier,
               contents = js_lines [js ''Original Text:'', currentText],
               systemInstruction = refine_systemInstruction plat act tone language,
               temperature_tenths = 7\<rparr>)"

definition refineContent_settle :: "text_response outcome \<Rightarrow> jsstring outcome" where
  "refineContent_settle r =
     (case r of Inl e \<Rightarrow> Inl e | Inr response \<Rightarrow> Inr (js_or response []))"

section \<open>Image generation\<close>

record image_request =
  image_model :: jsstring
  prompt :: jsstring
  request_aspectRatio :: jsstring

definition image_prompt :: "platform \<Rightarrow> jsstring \<Rightarrow> jsstring \<Rightarrow> tone \<Rightarrow> jsstring" where
  \<open>image_prompt plat topic contextText tone =
     js_lines
      [js ''Create a high-quality, photorealistic image to accompany a social media post.'',
       js ''  '',
       js ''  Topic: '' @ topic,
       js ''  Vibe/Tone: '' @ Tone_value tone,
       js ''  '',
       js ''  Context from the post text: "'' @ substring0 300 contextText @ js ''..."'',
       js ''  '',
       js ''  The image should be optimized for '' @ Platform_value plat
         @ js '' audiences. '',
       js ''  No text overlays on the image. High fidelity, cinematic lighting.'']\<close>

definition generatePlatformImage_request ::
  "js_env \<Rightarrow> platform \<Rightarrow> jsstring \<Rightarrow> jsstring \<Rightarrow> tone \<Rightarrow> model_tier
     \<Rightarrow> image_request outcome" where
  "generatePlatformImage_request env plat topic contextText tone modelTier =
     (case getAIClient env of
        Inl e \<Rightarrow> Inl e
      | Inr ai \<Rightarrow>
          Inr \<lparr>image_model = getImageModelName modelTier,
               prompt = image_prompt plat topic contextText tone,
               request_aspectRatio = aspectRatio (PLATFORM_CONFIG plat)\<rparr>)"

text \<open>
  An image response: \<open>response.candidates\<close> (possibly undefined), each candidate the
  list \<open>content.parts\<close>, each part its optional \<open>inlineData\<close>. A response that lacks
  a field the loop dereferences makes the loop throw; the caller sees that as one more
  exception of the call, an \<open>Inl\<close> outcome.
\<close>

record inline_data =
  mimeType :: jsstring
  data :: jsstring

type_synonym part = "inline_data option"
type_synonym candidate = "part list"
type_synonym image_response = "candidate list option"

definition data_url :: "inline_data \<Rightarrow> jsstring" where
  "data_url d = js ''data:'' @ mimeType d @ js '';base64,'' @ data d"

fun first_image_part :: "part list \<Rightarrow> jsstring option" where
  "first_image_part [] = None"
| "first_image_part (None # parts) = first_image_part parts"
| "first_image_part (Some d # parts) =
     (if startsWith (mimeType d) (js ''image/'') then Some (data_url d)
      else first_image_part parts)"

fun first_image :: "candidate list \<Rightarrow> jsstring option" where
  "first_image [] = None"
| "first_image (c # cs) =
     (case first_image_part c of Some url \<Rightarrow> Some url | None \<Rightarrow> first_image cs)"

definition generatePlatformImage_settle :: "image_response outcome \<Rightarrow> jsstring outcome" where
  "generatePlatformImage_settle r =
     (case r of
        Inl e \<Rightarrow> Inl e
      | Inr response \<Rightarrow>
          (case first_image (case response of None \<Rightarrow> [] | Some cs \<Rightarrow> cs) of
             Some url \<Rightarrow> Inr url
           | None \<Rightarrow> Inl (JsError (Some (js ''No image data found in response'')))))"

text \<open>An example of inline image data.\<close>

definition png :: inline_data where
  "png = \<lparr>mimeType = js ''image/png'', data = js ''AA==''\<rparr>"

lemmas service_defs =
  getAIClient_def ensureApiKey_def checkApiKeyConnection_def getImageModelName_def
  generatePlatformText_request_def generatePlatformText_settle_def
  refineContent_request_def refineContent_settle_def
  generatePlatformImage_request_def generatePlatformImage_settle_def

section \<open>Key handling: lemmas\<close>

lemma message_key_missing [simp]:
  "message key_missing = Some (js ''API Key not found. Please select a key.'')"
  by (simp add: key_missing_def)

lemma getAIClient_Inr_iff: "(\<exists>k. getAIClient env = Inr k) \<longleftrightarrow> truthy_opt (API_KEY env)"
  by (auto simp: getAIClient_def truthy_def split: option.splits)

lemma getAIClient_Inl_iff:
  "getAIClient env = Inl e \<longleftrightarrow> \<not> truthy_opt (API_KEY env) \<and> e = key_missing"
  by (auto simp: getAIClient_def truthy_def split: option.splits)

lemma getAIClient_cases:
  obtains (missing) "\<not> truthy_opt (API_KEY env)" and "getAIClient env = Inl key_missing"
    | (present) k where "truthy_opt (API_KEY env)" and "getAIClient env = Inr k"
  by (cases "getAIClient env") (auto simp: getAIClient_def truthy_def split: option.splits if_splits)

lemma no_studio_check_eq_ensure:
  "aistudio env = None \<Longrightarrow> checkApiKeyConnection env = ensureApiKey env"
  by (simp add: checkApiKeyConnection_def ensureApiKey_def)

section \<open>Image responses: lemmas\<close>

lemma first_image_part_Some:
  "first_image_part ps = Some url \<Longrightarrow>
     \<exists>d. Some d \<in> set ps \<and> startsWith (mimeType d) (js ''image/'') \<and> url = data_url d"
  by (induction ps rule: first_image_part.induct) (auto split: if_splits)

lemma first_image_part_None:
  "first_image_part ps = None \<longleftrightarrow>
     (\<forall>d. Some d \<in> set ps \<longrightarrow> \<not> startsWith (mimeType d) (js ''image/''))"
  by (induction ps rule: first_image_part.induct) auto

lemma first_image_Some:
  "first_image cs = Some url \<Longrightarrow>
     \<exists>c\<in>set cs. \<exists>d. Some d \<in> set c \<and> startsWith (mimeType d) (js ''image/'') \<and> url = data_url d"
  by (induction cs) (auto split: option.splits dest: first_image_part_Some)

lemma first_image_None:
  "first_image cs = None \<longleftrightarrow>
     (\<forall>c\<in>set cs. \<forall>d. Some d \<in> set c \<longrightarrow> \<not> startsWith (mimeType d) (js ''image/''))"
  by (induction cs) (auto simp: first_image_part_None [symmetric] split: option.splits)

lemma image_settle_Inl: "generatePlatformImage_settle (Inl e) = Inl e"
  by (simp add: generatePlatformImage_settle_def)

lemma image_settle_png:
  "generatePlatformImage_settle (Inr (Some [[Some png]])) =
     Inr (js ''data:image/png;base64,AA=='')"
  by (simp add: generatePlatformImage_settle_def png_def data_url_def startsWith_iff js_def)

lemma data_url_prefix:
  "startsWith (mimeType d) (js ''image/'') \<Longrightarrow> startsWith (data_url d) (js ''data:image/'')"
proof -
  assume "startsWith (mimeType d) (js ''image/'')"
  then obtain t where "mimeType d = js ''image/'' @ t"
    by (auto simp: startsWith_iff)
  then have "data_url d = js ''data:image/'' @ t @ js '';base64,'' @ data d"
    by (simp add: data_url_def js_def)
  then show ?thesis
    by (simp only: startsWith_append)
qed

section \<open>Properties of the service\<close>

text \<open>
  Each of the three calls throws before anything is sent exactly when the environment
  holds no usable key (\<open>API_KEY\<close> undefined or empty), and then with the message of
  \<open>getAIClient\<close>.
\<close>

lemma requests_need_key:
  "generatePlatformText_request env plat tp tn lg kw bv th mt =
     (if truthy_opt (API_KEY env)
      then Inr \<lparr>text_model = getModelName mt, contents = tp,
                systemInstruction = text_systemInstruction plat tn lg kw bv th,
                temperature_tenths = 7\<rparr>
      else Inl key_missing) \<and>
   refineContent_request env plat cur act tn lg mt =
     (if truthy_opt (API_KEY env)
      then Inr \<lparr>text_model = getModelName mt,
                contents = js_lines [js ''Original Text:'', cur],
                systemInstruction = refine_systemInstruction plat act tn lg,
                temperature_tenths = 7\<rparr>
      else Inl key_missing) \<and>
   generatePlatformImage_request env plat tp ctx tn mt =
     (if truthy_opt (API_KEY env)
      then Inr \<lparr>image_model = getImageModelName mt, prompt = image_prompt plat tp ctx tn,
                request_aspectRatio = aspectRatio (PLATFORM_CONFIG plat)\<rparr>
      else Inl key_missing)"
  by (rule getAIClient_cases [of env])
     (simp_all add: generatePlatformText_request_def refineContent_request_def
        generatePlatformImage_request_def)

text \<open>
  The image prompt reads at most the first 300 code units of the post text: two texts
  that agree on them give the same prompt.
\<close>

lemma image_prompt_reads_300:
  "image_prompt plat tp ctx tn = image_prompt plat tp (substring0 300 ctx) tn"
  by (simp add: image_prompt_def substring0_def)

text \<open>
  \<open>generatePlatformImage\<close> fails with \<open>No image data found in response\<close> exactly
  when no part of any candidate carries inline data of an image type; otherwise it
  returns a data URL.
\<close>

lemma image_settle_no_image:
  "generatePlatformImage_settle (Inr (Some cs)) =
     Inl (JsError (Some (js ''No image data found in response''))) \<longleftrightarrow>
   (\<forall>c\<in>set cs. \<forall>d. Some d \<in> set c \<longrightarrow> \<not> startsWith (mimeType d) (js ''image/''))"
  by (simp add: generatePlatformImage_settle_def first_image_None [symmetric]
      split: option.splits)

lemma image_settle_no_image_witness:
  "generatePlatformImage_settle
     (Inr (Some [[None, Some \<lparr>mimeType = js ''text/plain'', data = js ''eA==''\<rparr>], []])) =
   Inl (JsError (Some (js ''No image data found in response'')))"
  by (rule image_settle_no_image [THEN iffD2]) (simp add: startsWith_iff js_def)

text \<open>
  C40. The data URL that \<open>generatePlatformImage\<close> returns is built from the first part, in
  the order of the response, whose inline data has an image type.
\<close>

theorem image_settle_first_part:
  assumes "\<forall>c\<in>set cs. \<forall>d. Some d \<in> set c \<longrightarrow> \<not> startsWith (mimeType d) (js ''image/'')"
    and "\<forall>d. Some d \<in> set ps \<longrightarrow> \<not> startsWith (mimeType d) (js ''image/'')"
    and "startsWith (mimeType d) (js ''image/'')"
  shows "generatePlatformImage_settle (Inr (Some (cs @ (ps @ Some d # qs) # ds))) =
           Inr (data_url d)"
proof -
  have part: "first_image_part (ps @ Some d # qs) = Some (data_url d)"
    using assms(2,3) by (induction ps rule: first_image_part.induct) auto
  have "\<forall>c\<in>set cs. first_image_part c = None"
    using assms(1) by (simp add: first_image_part_None)
  then have "first_image (cs @ (ps @ Some d # qs) # ds) = Some (data_url d)"
    using part by (induction cs) simp_all
  then show ?thesis
    by (simp add: generatePlatformImage_settle_def)
qed

theorem image_settle_first_part_witness:
  "generatePlatformImage_settle
     (Inr (Some [[None], [Some \<lparr>mimeType = js ''text/plain'', data = js ''eA==''\<rparr>,
                          Some \<lparr>mimeType = js ''image/png'', data = js ''AA==''\<rparr>,
                          Some \<lparr>mimeType = js ''image/gif'', data = js ''BB==''\<rparr>]])) =
   Inr (js ''data:image/png;base64,AA=='')"
  using image_settle_first_part
    [of "[[None]]" "[Some \<lparr>mimeType = js ''text/plain'', data = js ''eA==''\<rparr>]"
        "\<lparr>mimeType = js ''image/png'', data = js ''AA==''\<rparr>"
        "[Some \<lparr>mimeType = js ''image/gif'', data = js ''BB==''\<rparr>]" "[]"]
  by (simp add: startsWith_iff data_url_def js_def)

text \<open>
  Outside AI Studio the connection check agrees with the service: it reports a
  connection exactly when \<open>getAIClient\<close> can build a client.
\<close>

lemma connection_check_sound:
  "aistudio env = None \<Longrightarrow> checkApiKeyConnection env \<longleftrightarrow> (\<exists>k. getAIClient env = Inr k)"
  by (simp add: checkApiKeyConnection_def getAIClient_Inr_iff)

lemma connection_check_sound_witness:
  "checkApiKeyConnection \<lparr>aistudio = None, API_KEY = Some (js ''key'')\<rparr> \<longleftrightarrow>
     (\<exists>k. getAIClient \<lparr>aistudio = None, API_KEY = Some (js ''key'')\<rparr> = Inr k)"
  by (rule connection_check_sound) simp

end
