(* ===== verification/Pipeline.thy ===== *)
theory Pipeline
  imports Gemini_Service
begin

text \<open>
  The per-platform pipeline of \<^verbatim>\<open>src/App.tsx\<close>: the updates that \<open>handleGenerate\<close> and
  \<open>handleRefine\<close> apply to one slot of the result table, each the body of one
  \<open>setResults\<close> updater; the table update itself; the state machine the statuses are
  meant to follow; and the pipeline of one platform run on its own, from the reset to its
  terminal status. The lemmas give every field of every patch, show that a patch moves the
  status along the state machine, and characterise the terminal states of a lone pipeline.
\<close>

section \<open>The result table\<close>

definition INITIAL_STATE :: generation_state where
  "INITIAL_STATE p =
     \<lparr>platform = p, text' = [], imageUrl = None, imageEnabled = True, status = Idle,
      error = None\<rparr>"

text \<open>
  \<open>setResults(prev => ({...prev, [platform]: f(prev[platform])}))\<close>: only the slot of
  \<open>platform\<close> is written.
\<close>

definition patch ::
  "platform \<Rightarrow> (generation_result \<Rightarrow> generation_result) \<Rightarrow> generation_state \<Rightarrow> generation_state"
  where
  "patch p f tbl = tbl(p := f (tbl p))"

section \<open>Patches of one slot\<close>

definition reset_result :: "bool \<Rightarrow> generation_result \<Rightarrow> generation_result" where
  "reset_result images r =
     r\<lparr>status := Loading_text, error := None, imageEnabled := images, imageUrl := None\<rparr>"

definition text_ready :: "bool \<Rightarrow> jsstring \<Rightarrow> generation_result \<Rightarrow> generation_result" where
  "text_ready images t r =
     r\<lparr>text' := t, status := (if images then Loading_image else Completed)\<rparr>"

definition image_ready :: "jsstring \<Rightarrow> generation_result \<Rightarrow> generation_result" where
  "image_ready url r = r\<lparr>imageUrl := Some url, status := Completed\<rparr>"

definition generation_failed :: "js_error \<Rightarrow> generation_result \<Rightarrow> generation_result" where
  "generation_failed e r =
     r\<lparr>status := Error, error := Some (js_or (message e) (js ''Generation failed''))\<rparr>"

definition refine_started :: "generation_result \<Rightarrow> generation_result" where
  "refine_started r = r\<lparr>status := Refining\<rparr>"

definition refine_ready :: "jsstring \<Rightarrow> generation_result \<Rightarrow> generation_result" where
  "refine_ready t r = r\<lparr>text' := t, status := Completed\<rparr>"

definition refine_failed :: "generation_result \<Rightarrow> generation_result" where
  "refine_failed r = r\<lparr>status := Completed, error := Some (js ''Refinement failed'')\<rparr>"

lemmas [patch_defs] =
  reset_result_def text_ready_def image_ready_def generation_failed_def
  refine_started_def refine_ready_def refine_failed_def

section \<open>The status state machine\<close>

text \<open>
  The transitions a status is meant to take: a submission restarts the pipeline from any
  status; text generation leads to image generation, completion or error; image
  generation to completion or error; refinement leaves and re-enters completion.
\<close>

inductive transition :: "status \<Rightarrow> status \<Rightarrow> bool" where
  restart: "transition s Loading_text"
| text_then_image: "transition Loading_text Loading_image"
| text_completed: "transition Loading_text Completed"
| text_error: "transition Loading_text Error"
| image_completed: "transition Loading_image Completed"
| image_error: "transition Loading_image Error"
| refine: "transition Completed Refining"
| refined: "transition Refining Completed"

code_pred transition .

inductive_simps transition_simps [simp]:
  "transition s Idle"
  "transition s Loading_text"
  "transition s Loading_image"
  "transition s Completed"
  "transition s Error"
  "transition s Refining"

inductive_cases transition_from_Error: "transition Error s"
inductive_cases transition_from_Idle: "transition Idle s"

definition terminal :: "status \<Rightarrow> bool" where
  "terminal st \<longleftrightarrow> st = Completed \<or> st = Error"

definition in_flight :: "status \<Rightarrow> bool" where
  "in_flight st \<longleftrightarrow> st = Loading_text \<or> st = Loading_image \<or> st = Refining"

section \<open>One pipeline on its own\<close>

text \<open>
  The \<open>async\<close> callback that \<open>handleGenerate\<close> maps over the platforms, for one
  platform and with the outcomes of its two calls given: the text call, then (if images
  are requested and the text call succeeded) the image call; any exception ends in the
  \<open>catch\<close> block. The outcomes are those of \<open>generatePlatformText\<close> and
  \<open>generatePlatformImage\<close>.
\<close>

definition after_text :: "bool \<Rightarrow> jsstring outcome \<Rightarrow> generation_result \<Rightarrow> generation_result" where
  "after_text images r1 r =
     (case r1 of Inl e \<Rightarrow> generation_failed e r | Inr t \<Rightarrow> text_ready images t r)"

definition after_image :: "jsstring outcome \<Rightarrow> generation_result \<Rightarrow> generation_result" where
  "after_image r2 r =
     (case r2 of Inl e \<Rightarrow> generation_failed e r | Inr url \<Rightarrow> image_ready url r)"

definition run_pipeline ::
  "bool \<Rightarrow> jsstring outcome \<Rightarrow> jsstring outcome \<Rightarrow> generation_result \<Rightarrow> generation_result" where
  "run_pipeline images r1 r2 r =
     (case r1 of
        Inl e \<Rightarrow> generation_failed e (reset_result images r)
      | Inr t \<Rightarrow>
          if images then after_image r2 (text_ready images t (reset_result images r))
          else text_ready images t (reset_result images r))"

section \<open>Fields of the patches\<close>

lemma patch_apply [simp]: "patch p f tbl q = (if q = p then f (tbl p) else tbl q)"
  by (simp add: patch_def)

lemma patch_other [frame_simps]: "q \<noteq> p \<Longrightarrow> patch p f tbl q = tbl q"
  by simp

lemma patch_patch_same: "patch p f (patch p g tbl) = patch p (f \<circ> g) tbl"
  by (simp add: fun_eq_iff)

lemma patch_commute: "p \<noteq> q \<Longrightarrow> patch p f (patch q g tbl) = patch q g (patch p f tbl)"
  by (auto simp: fun_eq_iff)

lemma INITIAL_STATE_simps [simp]:
  "platform (INITIAL_STATE p) = p"
  "text' (INITIAL_STATE p) = []"
  "imageUrl (INITIAL_STATE p) = None"
  "imageEnabled (INITIAL_STATE p) = True"
  "status (INITIAL_STATE p) = Idle"
  "error (INITIAL_STATE p) = None"
  by (simp_all add: INITIAL_STATE_def)

lemma reset_result_simps [simp]:
  "platform (reset_result b r) = platform r"
  "text' (reset_result b r) = text' r"
  "imageUrl (reset_result b r) = None"
  "imageEnabled (reset_result b r) = b"
  "status (reset_result b r) = Loading_text"
  "error (reset_result b r) = None"
  by (simp_all add: reset_result_def)

lemma text_ready_simps [simp]:
  "platform (text_ready b t r) = platform r"
  "text' (text_ready b t r) = t"
  "imageUrl (text_ready b t r) = imageUrl r"
  "imageEnabled (text_ready b t r) = imageEnabled r"
  "status (text_ready b t r) = (if b then Loading_image else Completed)"
  "error (text_ready b t r) = error r"
  by (simp_all add: text_ready_def)

lemma image_ready_simps [simp]:
  "platform (image_ready u r) = platform r"
  "text' (image_ready u r) = text' r"
  "imageUrl (image_ready u r) = Some u"
  "imageEnabled (image_ready u r) = imageEnabled r"
  "status (image_ready u r) = Completed"
  "error (image_ready u r) = error r"
  by (simp_all add: image_ready_def)

lemma generation_failed_simps [simp]:
  "platform (generation_failed e r) = platform r"
  "text' (generation_failed e r) = text' r"
  "imageUrl (generation_failed e r) = imageUrl r"
  "imageEnabled (generation_failed e r) = imageEnabled r"
  "status (generation_failed e r) = Error"
  "error (generation_failed e r) = Some (js_or (message e) (js ''Generation failed''))"
  by (simp_all add: generation_failed_def)

lemma refine_started_simps [simp]:
  "platform (refine_started r) = platform r"
  "text' (refine_started r) = text' r"
  "imageUrl (refine_started r) = imageUrl r"
  "imageEnabled (refine_started r) = imageEnabled r"
  "status (refine_started r) = Refining"
  "error (refine_started r) = error r"
  by (simp_all add: refine_started_def)

lemma refine_ready_simps [simp]:
  "platform (refine_ready t r) = platform r"
  "text' (refine_ready t r) = t"
  "imageUrl (refine_ready t r) = imageUrl r"
  "imageEnabled (refine_ready t r) = imageEnabled r"
  "status (refine_ready t r) = Completed"
  "error (refine_ready t r) = error r"
  by (simp_all add: refine_ready_def)

lemma refine_failed_simps [simp]:
  "platform (refine_failed r) = platform r"
  "text' (refine_failed r) = text' r"
  "imageUrl (refine_failed r) = imageUrl r"
  "imageEnabled (refine_failed r) = imageEnabled r"
  "status (refine_failed r) = Completed"
  "error (refine_failed r) = Some (js ''Refinement failed'')"
  by (simp_all add: refine_failed_def)

lemma generation_failed_error_nonempty: "error (generation_failed e r) \<noteq> Some []"
  by (simp add: js_or_nonempty)

lemma after_text_simps [simp]:
  "after_text b (Inl e) r = generation_failed e r"
  "after_text b (Inr t) r = text_ready b t r"
  by (simp_all add: after_text_def)

lemma after_image_simps [simp]:
  "after_image (Inl e) r = generation_failed e r"
  "after_image (Inr u) r = image_ready u r"
  by (simp_all add: after_image_def)

lemma platform_after_text [simp]: "platform (after_text b o1 r) = platform r"
  by (cases o1) simp_all

lemma platform_after_image [simp]: "platform (after_image o2 r) = platform r"
  by (cases o2) simp_all

section \<open>Patches follow the state machine\<close>

lemma terminal_not_in_flight: "terminal st \<Longrightarrow> \<not> in_flight st"
  by (auto simp: terminal_def in_flight_def)

lemma status_cases:
  obtains (idle) "st = Idle" | (flight) "in_flight st" | (final) "terminal st"
  by (cases st) (auto simp: in_flight_def terminal_def)

lemma transition_reset: "transition (status r) (status (reset_result b r))"
  by simp

lemma transition_after_text:
  "status r = Loading_text \<Longrightarrow> transition (status r) (status (after_text b o1 r))"
  by (cases o1) simp_all

lemma transition_after_image:
  "status r = Loading_image \<Longrightarrow> transition (status r) (status (after_image o2 r))"
  by (cases o2) simp_all

lemma transition_refine_started:
  "status r = Completed \<Longrightarrow> transition (status r) (status (refine_started r))"
  by simp

lemma transition_refine_settled:
  "status r = Refining \<Longrightarrow>
     transition (status r) (status (refine_ready t r)) \<and>
     transition (status r) (status (refine_failed r))"
  by simp

lemma no_transition_out_of_Error: "transition Error s \<Longrightarrow> s = Loading_text"
  by (erule transition_from_Error)

lemma no_transition_out_of_Idle: "transition Idle s \<Longrightarrow> s = Loading_text"
  by (erule transition_from_Idle)

section \<open>Terminal states of a lone pipeline\<close>

lemma run_pipeline_terminal: "terminal (status (run_pipeline b o1 o2 r))"
  by (cases o1; cases o2) (simp_all add: run_pipeline_def terminal_def)

lemma run_pipeline_platform [simp]: "platform (run_pipeline b o1 o2 r) = platform r"
  by (cases o1; cases o2) (simp_all add: run_pipeline_def)

lemma run_pipeline_imageEnabled [simp]: "imageEnabled (run_pipeline b o1 o2 r) = b"
  by (cases o1; cases o2) (simp_all add: run_pipeline_def)

lemma run_pipeline_Completed_iff:
  "status (run_pipeline b o1 o2 r) = Completed \<longleftrightarrow> isl o1 = False \<and> (b \<longrightarrow> isl o2 = False)"
  by (cases o1; cases o2) (simp_all add: run_pipeline_def)

section \<open>Statuses in flight\<close>

lemma in_flight_simps [simp]:
  "in_flight Idle = False" "in_flight Loading_text = True" "in_flight Loading_image = True"
  "in_flight Completed = False" "in_flight Error = False" "in_flight Refining = True"
  by (simp_all add: in_flight_def)

lemma status_after_image [simp]:
  "status (after_image r x) = (if isl r then Error else Completed)"
  by (cases r) (simp_all add: after_image_def)

section \<open>Properties of a lone pipeline\<close>

text \<open>
  The statuses a slot shows while its pipeline runs alone: before the reset, after it,
  after the text call and, if the image call is made, after the image call.
\<close>

definition pipeline_statuses ::
  "bool \<Rightarrow> jsstring outcome \<Rightarrow> jsstring outcome \<Rightarrow> generation_result \<Rightarrow> status list" where
  "pipeline_statuses images r1 r2 r =
     (let r0 = reset_result images r; rt = after_text images r1 r0 in
      [status r, status r0, status rt]
      @ (if images \<and> \<not> isl r1 then [status (after_image r2 rt)] else []))"

text \<open>
  C19. The statuses of a lone pipeline form a path of the state machine that starts at the
  slot's status and ends at the status \<open>run_pipeline\<close> leaves, and that status is
  terminal: \<open>completed\<close> or \<open>error\<close>.
\<close>

theorem pipeline_follows_machine:
  "successively transition (pipeline_statuses images r1 r2 r) \<and>
   last (pipeline_statuses images r1 r2 r) = status (run_pipeline images r1 r2 r) \<and>
   terminal (status (run_pipeline images r1 r2 r))"
  by (cases r1; cases r2; cases images)
     (simp_all add: pipeline_statuses_def run_pipeline_def terminal_def)

text \<open>
  C33. A lone pipeline ends \<open>completed\<close> if every call it makes succeeds and \<open>error\<close>
  otherwise; the image call is made only when images are requested and the text call
  succeeded. The text is that of the text call whenever that call succeeded, also when
  the image call then fails, and the error message is never empty.
\<close>

theorem pipeline_outcome:
  "status (run_pipeline images r1 r2 r) =
     (if isl r1 \<or> (images \<and> isl r2) then Error else Completed) \<and>
   text' (run_pipeline images r1 r2 r) = (case r1 of Inl e \<Rightarrow> text' r | Inr t \<Rightarrow> t) \<and>
   imageUrl (run_pipeline images r1 r2 r) =
     (case (r1, r2) of (Inr t, Inr url) \<Rightarrow> if images then Some url else None | _ \<Rightarrow> None) \<and>
   error (run_pipeline images r1 r2 r) \<noteq> Some [] \<and>
   (error (run_pipeline images r1 r2 r) = None \<longleftrightarrow>
      status (run_pipeline images r1 r2 r) = Completed)"
  by (cases r1; cases r2; cases images) (simp_all add: run_pipeline_def js_or_nonempty)

text \<open>
  The state machine has no way out of \<open>error\<close> or \<open>idle\<close> but a new submission:
  the only transition from either leads to \<open>loading_text\<close>.
\<close>

lemma error_needs_resubmission:
  "(transition Error st \<or> transition Idle st) \<longleftrightarrow> st = Loading_text"
  by (cases st) simp_all

end
