(* ===== verification/App_State.thy ===== *)
theory App_State
  imports Pipeline
begin

text \<open>
  The state of the \<open>App\<close> component of \<^verbatim>\<open>src/App.tsx\<close>: one field per \<open>useState\<close>
  hook (\<open>keywords\<close> is spelled \<open>keywords'\<close>, the plain word being reserved), the
  browser's stored history, and the run-time state that React does not hold but
  that decides what happens next: the promises still pending (\<open>tasks\<close>), the
  environment the service reads the key from (\<open>env\<close>) and a counter that tells the
  batches of \<open>handleGenerate\<close> apart. The theory also holds the handlers that only set
  fields, \<open>togglePlatform\<close> among them, and shows that the set of enabled platforms
  never becomes empty and never holds a platform twice.
\<close>

section \<open>Pending promises\<close>

text \<open>
  The values a run of \<open>handleGenerate\<close> closes over; every pipeline of the batch keeps
  using them, whatever the user changes while it runs.
\<close>

record gen_params =
  p_topic :: jsstring
  p_tone :: tone
  p_language :: language
  p_keywords :: jsstring
  p_brandVoice :: jsstring
  p_isThread :: bool
  p_modelTier :: model_tier
  p_generateImages :: bool

text \<open>
  A pending promise: a pipeline awaiting \<open>generatePlatformText\<close>, a pipeline awaiting
  \<open>generatePlatformImage\<close> (it holds the text it passed as context), or a run of
  \<open>handleRefine\<close> awaiting \<open>refineContent\<close>. The number is the batch.
\<close>

datatype task =
    Text_task platform gen_params nat
  | Image_task platform gen_params nat jsstring
  | Refine_task platform

fun task_platform :: "task \<Rightarrow> platform" where
  "task_platform (Text_task p gp b) = p"
| "task_platform (Image_task p gp b t) = p"
| "task_platform (Refine_task p) = p"

fun task_batch :: "task \<Rightarrow> nat option" where
  "task_batch (Text_task p gp b) = Some b"
| "task_batch (Image_task p gp b t) = Some b"
| "task_batch (Refine_task p) = None"

definition nth_task :: "task list \<Rightarrow> nat \<Rightarrow> task option" where
  "nth_task ts i = (if i < length ts then Some (ts ! i) else None)"

definition remove_nth :: "nat \<Rightarrow> 'a list \<Rightarrow> 'a list" where
  "remove_nth i xs = take i xs @ drop (Suc i) xs"

section \<open>Stored history\<close>

text \<open>
  The entry \<open>omnipost_history\<close> of \<open>localStorage\<close>: absent, not parsable as JSON, or
  the saved list.
\<close>

datatype stored_history = No_entry | Unparsable | Saved "generation_history_item list"

fun load_history :: "stored_history \<Rightarrow> generation_history_item list" where
  "load_history No_entry = []"
| "load_history Unparsable = []"
| "load_history (Saved h) = h"

section \<open>The state\<close>

record app_state =
  topic :: jsstring
  tone :: tone
  language :: language
  enabledPlatforms :: "platform list"
  results :: generation_state
  isGlobalLoading :: bool
  scheduledPosts :: "scheduled_post list"
  keywords' :: jsstring
  brandVoice :: jsstring
  isThread :: bool
  modelTier :: model_tier
  generateImages :: bool
  showAnalytics :: bool
  showSettings :: bool
  isApiKeyConnected :: bool
  history :: "generation_history_item list"
  stored :: stored_history
  tasks :: "task list"
  env :: js_env
  next_batch :: nat

definition init_state :: "stored_history \<Rightarrow> js_env \<Rightarrow> app_state" where
  "init_state st e =
     \<lparr>topic = [], tone = PROFESSIONAL, language = ENGLISH,
      enabledPlatforms = Platform_values, results = INITIAL_STATE,
      isGlobalLoading = False, scheduledPosts = [],
      keywords' = [], brandVoice = [], isThread = False,
      modelTier = Flash_2_5, generateImages = True,
      showAnalytics = False, showSettings = False, isApiKeyConnected = False,
      history = load_history st, stored = Saved (load_history st),
      tasks = [], env = e, next_batch = 0\<rparr>"

definition capture :: "app_state \<Rightarrow> gen_params" where
  "capture s =
     \<lparr>p_topic = topic s, p_tone = tone s, p_language = language s,
      p_keywords = keywords' s, p_brandVoice = brandVoice s, p_isThread = isThread s,
      p_modelTier = modelTier s, p_generateImages = generateImages s\<rparr>"

section \<open>Handlers that set fields\<close>

text \<open>
  \<open>enabledPlatforms\<close> is a \<open>Set\<close>: a list without repetition in insertion order;
  \<open>delete\<close> removes the element, \<open>add\<close> appends it.
\<close>

definition togglePlatform :: "platform \<Rightarrow> app_state \<Rightarrow> app_state" where
  "togglePlatform p s =
     (if p \<in> set (enabledPlatforms s)
      then (if length (enabledPlatforms s) > 1
            then s\<lparr>enabledPlatforms := remove1 p (enabledPlatforms s)\<rparr>
            else s)
      else s\<lparr>enabledPlatforms := enabledPlatforms s @ [p]\<rparr>)"

text \<open>The mount effect \<open>initCheck\<close> and the connection callback of the settings modal.\<close>

definition initCheck :: "app_state \<Rightarrow> app_state" where
  "initCheck s =
     (let connected = checkApiKeyConnection (env s);
          s1 = s\<lparr>isApiKeyConnected := connected\<rparr>
      in if \<not> connected then s1\<lparr>showSettings := True\<rparr> else s1)"

definition onConnectionStatusChange :: "bool \<Rightarrow> app_state \<Rightarrow> app_state" where
  "onConnectionStatusChange connected s = s\<lparr>isApiKeyConnected := connected\<rparr>"

lemmas [handler_defs] = togglePlatform_def initCheck_def onConnectionStatusChange_def

section \<open>Tasks: lemmas\<close>

lemma nth_task_Some_iff: "nth_task ts i = Some t \<longleftrightarrow> i < length ts \<and> ts ! i = t"
  by (auto simp: nth_task_def)

lemma nth_task_in_set: "nth_task ts i = Some t \<Longrightarrow> t \<in> set ts"
  by (auto simp: nth_task_def split: if_splits)

lemma in_set_nth_task: "t \<in> set ts \<Longrightarrow> \<exists>i. nth_task ts i = Some t"
  by (auto simp: nth_task_def in_set_conv_nth)

lemma nth_task_Nil [simp]: "nth_task [] i = None"
  by (simp add: nth_task_def)

lemma nth_task_0 [simp]: "nth_task (t # ts) 0 = Some t"
  by (simp add: nth_task_def)

lemma nth_task_split:
  assumes "nth_task ts i = Some t"
  obtains A B where "ts = A @ t # B" and "remove_nth i ts = A @ B"
    and "\<forall>t'. ts[i := t'] = A @ t' # B"
proof
  from assms have i: "i < length ts" and t: "ts ! i = t"
    by (simp_all add: nth_task_Some_iff)
  show "ts = take i ts @ t # drop (Suc i) ts"
    using id_take_nth_drop [OF i] t by simp
  show "remove_nth i ts = take i ts @ drop (Suc i) ts"
    by (simp add: remove_nth_def)
  show "\<forall>t'. ts[i := t'] = take i ts @ t' # drop (Suc i) ts"
    using i by (simp add: upd_conv_take_nth_drop)
qed

lemma length_remove_nth: "i < length xs \<Longrightarrow> length (remove_nth i xs) = length xs - 1"
  by (simp add: remove_nth_def)

lemma set_remove_nth_subset: "set (remove_nth i xs) \<subseteq> set xs"
  by (auto simp: remove_nth_def dest: in_set_takeD in_set_dropD)

lemma mset_remove_nth:
  "i < length xs \<Longrightarrow> add_mset (xs ! i) (mset (remove_nth i xs)) = mset xs"
proof -
  assume "i < length xs"
  then have "xs = take i xs @ xs ! i # drop (Suc i) xs"
    by (simp add: id_take_nth_drop)
  then have "mset xs = mset (take i xs @ xs ! i # drop (Suc i) xs)"
    by simp
  then show ?thesis
    by (simp add: remove_nth_def)
qed

lemma set_remove_nth:
  "i < length xs \<Longrightarrow> set xs = insert (xs ! i) (set (remove_nth i xs))"
  using mset_remove_nth [of i xs] by (metis set_mset_add_mset_insert set_mset_mset)

lemma remove_nth_0 [simp]: "remove_nth 0 (x # xs) = xs"
  by (simp add: remove_nth_def)

lemma remove_nth_Suc [simp]: "remove_nth (Suc i) (x # xs) = x # remove_nth i xs"
  by (simp add: remove_nth_def)

section \<open>The initial state\<close>

lemma init_state_simps [simp]:
  "topic (init_state st e) = []"
  "enabledPlatforms (init_state st e) = Platform_values"
  "results (init_state st e) = INITIAL_STATE"
  "isGlobalLoading (init_state st e) = False"
  "scheduledPosts (init_state st e) = []"
  "generateImages (init_state st e) = True"
  "isApiKeyConnected (init_state st e) = False"
  "history (init_state st e) = load_history st"
  "stored (init_state st e) = Saved (load_history st)"
  "tasks (init_state st e) = []"
  "env (init_state st e) = e"
  "next_batch (init_state st e) = 0"
  by (simp_all add: init_state_def)

lemma capture_simps [simp]:
  "p_topic (capture s) = topic s"
  "p_tone (capture s) = tone s"
  "p_language (capture s) = language s"
  "p_keywords (capture s) = keywords' s"
  "p_brandVoice (capture s) = brandVoice s"
  "p_isThread (capture s) = isThread s"
  "p_modelTier (capture s) = modelTier s"
  "p_generateImages (capture s) = generateImages s"
  by (simp_all add: capture_def)

lemma capture_frame [simp]:
  "capture (s\<lparr>results := v1\<rparr>) = capture s"
  "capture (s\<lparr>tasks := v2\<rparr>) = capture s"
  "capture (s\<lparr>isGlobalLoading := v3\<rparr>) = capture s"
  "capture (s\<lparr>history := v4\<rparr>) = capture s"
  "capture (s\<lparr>stored := v5\<rparr>) = capture s"
  "capture (s\<lparr>next_batch := v6\<rparr>) = capture s"
  "capture (s\<lparr>scheduledPosts := v7\<rparr>) = capture s"
  "capture (s\<lparr>showSettings := v8\<rparr>) = capture s"
  "capture (s\<lparr>enabledPlatforms := v9\<rparr>) = capture s"
  "capture (s\<lparr>isApiKeyConnected := v10\<rparr>) = capture s"
  "capture (s\<lparr>env := v11\<rparr>) = capture s"
  by (simp_all add: capture_def)

section \<open>The enabled set\<close>

definition enabled_ok :: "app_state \<Rightarrow> bool" where
  "enabled_ok s \<longleftrightarrow> enabledPlatforms s \<noteq> [] \<and> distinct (enabledPlatforms s)"

lemma enabled_ok_init: "enabled_ok (init_state st e)"
  by (simp add: enabled_ok_def Platform_values_def)

lemma togglePlatform_frame [frame_simps]:
  "results (togglePlatform p s) = results s"
  "tasks (togglePlatform p s) = tasks s"
  "history (togglePlatform p s) = history s"
  "stored (togglePlatform p s) = stored s"
  "scheduledPosts (togglePlatform p s) = scheduledPosts s"
  "isGlobalLoading (togglePlatform p s) = isGlobalLoading s"
  "isApiKeyConnected (togglePlatform p s) = isApiKeyConnected s"
  "next_batch (togglePlatform p s) = next_batch s"
  "env (togglePlatform p s) = env s"
  by (simp_all add: togglePlatform_def)

lemma togglePlatform_nonempty:
  "enabledPlatforms s \<noteq> [] \<Longrightarrow> enabledPlatforms (togglePlatform p s) \<noteq> []"
proof (cases "p \<in> set (enabledPlatforms s)")
  case True
  assume ne: "enabledPlatforms s \<noteq> []"
  show ?thesis
  proof (cases "length (enabledPlatforms s) > 1")
    case long: True
    then have "length (remove1 p (enabledPlatforms s)) > 0"
      using True by (simp add: length_remove1)
    then show ?thesis using True long by (simp add: togglePlatform_def)
  next
    case False
    then show ?thesis using True ne by (simp add: togglePlatform_def)
  qed
next
  case False
  then show ?thesis by (simp add: togglePlatform_def)
qed

lemma togglePlatform_distinct:
  "distinct (enabledPlatforms s) \<Longrightarrow> distinct (enabledPlatforms (togglePlatform p s))"
  by (simp add: togglePlatform_def)

lemma togglePlatform_enabled_ok: "enabled_ok s \<Longrightarrow> enabled_ok (togglePlatform p s)"
  by (simp add: enabled_ok_def togglePlatform_nonempty togglePlatform_distinct)

lemma togglePlatform_set:
  "distinct (enabledPlatforms s) \<Longrightarrow>
   set (enabledPlatforms (togglePlatform p s)) =
     (if p \<in> set (enabledPlatforms s)
      then (if length (enabledPlatforms s) > 1 then set (enabledPlatforms s) - {p}
            else set (enabledPlatforms s))
      else insert p (set (enabledPlatforms s)))"
  by (simp add: togglePlatform_def)

lemma simple_handlers_frame [frame_simps]:
  "enabledPlatforms (initCheck s) = enabledPlatforms s"
  "scheduledPosts (initCheck s) = scheduledPosts s"
  "history (initCheck s) = history s"
  "stored (initCheck s) = stored s"
  "next_batch (initCheck s) = next_batch s"
  "isGlobalLoading (initCheck s) = isGlobalLoading s"
  "enabledPlatforms (onConnectionStatusChange c s) = enabledPlatforms s"
  "scheduledPosts (onConnectionStatusChange c s) = scheduledPosts s"
  "history (onConnectionStatusChange c s) = history s"
  "stored (onConnectionStatusChange c s) = stored s"
  "next_batch (onConnectionStatusChange c s) = next_batch s"
  "isGlobalLoading (onConnectionStatusChange c s) = isGlobalLoading s"
  by (simp_all add: initCheck_def onConnectionStatusChange_def Let_def)

lemma simple_handlers_slots [simp, frame_simps]:
  "results (initCheck s) = results s"
  "results (onConnectionStatusChange c s) = results s"
  "tasks (initCheck s) = tasks s"
  "tasks (onConnectionStatusChange c s) = tasks s"
  by (simp_all add: initCheck_def onConnectionStatusChange_def Let_def)

lemma initCheck_connected:
  "isApiKeyConnected (initCheck s) = checkApiKeyConnection (env s)"
  by (simp add: initCheck_def Let_def)

lemma initCheck_showSettings:
  "showSettings (initCheck s) = (showSettings s \<or> \<not> checkApiKeyConnection (env s))"
  by (simp add: initCheck_def Let_def)

section \<open>Example environments and states\<close>

definition env_keyed :: js_env where
  "env_keyed = \<lparr>aistudio = None, API_KEY = Some (js ''key'')\<rparr>"

definition env_bare :: js_env where
  "env_bare = \<lparr>aistudio = None, API_KEY = None\<rparr>"

text \<open>A state in which Twitter shows a completed post.\<close>

definition twitter_done :: app_state where
  "twitter_done =
     (init_state No_entry env_keyed)
       \<lparr>results := patch TWITTER (text_ready False (js ''Hello'')) INITIAL_STATE\<rparr>"

lemma have_key_examples [simp]:
  "truthy_opt (API_KEY env_keyed)" "\<not> truthy_opt (API_KEY env_bare)"
  by (simp_all add: env_keyed_def env_bare_def js_def)

lemma twitter_done_simps [simp]:
  "scheduledPosts twitter_done = []"
  "status (results twitter_done TWITTER) = Completed"
  "text' (results twitter_done TWITTER) = js ''Hello''"
  "imageUrl (results twitter_done TWITTER) = None"
  "enabledPlatforms twitter_done = Platform_values"
  "tasks twitter_done = []"
  "env twitter_done = env_keyed"
  by (simp_all add: twitter_done_def)

section \<open>Properties of the platform toggle\<close>

text \<open>
  Toggling a platform that is off switches it on; toggling one that is on switches it
  off, unless it is the only one enabled, in which case nothing changes. The result is
  again a non-empty set without repetition.
\<close>

lemma toggle_membership:
  assumes "enabled_ok s"
  shows "set (enabledPlatforms (togglePlatform p s)) =
           (if p \<notin> set (enabledPlatforms s) then insert p (set (enabledPlatforms s))
            else if set (enabledPlatforms s) = {p} then {p}
            else set (enabledPlatforms s) - {p}) \<and>
         enabled_ok (togglePlatform p s)"
proof -
  from assms have d: "distinct (enabledPlatforms s)" and ne: "enabledPlatforms s \<noteq> []"
    by (simp_all add: enabled_ok_def)
  have "length (enabledPlatforms s) > 1 \<longleftrightarrow> set (enabledPlatforms s) \<noteq> {p}"
    if "p \<in> set (enabledPlatforms s)"
  proof (cases "enabledPlatforms s")
    case Nil
    with ne show ?thesis by simp
  next
    case (Cons a as)
    with d that show ?thesis by (cases as) auto
  qed
  with d assms show ?thesis
    by (auto simp: togglePlatform_set togglePlatform_enabled_ok)
qed

lemma toggle_membership_witness:
  "set (enabledPlatforms (togglePlatform TWITTER (init_state No_entry env_keyed))) =
     {LINKEDIN, INSTAGRAM, THREADS} \<and>
   enabled_ok (togglePlatform TWITTER (init_state No_entry env_keyed))"
  using toggle_membership [OF enabled_ok_init, of TWITTER No_entry env_keyed]
  by (auto simp: Platform_values_def)

end
