(* ===== verification/Schedule_Queue.thy ===== *)
theory Schedule_Queue
  imports App_State
begin

text \<open>
  The schedule of \<^verbatim>\<open>src/App.tsx\<close>: \<open>handleSchedulePost\<close> copies a completed result
  into a new post, appends it and sorts the list by date with the stable
  \<open>Array.prototype.sort\<close>; \<open>deleteScheduledPost\<close> filters by id. The identifier that
  the source builds from the clock and the random generator is an argument. The lemmas
  show that the list is always in ascending order of date, where a new post lands among
  posts of the same date, that nothing else in the list moves or changes, and what a
  deletion removes.
\<close>

section \<open>Operations\<close>

definition newPost :: "platform \<Rightarrow> int \<Rightarrow> jsstring \<Rightarrow> generation_result \<Rightarrow> scheduled_post" where
  "newPost p date new_id result =
     \<lparr>post_id = new_id, post_platform = p, post_text = text' result,
      post_imageUrl = imageUrl result, scheduledDate = date\<rparr>"

definition handleSchedulePost :: "platform \<Rightarrow> int \<Rightarrow> jsstring \<Rightarrow> app_state \<Rightarrow> app_state" where
  "handleSchedulePost p date new_id s =
     (let result = results s p in
      if status result \<noteq> Completed then s
      else s\<lparr>scheduledPosts :=
              js_sort (ascending scheduledDate)
                (scheduledPosts s @ [newPost p date new_id result])\<rparr>)"

definition deleteScheduledPost :: "jsstring \<Rightarrow> app_state \<Rightarrow> app_state" where
  "deleteScheduledPost pid s =
     s\<lparr>scheduledPosts := filter (\<lambda>p. post_id p \<noteq> pid) (scheduledPosts s)\<rparr>"

lemmas [handler_defs] = handleSchedulePost_def deleteScheduledPost_def

section \<open>Invariants\<close>

definition queue_sorted :: "app_state \<Rightarrow> bool" where
  "queue_sorted s \<longleftrightarrow> sorted (map scheduledDate (scheduledPosts s))"

definition ids_unique :: "app_state \<Rightarrow> bool" where
  "ids_unique s \<longleftrightarrow> distinct (map post_id (scheduledPosts s))"

section \<open>Frames\<close>

lemma handleSchedulePost_frame [frame_simps]:
  "results (handleSchedulePost p d i s) = results s"
  "tasks (handleSchedulePost p d i s) = tasks s"
  "history (handleSchedulePost p d i s) = history s"
  "stored (handleSchedulePost p d i s) = stored s"
  "enabledPlatforms (handleSchedulePost p d i s) = enabledPlatforms s"
  "isGlobalLoading (handleSchedulePost p d i s) = isGlobalLoading s"
  "isApiKeyConnected (handleSchedulePost p d i s) = isApiKeyConnected s"
  "next_batch (handleSchedulePost p d i s) = next_batch s"
  "env (handleSchedulePost p d i s) = env s"
  by (simp_all add: handleSchedulePost_def Let_def)

lemma deleteScheduledPost_frame [frame_simps]:
  "results (deleteScheduledPost i s) = results s"
  "tasks (deleteScheduledPost i s) = tasks s"
  "history (deleteScheduledPost i s) = history s"
  "stored (deleteScheduledPost i s) = stored s"
  "enabledPlatforms (deleteScheduledPost i s) = enabledPlatforms s"
  "isGlobalLoading (deleteScheduledPost i s) = isGlobalLoading s"
  "isApiKeyConnected (deleteScheduledPost i s) = isApiKeyConnected s"
  "next_batch (deleteScheduledPost i s) = next_batch s"
  "env (deleteScheduledPost i s) = env s"
  by (simp_all add: deleteScheduledPost_def)

section \<open>Insertion\<close>

lemma newPost_simps [simp]:
  "post_id (newPost p d i r) = i"
  "post_platform (newPost p d i r) = p"
  "post_text (newPost p d i r) = text' r"
  "post_imageUrl (newPost p d i r) = imageUrl r"
  "scheduledDate (newPost p d i r) = d"
  by (simp_all add: newPost_def)

lemma scheduledPosts_handleSchedulePost:
  "scheduledPosts (handleSchedulePost p d i s) =
     (if status (results s p) = Completed
      then js_sort (ascending scheduledDate) (scheduledPosts s @ [newPost p d i (results s p)])
      else scheduledPosts s)"
  by (simp add: handleSchedulePost_def Let_def)

lemma handleSchedulePost_rejected:
  "status (results s p) \<noteq> Completed \<Longrightarrow> handleSchedulePost p d i s = s"
  by (simp add: handleSchedulePost_def Let_def)

lemma handleSchedulePost_queue_sorted:
  "queue_sorted s \<Longrightarrow> queue_sorted (handleSchedulePost p d i s)"
  by (simp add: queue_sorted_def scheduledPosts_handleSchedulePost sorted_js_sort_ascending)

lemma handleSchedulePost_mset:
  "mset (scheduledPosts (handleSchedulePost p d i s)) =
     (if status (results s p) = Completed
      then add_mset (newPost p d i (results s p)) (mset (scheduledPosts s))
      else mset (scheduledPosts s))"
  by (simp add: scheduledPosts_handleSchedulePost)

lemma handleSchedulePost_position:
  assumes "queue_sorted s" and "status (results s p) = Completed"
  shows "scheduledPosts (handleSchedulePost p d i s) =
           filter (\<lambda>q. scheduledDate q \<le> d) (scheduledPosts s)
           @ newPost p d i (results s p)
           # filter (\<lambda>q. d < scheduledDate q) (scheduledPosts s)"
  using assms
  by (simp add: scheduledPosts_handleSchedulePost queue_sorted_def js_sort_snoc)

section \<open>Deletion\<close>

lemma scheduledPosts_deleteScheduledPost [simp]:
  "scheduledPosts (deleteScheduledPost i s) = filter (\<lambda>p. post_id p \<noteq> i) (scheduledPosts s)"
  by (simp add: deleteScheduledPost_def)

lemma deleteScheduledPost_queue_sorted:
  "queue_sorted s \<Longrightarrow> queue_sorted (deleteScheduledPost i s)"
  by (simp add: queue_sorted_def sorted_filter)

lemma deleteScheduledPost_ids_unique:
  "ids_unique s \<Longrightarrow> ids_unique (deleteScheduledPost i s)"
  by (simp add: ids_unique_def distinct_map_filter)

lemma deleteScheduledPost_absent:
  "i \<notin> post_id ` set (scheduledPosts s) \<Longrightarrow> deleteScheduledPost i s = s"
proof -
  assume "i \<notin> post_id ` set (scheduledPosts s)"
  then have "filter (\<lambda>p. post_id p \<noteq> i) (scheduledPosts s) = scheduledPosts s"
    by (auto intro!: filter_True)
  then show ?thesis
    by (simp add: deleteScheduledPost_def)
qed

lemma deleteScheduledPost_gone:
  "i \<notin> post_id ` set (scheduledPosts (deleteScheduledPost i s))"
  by auto

lemma deleteScheduledPost_others:
  "j \<noteq> i \<Longrightarrow>
   filter (\<lambda>p. post_id p = j) (scheduledPosts (deleteScheduledPost i s)) =
   filter (\<lambda>p. post_id p = j) (scheduledPosts s)"
  by (simp, rule filter_cong) auto

lemma length_filter_neq_distinct:
  "distinct (map f xs) \<Longrightarrow> k \<in> f ` set xs \<Longrightarrow>
   Suc (length (filter (\<lambda>x. f x \<noteq> k) xs)) = length xs"
proof (induction xs)
  case Nil
  then show ?case by simp
next
  case (Cons a xs)
  show ?case
  proof (cases "f a = k")
    case True
    with Cons.prems have "k \<notin> f ` set xs" by auto
    then have "filter (\<lambda>x. f x \<noteq> k) xs = xs"
      by (auto intro!: filter_True)
    with True show ?thesis by simp
  next
    case False
    with Cons show ?thesis by auto
  qed
qed

lemma schedule_then_delete:
  assumes "queue_sorted s" and "i \<notin> post_id ` set (scheduledPosts s)"
  shows "deleteScheduledPost i (handleSchedulePost p d i s) = s"
proof (cases "status (results s p) = Completed")
  case True
  let ?old = "scheduledPosts s"
  have keep: "filter (\<lambda>q. post_id q \<noteq> i) (filter P ?old) = filter P ?old" for P
    using assms(2) by (intro filter_id_conv) auto
  have "filter (\<lambda>q. post_id q \<noteq> i) (scheduledPosts (handleSchedulePost p d i s)) = ?old"
    using assms(1) True
    by (simp add: handleSchedulePost_position keep sorted_filter_split queue_sorted_def
        del: filter_filter)
  then show ?thesis
    using True by (simp add: deleteScheduledPost_def handleSchedulePost_def Let_def)
next
  case False
  with assms(2) show ?thesis
    by (simp add: handleSchedulePost_rejected deleteScheduledPost_absent)
qed

lemma deleteScheduledPost_exactly_one:
  "ids_unique s \<Longrightarrow> i \<in> post_id ` set (scheduledPosts s) \<Longrightarrow>
   Suc (length (scheduledPosts (deleteScheduledPost i s))) = length (scheduledPosts s)"
  by (simp add: ids_unique_def length_filter_neq_distinct)

section \<open>Properties of the schedule\<close>

text \<open>
  C17. Scheduling a completed post puts a copy of its text and image, under the given date
  and identifier, behind every post of the same or an earlier date and before every later
  one; the posts already listed keep their order. Nothing else of the state changes.
\<close>

theorem schedule_inserts_stably:
  assumes "queue_sorted s" and "status (results s p) = Completed"
  shows "handleSchedulePost p d i s =
           s\<lparr>scheduledPosts :=
               filter (\<lambda>q. scheduledDate q \<le> d) (scheduledPosts s)
               @ \<lparr>post_id = i, post_platform = p, post_text = text' (results s p),
                  post_imageUrl = imageUrl (results s p), scheduledDate = d\<rparr>
               # filter (\<lambda>q. d < scheduledDate q) (scheduledPosts s)\<rparr>"
  using assms
  by (simp add: handleSchedulePost_def Let_def queue_sorted_def js_sort_snoc newPost_def)

theorem schedule_inserts_stably_witness:
  "handleSchedulePost TWITTER 20 (js ''b'')
     (handleSchedulePost TWITTER 20 (js ''a'') twitter_done) =
   twitter_done
     \<lparr>scheduledPosts :=
        [\<lparr>post_id = js ''a'', post_platform = TWITTER, post_text = js ''Hello'',
          post_imageUrl = None, scheduledDate = 20\<rparr>,
         \<lparr>post_id = js ''b'', post_platform = TWITTER, post_text = js ''Hello'',
          post_imageUrl = None, scheduledDate = 20\<rparr>]\<rparr>"
proof -
  let ?s1 = "handleSchedulePost TWITTER 20 (js ''a'') twitter_done"
  have 1: "?s1 = twitter_done
     \<lparr>scheduledPosts :=
        [\<lparr>post_id = js ''a'', post_platform = TWITTER, post_text = js ''Hello'',
          post_imageUrl = None, scheduledDate = 20\<rparr>]\<rparr>"
    using schedule_inserts_stably [of twitter_done TWITTER 20 "js ''a''"]
    by (simp add: queue_sorted_def)
  show ?thesis
    using schedule_inserts_stably [of ?s1 TWITTER 20 "js ''b''"]
    by (simp add: 1 queue_sorted_def)
qed

text \<open>
  C35. A post is scheduled only from a completed result: in any other status the handler
  changes nothing.
\<close>

theorem schedule_requires_completed:
  "status (results s p) \<noteq> Completed \<Longrightarrow> handleSchedulePost p d i s = s"
  by (simp add: handleSchedulePost_def Let_def)

theorem schedule_requires_completed_witness:
  "handleSchedulePost LINKEDIN 20 (js ''a'') twitter_done = twitter_done"
  by (rule schedule_requires_completed) (simp add: twitter_done_def)

text \<open>
  C34. Scheduling a post under an identifier not in the list and deleting that identifier
  again gives back the state, whether or not the post was accepted.
\<close>

theorem schedule_delete_roundtrip:
  assumes "queue_sorted s" and "i \<notin> post_id ` set (scheduledPosts s)"
  shows "deleteScheduledPost i (handleSchedulePost p d i s) = s"
  using assms by (rule schedule_then_delete)

theorem schedule_delete_roundtrip_witness:
  "deleteScheduledPost (js ''a'') (handleSchedulePost TWITTER 20 (js ''a'') twitter_done) =
   twitter_done"
  by (rule schedule_delete_roundtrip) (simp_all add: queue_sorted_def)

text \<open>
  Deleting an identifier removes every post that carries it and no other, keeps the
  order of the rest, and is a no-op when no post carries it. When identifiers are unique
  in the list, exactly one post goes.
\<close>

lemma delete_removes_by_id:
  "scheduledPosts (deleteScheduledPost i s) = filter (\<lambda>p. post_id p \<noteq> i) (scheduledPosts s) \<and>
   (i \<notin> post_id ` set (scheduledPosts s) \<longrightarrow> deleteScheduledPost i s = s) \<and>
   (ids_unique s \<and> i \<in> post_id ` set (scheduledPosts s) \<longrightarrow>
      Suc (length (scheduledPosts (deleteScheduledPost i s))) = length (scheduledPosts s))"
  using deleteScheduledPost_exactly_one [of s i]
  by (simp add: deleteScheduledPost_absent)

lemma delete_removes_by_id_witness:
  "scheduledPosts
     (deleteScheduledPost (js ''a'') (handleSchedulePost TWITTER 20 (js ''a'') twitter_done)) =
   []"
  using delete_removes_by_id
    [of "js ''a''" "handleSchedulePost TWITTER 20 (js ''a'') twitter_done"]
  by (simp add: scheduledPosts_handleSchedulePost)

text \<open>
  The handler does not check that the identifier is new: two posts scheduled under the
  same identifier are both listed, and one deletion removes both.
\<close>

lemma duplicate_ids_deleted_together:
  "length (scheduledPosts
     (handleSchedulePost TWITTER 30 (js ''a'')
        (handleSchedulePost TWITTER 20 (js ''a'') twitter_done))) = 2 \<and>
   scheduledPosts
     (deleteScheduledPost (js ''a'')
        (handleSchedulePost TWITTER 30 (js ''a'')
           (handleSchedulePost TWITTER 20 (js ''a'') twitter_done))) = []"
  by (simp add: scheduledPosts_handleSchedulePost handleSchedulePost_frame)

end
