(* ===== verification/Orchestrator.thy ===== *)
theory Orchestrator
  imports Schedule_Queue
begin

text \<open>
  The generation orchestrator of \<^verbatim>\<open>src/App.tsx\<close>: \<open>handleGenerate\<close> with its guards,
  its history entry, the reset of the enabled slots and the start of one pipeline per
  enabled platform; the continuations of a pipeline after each of its two awaited calls;
  the join \<open>Promise.allSettled\<close> that clears \<open>isGlobalLoading\<close>; and
  \<open>handleRefine\<close> with its continuation. A handler runs to its first \<open>await\<close> in
  one step; a continuation runs when the environment settles the promise it waits for,
  with an outcome the environment chooses. The lemmas give every field of the state after
  each step, on every branch.
\<close>

section \<open>The join\<close>

text \<open>
  \<open>await Promise.allSettled(promises); setIsGlobalLoading(false)\<close>: when the last
  pipeline of batch \<open>b\<close> has settled, fulfilled or rejected, the flag is cleared.
\<close>

definition batch_pending :: "nat \<Rightarrow> task list \<Rightarrow> bool" where
  "batch_pending b ts \<longleftrightarrow> list_ex (\<lambda>t. task_batch t = Some b) ts"

definition join :: "nat \<Rightarrow> app_state \<Rightarrow> app_state" where
  "join b s = (if batch_pending b (tasks s) then s else s\<lparr>isGlobalLoading := False\<rparr>)"

section \<open>Starting a batch\<close>

abbreviation have_key :: "app_state \<Rightarrow> bool" where
  "have_key s \<equiv> truthy_opt (API_KEY (env s))"

definition accepts :: "app_state \<Rightarrow> bool" where
  "accepts s \<longleftrightarrow> truthy (trim (topic s)) \<and> isApiKeyConnected s"

definition text_request_of :: "js_env \<Rightarrow> gen_params \<Rightarrow> platform \<Rightarrow> text_request outcome" where
  "text_request_of e gp p =
     generatePlatformText_request e p (p_topic gp) (p_tone gp) (p_language gp)
       (p_keywords gp) (p_brandVoice gp) (p_isThread gp) (p_modelTier gp)"

definition image_request_of ::
  "js_env \<Rightarrow> gen_params \<Rightarrow> platform \<Rightarrow> jsstring \<Rightarrow> image_request outcome" where
  "image_request_of e gp p t =
     generatePlatformImage_request e p (p_topic gp) t (p_tone gp) (p_modelTier gp)"

text \<open>
  The callback of \<open>platformsToGenerate.map\<close> up to its first \<open>await\<close>: the request
  is built; if that throws (no key), the \<open>catch\<close> block marks the slot at once.
\<close>

definition start_pipeline :: "gen_params \<Rightarrow> nat \<Rightarrow> platform \<Rightarrow> app_state \<Rightarrow> app_state" where
  "start_pipeline gp b p s =
     (case text_request_of (env s) gp p of
        Inl e \<Rightarrow> s\<lparr>results := patch p (generation_failed e) (results s)\<rparr>
      | Inr req \<Rightarrow> s\<lparr>tasks := tasks s @ [Text_task p gp b]\<rparr>)"

definition reset_enabled :: "bool \<Rightarrow> platform list \<Rightarrow> generation_state \<Rightarrow> generation_state" where
  "reset_enabled images ps tbl = fold (\<lambda>p. patch p (reset_result images)) ps tbl"

definition handleGenerate :: "int \<Rightarrow> app_state \<Rightarrow> app_state" where
  "handleGenerate now s =
     (if \<not> truthy (trim (topic s)) then s
      else if \<not> isApiKeyConnected s then s\<lparr>showSettings := True\<rparr>
      else
        let platformsToGenerate = enabledPlatforms s;
            newHistoryItem =
              \<lparr>timestamp = now, item_tone = tone s, platforms = platformsToGenerate\<rparr>;
            b = next_batch s;
            s1 = s\<lparr>isGlobalLoading := True,
                   history := newHistoryItem # history s,
                   stored := Saved (newHistoryItem # history s),
                   results := reset_enabled (generateImages s) platformsToGenerate (results s),
                   next_batch := Suc b\<rparr>
        in join b (fold (start_pipeline (capture s) b) platformsToGenerate s1))"

section \<open>Continuations of a pipeline\<close>

text \<open>
  What the continuation after the text call does to its slot, given whether the key is
  still present when the image request is built.
\<close>

definition text_effect ::
  "bool \<Rightarrow> bool \<Rightarrow> text_response outcome \<Rightarrow> generation_result \<Rightarrow> generation_result" where
  "text_effect key images r x =
     (case generatePlatformText_settle r of
        Inl e \<Rightarrow> generation_failed e x
      | Inr t \<Rightarrow>
          if images \<and> \<not> key then generation_failed key_missing (text_ready images t x)
          else text_ready images t x)"

definition text_continues :: "bool \<Rightarrow> bool \<Rightarrow> text_response outcome \<Rightarrow> bool" where
  "text_continues key images r \<longleftrightarrow> \<not> isl r \<and> images \<and> key"

definition text_of_response :: "text_response outcome \<Rightarrow> jsstring" where
  "text_of_response r = (case r of Inl e \<Rightarrow> [] | Inr response \<Rightarrow> js_or response [])"

definition text_settled :: "nat \<Rightarrow> text_response outcome \<Rightarrow> app_state \<Rightarrow> app_state" where
  "text_settled i r s =
     (case nth_task (tasks s) i of
        Some (Text_task p gp b) \<Rightarrow>
          (case generatePlatformText_settle r of
             Inl e \<Rightarrow>
               join b (s\<lparr>results := patch p (generation_failed e) (results s),
                         tasks := remove_nth i (tasks s)\<rparr>)
           | Inr t \<Rightarrow>
               let tbl = patch p (text_ready (p_generateImages gp) t) (results s) in
               if p_generateImages gp then
                 (case image_request_of (env s) gp p t of
                    Inl e \<Rightarrow>
                      join b (s\<lparr>results := patch p (generation_failed e) tbl,
                                tasks := remove_nth i (tasks s)\<rparr>)
                  | Inr req \<Rightarrow>
                      s\<lparr>results := tbl, tasks := (tasks s)[i := Image_task p gp b t]\<rparr>)
               else join b (s\<lparr>results := tbl, tasks := remove_nth i (tasks s)\<rparr>))
      | _ \<Rightarrow> s)"

definition image_settled :: "nat \<Rightarrow> image_response outcome \<Rightarrow> app_state \<Rightarrow> app_state" where
  "image_settled i r s =
     (case nth_task (tasks s) i of
        Some (Image_task p gp b t) \<Rightarrow>
          join b (s\<lparr>results := patch p (after_image (generatePlatformImage_settle r)) (results s),
                    tasks := remove_nth i (tasks s)\<rparr>)
      | _ \<Rightarrow> s)"

section \<open>Refinement\<close>

definition handleRefine :: "platform \<Rightarrow> refinement_action \<Rightarrow> app_state \<Rightarrow> app_state" where
  "handleRefine p act s =
     (let currentResult = results s p in
      if \<not> truthy (text' currentResult) then s
      else
        (case refineContent_request (env s) p (text' currentResult) act (tone s) (language s)
                (modelTier s) of
           Inl e \<Rightarrow> s\<lparr>results := patch p refine_failed (patch p refine_started (results s))\<rparr>
         | Inr req \<Rightarrow>
             s\<lparr>results := patch p refine_started (results s),
               tasks := tasks s @ [Refine_task p]\<rparr>))"

definition refine_effect :: "text_response outcome \<Rightarrow> generation_result \<Rightarrow> generation_result" where
  "refine_effect r x =
     (case refineContent_settle r of Inl e \<Rightarrow> refine_failed x | Inr t \<Rightarrow> refine_ready t x)"

definition refine_settled :: "nat \<Rightarrow> text_response outcome \<Rightarrow> app_state \<Rightarrow> app_state" where
  "refine_settled i r s =
     (case nth_task (tasks s) i of
        Some (Refine_task p) \<Rightarrow>
          (case refineContent_settle r of
             Inl e \<Rightarrow>
               s\<lparr>results := patch p refine_failed (results s),
                 tasks := remove_nth i (tasks s)\<rparr>
           | Inr refinedText \<Rightarrow>
               s\<lparr>results := patch p (refine_ready refinedText) (results s),
                 tasks := remove_nth i (tasks s)\<rparr>)
      | _ \<Rightarrow> s)"

lemmas [handler_defs] =
  handleGenerate_def text_settled_def image_settled_def handleRefine_def refine_settled_def

section \<open>Requests: lemmas\<close>

lemma text_request_of_cases:
  obtains (missing) "\<not> truthy_opt (API_KEY e)"
      and "text_request_of e gp p = Inl key_missing"
    | (sent) req where "truthy_opt (API_KEY e)" and "text_request_of e gp p = Inr req"
  by (rule getAIClient_cases [of e])
     (auto simp: text_request_of_def generatePlatformText_request_def)

lemma image_request_of_cases:
  obtains (missing) "\<not> truthy_opt (API_KEY e)"
      and "image_request_of e gp p t = Inl key_missing"
    | (sent) req where "truthy_opt (API_KEY e)" and "image_request_of e gp p t = Inr req"
  by (rule getAIClient_cases [of e])
     (auto simp: image_request_of_def generatePlatformImage_request_def)

lemma refineContent_request_cases:
  obtains (missing) "\<not> truthy_opt (API_KEY e)"
      and "refineContent_request e p t act tn lg mt = Inl key_missing"
    | (sent) req where "truthy_opt (API_KEY e)"
      and "refineContent_request e p t act tn lg mt = Inr req"
  by (rule getAIClient_cases [of e]) (auto simp: refineContent_request_def)

section \<open>The join: lemmas\<close>

lemma batch_pending_iff: "batch_pending b ts \<longleftrightarrow> (\<exists>t\<in>set ts. task_batch t = Some b)"
  by (simp add: batch_pending_def list_ex_iff)

lemma batch_pending_simps [simp]:
  "batch_pending b [] = False"
  "batch_pending b (t # ts) = (task_batch t = Some b \<or> batch_pending b ts)"
  "batch_pending b (ts @ us) = (batch_pending b ts \<or> batch_pending b us)"
  by (auto simp: batch_pending_iff)

lemma join_fields [simp]:
  "results (join b s) = results s"
  "tasks (join b s) = tasks s"
  "history (join b s) = history s"
  "stored (join b s) = stored s"
  "scheduledPosts (join b s) = scheduledPosts s"
  "enabledPlatforms (join b s) = enabledPlatforms s"
  "isApiKeyConnected (join b s) = isApiKeyConnected s"
  "showSettings (join b s) = showSettings s"
  "next_batch (join b s) = next_batch s"
  "env (join b s) = env s"
  "topic (join b s) = topic s"
  "generateImages (join b s) = generateImages s"
  "capture (join b s) = capture s"
  by (simp_all add: join_def)

lemma isGlobalLoading_join [simp]:
  "isGlobalLoading (join b s) = (isGlobalLoading s \<and> batch_pending b (tasks s))"
  by (simp add: join_def)

section \<open>Starting a batch: lemmas\<close>

lemma fold_patch_idem:
  assumes "\<And>r. f (f r) = f r"
  shows "fold (\<lambda>p. patch p f) ps tbl q = (if q \<in> set ps then f (tbl q) else tbl q)"
  by (induction ps arbitrary: tbl) (auto simp: assms)

lemma reset_enabled_apply:
  "reset_enabled b ps tbl q = (if q \<in> set ps then reset_result b (tbl q) else tbl q)"
  unfolding reset_enabled_def by (rule fold_patch_idem) (simp add: reset_result_def)

lemma fold_failed_apply:
  "fold (\<lambda>p. patch p (generation_failed e)) ps tbl q =
     (if q \<in> set ps then generation_failed e (tbl q) else tbl q)"
  by (rule fold_patch_idem) (simp add: generation_failed_def)

lemma start_pipeline_key:
  "have_key s \<Longrightarrow> start_pipeline gp b p s = s\<lparr>tasks := tasks s @ [Text_task p gp b]\<rparr>"
  by (rule text_request_of_cases [of "env s" gp p]) (simp_all add: start_pipeline_def)

lemma start_pipeline_no_key:
  "\<not> have_key s \<Longrightarrow>
   start_pipeline gp b p s = s\<lparr>results := patch p (generation_failed key_missing) (results s)\<rparr>"
  by (rule text_request_of_cases [of "env s" gp p]) (simp_all add: start_pipeline_def)

lemma fold_start_pipeline_key:
  "have_key s \<Longrightarrow>
   fold (start_pipeline gp b) ps s = s\<lparr>tasks := tasks s @ map (\<lambda>p. Text_task p gp b) ps\<rparr>"
  by (induction ps arbitrary: s) (simp_all add: start_pipeline_key)

lemma fold_start_pipeline_no_key:
  "\<not> have_key s \<Longrightarrow>
   fold (start_pipeline gp b) ps s =
     s\<lparr>results := fold (\<lambda>p. patch p (generation_failed key_missing)) ps (results s)\<rparr>"
  by (induction ps arbitrary: s) (simp_all add: start_pipeline_no_key)

lemma batch_pending_new_tasks [simp]:
  "batch_pending b (map (\<lambda>p. Text_task p gp b) ps) = (ps \<noteq> [])"
  by (cases ps) (simp_all)

lemma handleGenerate_blank: "\<not> truthy (trim (topic s)) \<Longrightarrow> handleGenerate now s = s"
  by (simp add: handleGenerate_def)

lemma handleGenerate_disconnected:
  "truthy (trim (topic s)) \<Longrightarrow> \<not> isApiKeyConnected s \<Longrightarrow>
   handleGenerate now s = s\<lparr>showSettings := True\<rparr>"
  by (simp add: handleGenerate_def)

lemma handleGenerate_rejected:
  "\<not> accepts s \<Longrightarrow>
   handleGenerate now s = (if truthy (trim (topic s)) then s\<lparr>showSettings := True\<rparr> else s)"
  by (auto simp: accepts_def handleGenerate_blank handleGenerate_disconnected)

lemma handleGenerate_key:
  assumes "accepts s" and "have_key s"
  shows "handleGenerate now s =
     s\<lparr>isGlobalLoading := batch_pending (next_batch s) (tasks s) \<or> enabledPlatforms s \<noteq> [],
       history := \<lparr>timestamp = now, item_tone = tone s, platforms = enabledPlatforms s\<rparr>
                  # history s,
       stored := Saved (\<lparr>timestamp = now, item_tone = tone s,
                         platforms = enabledPlatforms s\<rparr> # history s),
       results := reset_enabled (generateImages s) (enabledPlatforms s) (results s),
       next_batch := Suc (next_batch s),
       tasks := tasks s @ map (\<lambda>p. Text_task p (capture s) (next_batch s)) (enabledPlatforms s)\<rparr>"
  using assms
  by (simp add: handleGenerate_def accepts_def Let_def fold_start_pipeline_key join_def)

lemma handleGenerate_no_key:
  assumes "accepts s" and "\<not> have_key s"
  shows "handleGenerate now s =
     s\<lparr>isGlobalLoading := batch_pending (next_batch s) (tasks s),
       history := \<lparr>timestamp = now, item_tone = tone s, platforms = enabledPlatforms s\<rparr>
                  # history s,
       stored := Saved (\<lparr>timestamp = now, item_tone = tone s,
                         platforms = enabledPlatforms s\<rparr> # history s),
       results := fold (\<lambda>p. patch p (generation_failed key_missing)) (enabledPlatforms s)
                    (reset_enabled (generateImages s) (enabledPlatforms s) (results s)),
       next_batch := Suc (next_batch s)\<rparr>"
  using assms
  by (simp add: handleGenerate_def accepts_def Let_def fold_start_pipeline_no_key join_def)

lemmas handleGenerate_branches =
  handleGenerate_rejected handleGenerate_key handleGenerate_no_key

lemma results_handleGenerate:
  "results (handleGenerate now s) q =
     (if accepts s \<and> q \<in> set (enabledPlatforms s)
      then (if have_key s then reset_result (generateImages s) (results s q)
            else generation_failed key_missing (reset_result (generateImages s) (results s q)))
      else results s q)"
  by (cases "accepts s"; cases "have_key s")
     (simp_all add: handleGenerate_branches reset_enabled_apply fold_failed_apply)

lemma history_handleGenerate:
  "history (handleGenerate now s) =
     (if accepts s
      then \<lparr>timestamp = now, item_tone = tone s, platforms = enabledPlatforms s\<rparr> # history s
      else history s)"
  by (cases "accepts s"; cases "have_key s") (simp_all add: handleGenerate_branches)

lemma stored_handleGenerate:
  "stored (handleGenerate now s) =
     (if accepts s then Saved (history (handleGenerate now s)) else stored s)"
  by (cases "accepts s"; cases "have_key s") (simp_all add: handleGenerate_branches)

lemma tasks_handleGenerate:
  "tasks (handleGenerate now s) =
     (if accepts s \<and> have_key s
      then tasks s @ map (\<lambda>p. Text_task p (capture s) (next_batch s)) (enabledPlatforms s)
      else tasks s)"
  by (cases "accepts s"; cases "have_key s") (simp_all add: handleGenerate_branches)

lemma isGlobalLoading_handleGenerate:
  "isGlobalLoading (handleGenerate now s) =
     (if accepts s
      then batch_pending (next_batch s) (tasks s) \<or> (have_key s \<and> enabledPlatforms s \<noteq> [])
      else isGlobalLoading s)"
  by (cases "accepts s"; cases "have_key s") (simp_all add: handleGenerate_branches)

lemma next_batch_handleGenerate:
  "next_batch (handleGenerate now s) = (if accepts s then Suc (next_batch s) else next_batch s)"
  by (cases "accepts s"; cases "have_key s") (simp_all add: handleGenerate_branches)

lemma showSettings_handleGenerate:
  "showSettings (handleGenerate now s) =
     (showSettings s \<or> (truthy (trim (topic s)) \<and> \<not> isApiKeyConnected s))"
  by (cases "accepts s"; cases "have_key s")
     (auto simp: handleGenerate_branches accepts_def)

lemma handleGenerate_frame [frame_simps]:
  "scheduledPosts (handleGenerate now s) = scheduledPosts s"
  "enabledPlatforms (handleGenerate now s) = enabledPlatforms s"
  "isApiKeyConnected (handleGenerate now s) = isApiKeyConnected s"
  "env (handleGenerate now s) = env s"
  "topic (handleGenerate now s) = topic s"
  "generateImages (handleGenerate now s) = generateImages s"
  "capture (handleGenerate now s) = capture s"
  by (cases "accepts s"; cases "have_key s"; simp add: handleGenerate_branches)+

lemmas handleGenerate_fields =
  results_handleGenerate history_handleGenerate stored_handleGenerate tasks_handleGenerate
  isGlobalLoading_handleGenerate next_batch_handleGenerate showSettings_handleGenerate
  handleGenerate_frame

section \<open>Continuations of a pipeline: lemmas\<close>

lemma text_effect_Inl [simp]: "text_effect key images (Inl e) = generation_failed e"
  by (simp add: fun_eq_iff text_effect_def generatePlatformText_settle_def)

lemma text_effect_Inr:
  "text_effect key images (Inr response) =
     (if images \<and> \<not> key
      then generation_failed key_missing \<circ> text_ready images (js_or response [])
      else text_ready images (js_or response []))"
  by (simp add: fun_eq_iff text_effect_def generatePlatformText_settle_def)

lemma text_continues_simps [simp]:
  "text_continues key images (Inl e) = False"
  "text_continues key images (Inr response) = (images \<and> key)"
  by (simp_all add: text_continues_def)

lemma text_of_response_simps [simp]:
  "text_of_response (Inl e) = []"
  "text_of_response (Inr response) = js_or response []"
  by (simp_all add: text_of_response_def)

lemma status_text_effect:
  "status (text_effect key images r x) =
     (if isl r \<or> (images \<and> \<not> key) then Error
      else if images then Loading_image else Completed)"
  by (cases r) (simp_all add: text_effect_Inr)

lemma in_flight_text_effect [simp]:
  "in_flight (status (text_effect key images r x)) = text_continues key images r"
  by (auto simp: status_text_effect in_flight_def text_continues_def)

lemma text_settled_other:
  "(\<And>p gp b. nth_task (tasks s) i \<noteq> Some (Text_task p gp b)) \<Longrightarrow> text_settled i r s = s"
  by (auto simp: text_settled_def split: option.splits task.splits)

lemma text_settled_task:
  assumes "nth_task (tasks s) i = Some (Text_task p gp b)"
  shows "text_settled i r s =
     (if text_continues (have_key s) (p_generateImages gp) r
      then s\<lparr>results := patch p (text_effect (have_key s) (p_generateImages gp) r) (results s),
             tasks := (tasks s)[i := Image_task p gp b (text_of_response r)]\<rparr>
      else join b
             (s\<lparr>results := patch p (text_effect (have_key s) (p_generateImages gp) r) (results s),
                tasks := remove_nth i (tasks s)\<rparr>))"
proof (cases r)
  case (Inl e)
  with assms show ?thesis
    by (simp add: text_settled_def generatePlatformText_settle_def)
next
  case (Inr response)
  show ?thesis
  proof (rule image_request_of_cases [of "env s" gp p "js_or response []"])
    assume "\<not> have_key s"
      and "image_request_of (env s) gp p (js_or response []) = Inl key_missing"
    with assms Inr show ?thesis
      by (simp add: text_settled_def text_effect_Inr Let_def patch_patch_same
          generatePlatformText_settle_def)
  next
    fix req
    assume "have_key s" and "image_request_of (env s) gp p (js_or response []) = Inr req"
    with assms Inr show ?thesis
      by (simp add: text_settled_def text_effect_Inr Let_def
          generatePlatformText_settle_def)
  qed
qed

lemma image_settled_other:
  "(\<And>p gp b t. nth_task (tasks s) i \<noteq> Some (Image_task p gp b t)) \<Longrightarrow>
   image_settled i r s = s"
  by (auto simp: image_settled_def split: option.splits task.splits)

lemma image_settled_task:
  "nth_task (tasks s) i = Some (Image_task p gp b t) \<Longrightarrow>
   image_settled i r s =
     join b (s\<lparr>results := patch p (after_image (generatePlatformImage_settle r)) (results s),
               tasks := remove_nth i (tasks s)\<rparr>)"
  by (simp add: image_settled_def)

lemma text_settled_cases [case_names none failed continues]:
  obtains (none) "\<And>p gp b. nth_task (tasks s) i \<noteq> Some (Text_task p gp b)"
        and "text_settled i r s = s"
    | (failed) p gp b where "nth_task (tasks s) i = Some (Text_task p gp b)"
        and "\<not> text_continues (have_key s) (p_generateImages gp) r"
        and "text_settled i r s =
               join b (s\<lparr>results :=
                          patch p (text_effect (have_key s) (p_generateImages gp) r) (results s),
                        tasks := remove_nth i (tasks s)\<rparr>)"
    | (continues) p gp b where "nth_task (tasks s) i = Some (Text_task p gp b)"
        and "text_continues (have_key s) (p_generateImages gp) r"
        and "text_settled i r s =
               s\<lparr>results :=
                   patch p (text_effect (have_key s) (p_generateImages gp) r) (results s),
                 tasks := (tasks s)[i := Image_task p gp b (text_of_response r)]\<rparr>"
proof (cases "\<exists>p gp b. nth_task (tasks s) i = Some (Text_task p gp b)")
  case True
  then obtain p gp b where t: "nth_task (tasks s) i = Some (Text_task p gp b)"
    by blast
  show ?thesis
    using t text_settled_task [OF t, of r] failed [OF t] continues [OF t]
    by (cases "text_continues (have_key s) (p_generateImages gp) r") simp_all
next
  case False
  then have no: "nth_task (tasks s) i \<noteq> Some (Text_task p gp b)" for p gp b
    by simp
  then have "text_settled i r s = s"
    by (intro text_settled_other)
  with no show ?thesis by (rule none)
qed

lemma image_settled_cases [case_names none task]:
  obtains (none) "\<And>p gp b t. nth_task (tasks s) i \<noteq> Some (Image_task p gp b t)"
        and "image_settled i r s = s"
    | (task) p gp b t where "nth_task (tasks s) i = Some (Image_task p gp b t)"
        and "image_settled i r s =
               join b (s\<lparr>results :=
                          patch p (after_image (generatePlatformImage_settle r)) (results s),
                        tasks := remove_nth i (tasks s)\<rparr>)"
proof (cases "\<exists>p gp b t. nth_task (tasks s) i = Some (Image_task p gp b t)")
  case True
  then obtain p gp b t where t: "nth_task (tasks s) i = Some (Image_task p gp b t)"
    by blast
  then show ?thesis
    by (rule task) (simp add: image_settled_task [OF t])
next
  case False
  then have no: "nth_task (tasks s) i \<noteq> Some (Image_task p gp b t)" for p gp b t
    by simp
  then have "image_settled i r s = s"
    by (intro image_settled_other)
  with no show ?thesis by (rule none)
qed

section \<open>Refinement: lemmas\<close>

lemma refine_effect_simps [simp]:
  "refine_effect (Inl e) = refine_failed"
  "refine_effect (Inr response) = refine_ready (js_or response [])"
  by (simp_all add: fun_eq_iff refine_effect_def refineContent_settle_def)

lemma status_refine_effect [simp]: "status (refine_effect r x) = Completed"
  by (cases r) simp_all

lemma handleRefine_empty: "\<not> truthy (text' (results s p)) \<Longrightarrow> handleRefine p act s = s"
  by (simp add: handleRefine_def)

lemma handleRefine_key:
  "truthy (text' (results s p)) \<Longrightarrow> have_key s \<Longrightarrow>
   handleRefine p act s =
     s\<lparr>results := patch p refine_started (results s), tasks := tasks s @ [Refine_task p]\<rparr>"
  by (rule refineContent_request_cases
        [of "env s" p "text' (results s p)" act "tone s" "language s" "modelTier s"])
     (simp_all add: handleRefine_def)

lemma handleRefine_no_key:
  "truthy (text' (results s p)) \<Longrightarrow> \<not> have_key s \<Longrightarrow>
   handleRefine p act s = s\<lparr>results := patch p (refine_failed \<circ> refine_started) (results s)\<rparr>"
  by (rule refineContent_request_cases
        [of "env s" p "text' (results s p)" act "tone s" "language s" "modelTier s"])
     (simp_all add: handleRefine_def patch_patch_same)

lemma handleRefine_cases [case_names none started failed]:
  obtains (none) "\<not> truthy (text' (results s p))" and "handleRefine p act s = s"
    | (started) "truthy (text' (results s p))" and "have_key s"
        and "handleRefine p act s =
               s\<lparr>results := patch p refine_started (results s),
                 tasks := tasks s @ [Refine_task p]\<rparr>"
    | (failed) "truthy (text' (results s p))" and "\<not> have_key s"
        and "handleRefine p act s =
               s\<lparr>results := patch p (refine_failed \<circ> refine_started) (results s)\<rparr>"
  using handleRefine_empty [of s p act] handleRefine_key [of s p act]
    handleRefine_no_key [of s p act]
  by (cases "truthy (text' (results s p))"; cases "have_key s") blast+

lemma refine_settled_other:
  "(\<And>p. nth_task (tasks s) i \<noteq> Some (Refine_task p)) \<Longrightarrow> refine_settled i r s = s"
  by (auto simp: refine_settled_def split: option.splits task.splits)

lemma refine_settled_task:
  "nth_task (tasks s) i = Some (Refine_task p) \<Longrightarrow>
   refine_settled i r s =
     s\<lparr>results := patch p (refine_effect r) (results s), tasks := remove_nth i (tasks s)\<rparr>"
  by (cases r) (simp_all add: refine_settled_def refineContent_settle_def)

lemma refine_settled_cases [case_names none task]:
  obtains (none) "\<And>p. nth_task (tasks s) i \<noteq> Some (Refine_task p)"
        and "refine_settled i r s = s"
    | (task) p where "nth_task (tasks s) i = Some (Refine_task p)"
        and "refine_settled i r s =
               s\<lparr>results := patch p (refine_effect r) (results s),
                 tasks := remove_nth i (tasks s)\<rparr>"
proof (cases "\<exists>p. nth_task (tasks s) i = Some (Refine_task p)")
  case True
  then obtain p where t: "nth_task (tasks s) i = Some (Refine_task p)"
    by blast
  then show ?thesis
    by (rule task) (simp add: refine_settled_task [OF t])
next
  case False
  then have no: "nth_task (tasks s) i \<noteq> Some (Refine_task p)" for p
    by simp
  then have "refine_settled i r s = s"
    by (intro refine_settled_other)
  with no show ?thesis by (rule none)
qed

section \<open>Fields the continuations leave alone\<close>

lemma platform_patches [simp]:
  "platform (text_effect key images r x) = platform x"
  "platform (after_image r2 x) = platform x"
  "platform (refine_effect r x) = platform x"
  by (cases r; cases r2; simp add: text_effect_Inr after_image_def)+

lemma text_settled_frame [frame_simps]:
  "enabledPlatforms (text_settled i r s) = enabledPlatforms s"
  "scheduledPosts (text_settled i r s) = scheduledPosts s"
  "history (text_settled i r s) = history s"
  "stored (text_settled i r s) = stored s"
  "next_batch (text_settled i r s) = next_batch s"
  "env (text_settled i r s) = env s"
  "isApiKeyConnected (text_settled i r s) = isApiKeyConnected s"
  "topic (text_settled i r s) = topic s"
  "generateImages (text_settled i r s) = generateImages s"
  "capture (text_settled i r s) = capture s"
  by (cases rule: text_settled_cases [where i = i and r = r and s = s]; simp)+

lemma image_settled_frame [frame_simps]:
  "enabledPlatforms (image_settled i r s) = enabledPlatforms s"
  "scheduledPosts (image_settled i r s) = scheduledPosts s"
  "history (image_settled i r s) = history s"
  "stored (image_settled i r s) = stored s"
  "next_batch (image_settled i r s) = next_batch s"
  "env (image_settled i r s) = env s"
  "isApiKeyConnected (image_settled i r s) = isApiKeyConnected s"
  "topic (image_settled i r s) = topic s"
  "generateImages (image_settled i r s) = generateImages s"
  "capture (image_settled i r s) = capture s"
  by (cases rule: image_settled_cases [where i = i and r = r and s = s]; simp)+

lemma refine_settled_frame [frame_simps]:
  "enabledPlatforms (refine_settled i r s) = enabledPlatforms s"
  "scheduledPosts (refine_settled i r s) = scheduledPosts s"
  "history (refine_settled i r s) = history s"
  "stored (refine_settled i r s) = stored s"
  "next_batch (refine_settled i r s) = next_batch s"
  "env (refine_settled i r s) = env s"
  "isApiKeyConnected (refine_settled i r s) = isApiKeyConnected s"
  "topic (refine_settled i r s) = topic s"
  "generateImages (refine_settled i r s) = generateImages s"
  "capture (refine_settled i r s) = capture s"
  "isGlobalLoading (refine_settled i r s) = isGlobalLoading s"
  by (cases rule: refine_settled_cases [where i = i and r = r and s = s]; simp)+

lemma handleRefine_frame [frame_simps]:
  "enabledPlatforms (handleRefine p act s) = enabledPlatforms s"
  "scheduledPosts (handleRefine p act s) = scheduledPosts s"
  "history (handleRefine p act s) = history s"
  "stored (handleRefine p act s) = stored s"
  "next_batch (handleRefine p act s) = next_batch s"
  "env (handleRefine p act s) = env s"
  "isApiKeyConnected (handleRefine p act s) = isApiKeyConnected s"
  "topic (handleRefine p act s) = topic s"
  "generateImages (handleRefine p act s) = generateImages s"
  "capture (handleRefine p act s) = capture s"
  "isGlobalLoading (handleRefine p act s) = isGlobalLoading s"
  by (cases rule: handleRefine_cases [of s p act]; simp)+

section \<open>Example states\<close>

text \<open>
  A state ready for a submission (topic, two platforms, connection, a key), the same
  state after the submission and a text for LinkedIn, and a state in which Twitter is
  being refined.
\<close>

definition ready :: app_state where
  "ready =
     (init_state No_entry env_keyed)
       \<lparr>topic := js ''T'', enabledPlatforms := [LINKEDIN, TWITTER], isApiKeyConnected := True\<rparr>"

lemma ready_simps [simp]:
  "topic ready = js ''T''"
  "enabledPlatforms ready = [LINKEDIN, TWITTER]"
  "isApiKeyConnected ready"
  "env ready = env_keyed"
  "tasks ready = []"
  "results ready = INITIAL_STATE"
  "next_batch ready = 0"
  "generateImages ready"
  "history ready = []"
  "tone ready = PROFESSIONAL"
  "\<not> isGlobalLoading ready"
  "scheduledPosts ready = []"
  by (simp_all add: ready_def init_state_def)

lemma trim_js_T [simp]: "trim (js ''T'') = js ''T''"
  by (simp add: trim_def js_def js_whitespace_def)

lemma accepts_ready [simp]: "accepts ready"
  by (simp add: accepts_def truthy_def js_eq_Nil_iff)

lemma tasks_generate_ready:
  "tasks (handleGenerate now ready) =
     [Text_task LINKEDIN (capture ready) 0, Text_task TWITTER (capture ready) 0]"
  by (simp add: tasks_handleGenerate)

definition awaiting_image :: app_state where
  "awaiting_image = text_settled 0 (Inr (Some (js ''Hello''))) (handleGenerate 0 ready)"

lemma awaiting_image_simps [simp]:
  "tasks awaiting_image =
     [Image_task LINKEDIN (capture ready) 0 (js ''Hello''),
      Text_task TWITTER (capture ready) 0]"
  "text' (results awaiting_image LINKEDIN) = js ''Hello''"
  "status (results awaiting_image LINKEDIN) = Loading_image"
  by (simp_all add: awaiting_image_def text_settled_task [where p = LINKEDIN]
      tasks_generate_ready text_effect_Inr results_handleGenerate handleGenerate_frame)

definition refining_twitter :: app_state where
  "refining_twitter = handleRefine TWITTER Shorten twitter_done"

lemma refining_twitter_simps [simp]:
  "tasks refining_twitter = [Refine_task TWITTER]"
  "results refining_twitter TWITTER = refine_started (results twitter_done TWITTER)"
  by (simp_all add: refining_twitter_def handleRefine_key [where p = TWITTER] truthy_def
      js_eq_Nil_iff)

section \<open>Properties of a submission\<close>

text \<open>
  C11. A submission leaves the slot of every platform that is not enabled exactly as it
  was, whether or not the submission is accepted.
\<close>

theorem submit_leaves_others:
  "q \<notin> set (enabledPlatforms s) \<Longrightarrow> results (handleGenerate now s) q = results s q"
  by (simp add: results_handleGenerate)

theorem submit_leaves_others_witness:
  "results (handleGenerate 0 ready) INSTAGRAM = results ready INSTAGRAM"
  by (rule submit_leaves_others) simp

text \<open>
  C10. An accepted submission with a key in the environment resets the slot of every
  enabled platform to \<open>loading_text\<close> with no error and no image, records whether
  images were requested and keeps the text until it is overwritten; it queues one text
  call per enabled platform, in the order of the set, all capturing the same inputs, and
  sets the loading flag.
\<close>

theorem submit_starts_pipelines:
  assumes "accepts s" and "have_key s" and "q \<in> set (enabledPlatforms s)"
  shows "results (handleGenerate now s) q =
           (results s q)\<lparr>status := Loading_text, error := None,
                          imageEnabled := generateImages s, imageUrl := None\<rparr> \<and>
         tasks (handleGenerate now s) =
           tasks s @ map (\<lambda>p. Text_task p (capture s) (next_batch s)) (enabledPlatforms s) \<and>
         isGlobalLoading (handleGenerate now s)"
  using assms
  by (auto simp: results_handleGenerate tasks_handleGenerate isGlobalLoading_handleGenerate
      reset_result_def)

theorem submit_starts_pipelines_witness:
  "results (handleGenerate 0 ready) TWITTER =
     (results ready TWITTER)\<lparr>status := Loading_text, error := None,
                              imageEnabled := generateImages ready, imageUrl := None\<rparr> \<and>
   tasks (handleGenerate 0 ready) =
     tasks ready @ map (\<lambda>p. Text_task p (capture ready) (next_batch ready))
       (enabledPlatforms ready) \<and>
   isGlobalLoading (handleGenerate 0 ready)"
  by (rule submit_starts_pipelines) simp_all

text \<open>
  C23. A submission is rejected when the trimmed topic is empty or no connection is
  recorded. A rejected submission changes no slot, starts no call, records nothing in the
  history and leaves the loading flag alone; with a topic but no connection it opens the
  settings dialog, and that is its only effect.
\<close>

theorem submit_rejected:
  assumes "\<not> accepts s"
  shows "handleGenerate now s =
           (if truthy (trim (topic s)) then s\<lparr>showSettings := True\<rparr> else s)"
  using assms by (auto simp: accepts_def handleGenerate_def)

theorem submit_rejected_witness:
  "handleGenerate 0 (ready\<lparr>isApiKeyConnected := False\<rparr>) =
     (if truthy (trim (topic (ready\<lparr>isApiKeyConnected := False\<rparr>)))
      then ready\<lparr>isApiKeyConnected := False, showSettings := True\<rparr>
      else ready\<lparr>isApiKeyConnected := False\<rparr>)"
  using submit_rejected [of "ready\<lparr>isApiKeyConnected := False\<rparr>" 0]
  by (simp add: accepts_def)

text \<open>
  An accepted submission puts exactly one entry in front of the history, at once and
  whatever the calls will return: the time, the tone and the enabled platforms in the
  order of the set; and the stored copy is the new history.
\<close>

lemma submit_records_attempt:
  assumes "accepts s"
  shows "history (handleGenerate now s) =
           \<lparr>timestamp = now, item_tone = tone s, platforms = enabledPlatforms s\<rparr> # history s \<and>
         stored (handleGenerate now s) = Saved (history (handleGenerate now s))"
  using assms by (simp add: history_handleGenerate stored_handleGenerate)

lemma submit_records_attempt_witness:
  "history (handleGenerate 7 ready) =
     \<lparr>timestamp = 7, item_tone = tone ready, platforms = enabledPlatforms ready\<rparr>
     # history ready \<and>
   stored (handleGenerate 7 ready) = Saved (history (handleGenerate 7 ready))"
  by (rule submit_records_attempt) simp

text \<open>
  C30. A connection can be recorded while the environment holds no key (the connection
  check asks AI Studio, the service reads \<open>API_KEY\<close>). A submission is then accepted
  and recorded in the history, but every enabled slot ends in \<open>error\<close> with the message
  of \<open>getAIClient\<close> before any call is made, and the loading flag is not left set.
\<close>

theorem submit_without_key:
  assumes "accepts s" and "\<not> have_key s" and "q \<in> set (enabledPlatforms s)"
    and "\<not> batch_pending (next_batch s) (tasks s)"
  shows "status (results (handleGenerate now s) q) = Error \<and>
         error (results (handleGenerate now s) q) =
           Some (js ''API Key not found. Please select a key.'') \<and>
         tasks (handleGenerate now s) = tasks s \<and>
         \<not> isGlobalLoading (handleGenerate now s) \<and>
         length (history (handleGenerate now s)) = Suc (length (history s))"
  using assms
  by (simp add: results_handleGenerate tasks_handleGenerate isGlobalLoading_handleGenerate
      history_handleGenerate js_or_def truthy_def js_eq_Nil_iff)

theorem submit_without_key_witness:
  "status (results (handleGenerate 0 (ready\<lparr>env := env_bare\<rparr>)) TWITTER) = Error \<and>
   error (results (handleGenerate 0 (ready\<lparr>env := env_bare\<rparr>)) TWITTER) =
     Some (js ''API Key not found. Please select a key.'') \<and>
   tasks (handleGenerate 0 (ready\<lparr>env := env_bare\<rparr>)) = tasks (ready\<lparr>env := env_bare\<rparr>) \<and>
   \<not> isGlobalLoading (handleGenerate 0 (ready\<lparr>env := env_bare\<rparr>)) \<and>
   length (history (handleGenerate 0 (ready\<lparr>env := env_bare\<rparr>))) =
     Suc (length (history (ready\<lparr>env := env_bare\<rparr>)))"
  by (rule submit_without_key) (simp_all add: accepts_def truthy_def js_eq_Nil_iff)

section \<open>Properties of the continuations\<close>

text \<open>
  C12. A failed image call is a partial failure: the slot ends in \<open>error\<close> with the
  failure's message (or \<open>Generation failed\<close> when it has none), and the text already
  generated stays in the slot.
\<close>

theorem image_failure_retains_text:
  assumes "nth_task (tasks s) i = Some (Image_task p gp b t)"
  shows "results (image_settled i (Inl e) s) p =
           (results s p)\<lparr>status := Error,
                          error := Some (js_or (message e) (js ''Generation failed''))\<rparr> \<and>
         text' (results (image_settled i (Inl e) s) p) = text' (results s p)"
  using assms
  by (simp add: image_settled_task generatePlatformImage_settle_def generation_failed_def)

theorem image_failure_retains_text_witness:
  "results (image_settled 0 (Inl (JsError None)) awaiting_image) LINKEDIN =
     (results awaiting_image LINKEDIN)
       \<lparr>status := Error,
        error := Some (js_or (message (JsError None)) (js ''Generation failed''))\<rparr> \<and>
   text' (results (image_settled 0 (Inl (JsError None)) awaiting_image) LINKEDIN) =
     text' (results awaiting_image LINKEDIN)"
  by (rule image_failure_retains_text [where gp = "capture ready" and b = 0]) simp

text \<open>
  C13. A failed refinement never destroys output: the slot returns to \<open>completed\<close>, not
  \<open>error\<close>, with the message \<open>Refinement failed\<close>, and its text and image are those
  it had before.
\<close>

theorem refine_failure_preserves_output:
  assumes "nth_task (tasks s) i = Some (Refine_task p)"
  shows "results (refine_settled i (Inl e) s) p =
           (results s p)\<lparr>status := Completed, error := Some (js ''Refinement failed'')\<rparr>"
  using assms by (simp add: refine_settled_task refine_failed_def)

theorem refine_failure_preserves_output_witness:
  "results (refine_settled 0 (Inl (JsError None)) refining_twitter) TWITTER =
     (results refining_twitter TWITTER)
       \<lparr>status := Completed, error := Some (js ''Refinement failed'')\<rparr>"
  by (rule refine_failure_preserves_output) simp

text \<open>
  C27. \<open>handleRefine\<close> looks at the text only: on a slot with text and with a key in the
  environment it sets the status to \<open>refining\<close> and queues the call whatever the
  status was, also from \<open>error\<close> or while the slot is loading; on a slot without text it
  does nothing.
\<close>

theorem refine_guard_is_text_only:
  assumes "have_key s"
  shows "handleRefine p act s =
           (if truthy (text' (results s p))
            then s\<lparr>results := patch p refine_started (results s),
                   tasks := tasks s @ [Refine_task p]\<rparr>
            else s)"
  using assms by (simp add: handleRefine_key handleRefine_empty)

theorem refine_guard_is_text_only_witness:
  "handleRefine LINKEDIN Funnier awaiting_image =
     (if truthy (text' (results awaiting_image LINKEDIN))
      then awaiting_image\<lparr>results := patch LINKEDIN refine_started (results awaiting_image),
                           tasks := tasks awaiting_image @ [Refine_task LINKEDIN]\<rparr>
      else awaiting_image)"
  by (rule refine_guard_is_text_only)
     (simp add: awaiting_image_def text_settled_frame handleGenerate_frame)

text \<open>
  C28. A successful refinement replaces the text by the refined text (the empty string if
  the response carries none) and returns the slot to \<open>completed\<close>; the image is kept,
  and so is the error message: an earlier \<open>Refinement failed\<close> stays in the slot.
\<close>

theorem refine_success_keeps_error:
  assumes "nth_task (tasks s) i = Some (Refine_task p)"
  shows "results (refine_settled i (Inr response) s) p =
           (results s p)\<lparr>text' := js_or response [], status := Completed\<rparr> \<and>
         error (results (refine_settled i (Inr response) s) p) = error (results s p)"
  using assms by (simp add: refine_settled_task refine_ready_def)

theorem refine_success_keeps_error_witness:
  "results (refine_settled 0 (Inr (Some (js ''Hi''))) refining_twitter) TWITTER =
     (results refining_twitter TWITTER)
       \<lparr>text' := js_or (Some (js ''Hi'')) [], status := Completed\<rparr> \<and>
   error (results (refine_settled 0 (Inr (Some (js ''Hi''))) refining_twitter) TWITTER) =
     error (results refining_twitter TWITTER)"
  by (rule refine_success_keeps_error) simp

text \<open>
  C29. A failed text call ends the pipeline in \<open>error\<close> and queues no image call; the
  text of the slot is not cleared, so after a failed re-run the slot still holds the text
  of the run before.
\<close>

theorem text_failure_keeps_old_text:
  assumes "nth_task (tasks s) i = Some (Text_task p gp b)"
  shows "results (text_settled i (Inl e) s) p =
           (results s p)\<lparr>status := Error,
                          error := Some (js_or (message e) (js ''Generation failed''))\<rparr> \<and>
         tasks (text_settled i (Inl e) s) = remove_nth i (tasks s)"
  using assms by (simp add: text_settled_task generation_failed_def)

theorem text_failure_keeps_old_text_witness:
  "results (text_settled 1 (Inl (JsError None)) awaiting_image) TWITTER =
     (results awaiting_image TWITTER)
       \<lparr>status := Error,
        error := Some (js_or (message (JsError None)) (js ''Generation failed''))\<rparr> \<and>
   tasks (text_settled 1 (Inl (JsError None)) awaiting_image) =
     remove_nth 1 (tasks awaiting_image)"
  by (rule text_failure_keeps_old_text [where gp = "capture ready" and b = 0])
     (simp add: nth_task_def)

end
