(* ===== verification/App_Machine.thy ===== *)
theory App_Machine
  imports Orchestrator
begin

text \<open>
  The application as a transition system: one event per handler invocation and per
  settled promise, a total step function that dispatches to the handlers of
  \<^verbatim>\<open>src/App.tsx\<close>, runs as event lists, and the reachable states. Two sets of states
  are defined: those reachable when any caller may invoke any handler at any time, and
  those reachable through the rendered controls, which disable or hide the buttons in
  some states (\<open>ui_enabled\<close>). The lemmas establish the invariants of both.
\<close>

section \<open>Events and steps\<close>

datatype event =
    Set_topic jsstring
  | Set_tone tone
  | Set_language language
  | Set_keywords jsstring
  | Set_brandVoice jsstring
  | Set_isThread bool
  | Set_generateImages bool
  | Set_modelTier model_tier
  | Set_showAnalytics bool
  | Set_showSettings bool
  | Toggle_platform platform
  | Init_check
  | Connection_status bool
  | Env_changed js_env
  | Generate int
  | Text_settled nat "text_response outcome"
  | Image_settled nat "image_response outcome"
  | Refine platform refinement_action
  | Refine_settled nat "text_response outcome"
  | Schedule platform int jsstring
  | Delete_post jsstring

fun apply_event :: "event \<Rightarrow> app_state \<Rightarrow> app_state" where
  "apply_event (Set_topic v) s = s\<lparr>topic := v\<rparr>"
| "apply_event (Set_tone v) s = s\<lparr>tone := v\<rparr>"
| "apply_event (Set_language v) s = s\<lparr>language := v\<rparr>"
| "apply_event (Set_keywords v) s = s\<lparr>keywords' := v\<rparr>"
| "apply_event (Set_brandVoice v) s = s\<lparr>brandVoice := v\<rparr>"
| "apply_event (Set_isThread v) s = s\<lparr>isThread := v\<rparr>"
| "apply_event (Set_generateImages v) s = s\<lparr>generateImages := v\<rparr>"
| "apply_event (Set_modelTier v) s = s\<lparr>modelTier := v\<rparr>"
| "apply_event (Set_showAnalytics v) s = s\<lparr>showAnalytics := v\<rparr>"
| "apply_event (Set_showSettings v) s = s\<lparr>showSettings := v\<rparr>"
| "apply_event (Toggle_platform p) s = togglePlatform p s"
| "apply_event Init_check s = initCheck s"
| "apply_event (Connection_status c) s = onConnectionStatusChange c s"
| "apply_event (Env_changed e) s = s\<lparr>env := e\<rparr>"
| "apply_event (Generate now) s = handleGenerate now s"
| "apply_event (Text_settled i r) s = text_settled i r s"
| "apply_event (Image_settled i r) s = image_settled i r s"
| "apply_event (Refine p act) s = handleRefine p act s"
| "apply_event (Refine_settled i r) s = refine_settled i r s"
| "apply_event (Schedule p d i) s = handleSchedulePost p d i s"
| "apply_event (Delete_post i) s = deleteScheduledPost i s"

definition run :: "event list \<Rightarrow> app_state \<Rightarrow> app_state" where
  "run evs s = fold apply_event evs s"

inductive reachable :: "app_state \<Rightarrow> bool" where
  init: "reachable (init_state st e)"
| step: "reachable s \<Longrightarrow> reachable (apply_event ev s)"

text \<open>
  The controls: the Generate button is disabled while the topic is blank, a batch is
  loading or no key is connected; a result card is rendered for enabled platforms only,
  its action bar (Refine, Schedule) only while the status is completed or refining, and
  its Refine button is disabled while refining. The schedule panel, once opened from the
  action bar, stays open whatever the status becomes, so its Confirm button is taken to
  be available on every rendered card; \<open>handleSchedulePost\<close> checks the status itself.
  The hooks of the cards are left out here; \<open>App_Screen\<close> adds them and shows that the
  screen allows no more than these conditions do.
\<close>

definition generate_disabled :: "app_state \<Rightarrow> bool" where
  "generate_disabled s \<longleftrightarrow>
     \<not> truthy (trim (topic s)) \<or> isGlobalLoading s \<or> \<not> isApiKeyConnected s"

definition action_bar_shown :: "generation_result \<Rightarrow> bool" where
  "action_bar_shown r \<longleftrightarrow> status r = Completed \<or> status r = Refining"

definition refine_disabled :: "generation_result \<Rightarrow> bool" where
  "refine_disabled r \<longleftrightarrow> status r = Refining"

fun ui_enabled :: "app_state \<Rightarrow> event \<Rightarrow> bool" where
  "ui_enabled s (Generate now) = (\<not> generate_disabled s)"
| "ui_enabled s (Refine p act) =
     (p \<in> set (enabledPlatforms s) \<and> action_bar_shown (results s p)
      \<and> \<not> refine_disabled (results s p))"
| "ui_enabled s (Schedule p d i) = (p \<in> set (enabledPlatforms s))"
| "ui_enabled s ev = True"

inductive ui_reachable :: "app_state \<Rightarrow> bool" where
  ui_init: "ui_reachable (init_state st e)"
| ui_step: "ui_reachable s \<Longrightarrow> ui_enabled s ev \<Longrightarrow> ui_reachable (apply_event ev s)"

section \<open>Which slots an event may write\<close>

fun touched :: "app_state \<Rightarrow> event \<Rightarrow> platform list" where
  "touched s (Generate now) = (if accepts s then enabledPlatforms s else [])"
| "touched s (Text_settled i r) =
     (case nth_task (tasks s) i of Some (Text_task p gp b) \<Rightarrow> [p] | _ \<Rightarrow> [])"
| "touched s (Image_settled i r) =
     (case nth_task (tasks s) i of Some (Image_task p gp b t) \<Rightarrow> [p] | _ \<Rightarrow> [])"
| "touched s (Refine p act) = (if truthy (text' (results s p)) then [p] else [])"
| "touched s (Refine_settled i r) =
     (case nth_task (tasks s) i of Some (Refine_task p) \<Rightarrow> [p] | _ \<Rightarrow> [])"
| "touched s ev = []"

section \<open>Runs\<close>

lemma run_Nil [simp]: "run [] s = s"
  by (simp add: run_def)

lemma run_Cons [simp]: "run (ev # evs) s = run evs (apply_event ev s)"
  by (simp add: run_def)

lemma run_append [simp]: "run (evs @ evs') s = run evs' (run evs s)"
  by (simp add: run_def)

lemma reachable_run: "reachable s \<Longrightarrow> reachable (run evs s)"
  by (induction evs arbitrary: s) (auto intro: reachable.step)

lemma reachable_iff_run: "reachable s \<longleftrightarrow> (\<exists>st e evs. s = run evs (init_state st e))"
proof
  assume "reachable s"
  then show "\<exists>st e evs. s = run evs (init_state st e)"
  proof (induction rule: reachable.induct)
    case (init st e)
    have "init_state st e = run [] (init_state st e)" by simp
    then show ?case by blast
  next
    case (step s ev)
    then obtain st e evs where "s = run evs (init_state st e)" by blast
    then have "apply_event ev s = run (evs @ [ev]) (init_state st e)" by simp
    then show ?case by blast
  qed
next
  assume "\<exists>st e evs. s = run evs (init_state st e)"
  then show "reachable s"
    by (auto intro: reachable_run reachable.init)
qed

lemma ui_reachable_reachable: "ui_reachable s \<Longrightarrow> reachable s"
  by (induction rule: ui_reachable.induct) (auto intro: reachable.intros)

section \<open>Fault isolation: an event writes only the slots it names\<close>

lemma results_text_settled:
  "results (text_settled i r s) q =
     (case nth_task (tasks s) i of
        Some (Text_task p gp b) \<Rightarrow>
          patch p (text_effect (have_key s) (p_generateImages gp) r) (results s) q
      | _ \<Rightarrow> results s q)"
  by (cases rule: text_settled_cases [where i = i and r = r and s = s])
     (auto split: option.splits task.splits)

lemma results_image_settled:
  "results (image_settled i r s) q =
     (case nth_task (tasks s) i of
        Some (Image_task p gp b t) \<Rightarrow>
          patch p (after_image (generatePlatformImage_settle r)) (results s) q
      | _ \<Rightarrow> results s q)"
  by (auto simp: image_settled_def split: option.splits task.splits)

lemma results_refine_settled:
  "results (refine_settled i r s) q =
     (case nth_task (tasks s) i of
        Some (Refine_task p) \<Rightarrow> patch p (refine_effect r) (results s) q
      | _ \<Rightarrow> results s q)"
  by (cases rule: refine_settled_cases [where i = i and r = r and s = s])
     (auto split: option.splits task.splits)

lemma results_handleRefine:
  "results (handleRefine p act s) q =
     (if q = p \<and> truthy (text' (results s p))
      then (if have_key s then refine_started (results s p)
            else refine_failed (refine_started (results s p)))
      else results s q)"
  by (cases rule: handleRefine_cases [of s p act]) simp_all

lemmas results_after =
  results_handleGenerate results_text_settled results_image_settled results_handleRefine
  results_refine_settled handleSchedulePost_frame(1) deleteScheduledPost_frame(1)
  togglePlatform_frame(1)

lemma untouched_slot:
  "q \<notin> set (touched s ev) \<Longrightarrow> results (apply_event ev s) q = results s q"
  by (cases ev)
     (auto simp: results_after frame_simps split: option.splits task.splits if_splits)

section \<open>The pending promises after each event\<close>

lemma tasks_text_settled:
  "tasks (text_settled i r s) =
     (case nth_task (tasks s) i of
        Some (Text_task p gp b) \<Rightarrow>
          if text_continues (have_key s) (p_generateImages gp) r
          then (tasks s)[i := Image_task p gp b (text_of_response r)]
          else remove_nth i (tasks s)
      | _ \<Rightarrow> tasks s)"
  by (cases rule: text_settled_cases [where i = i and r = r and s = s])
     (auto split: option.splits task.splits)

lemma tasks_image_settled:
  "tasks (image_settled i r s) =
     (case nth_task (tasks s) i of
        Some (Image_task p gp b t) \<Rightarrow> remove_nth i (tasks s)
      | _ \<Rightarrow> tasks s)"
  by (auto simp: image_settled_def split: option.splits task.splits)

lemma tasks_refine_settled:
  "tasks (refine_settled i r s) =
     (case nth_task (tasks s) i of
        Some (Refine_task p) \<Rightarrow> remove_nth i (tasks s)
      | _ \<Rightarrow> tasks s)"
  by (cases rule: refine_settled_cases [where i = i and r = r and s = s])
     (auto split: option.splits task.splits)

lemma tasks_handleRefine:
  "tasks (handleRefine p act s) =
     (if truthy (text' (results s p)) \<and> have_key s then tasks s @ [Refine_task p] else tasks s)"
  by (cases rule: handleRefine_cases [of s p act]) simp_all

lemma isGlobalLoading_text_settled:
  "isGlobalLoading (text_settled i r s) =
     (case nth_task (tasks s) i of
        Some (Text_task p gp b) \<Rightarrow>
          isGlobalLoading s \<and>
          (text_continues (have_key s) (p_generateImages gp) r \<or>
           batch_pending b (remove_nth i (tasks s)))
      | _ \<Rightarrow> isGlobalLoading s)"
  by (cases rule: text_settled_cases [where i = i and r = r and s = s])
     (auto split: option.splits task.splits)

lemma isGlobalLoading_image_settled:
  "isGlobalLoading (image_settled i r s) =
     (case nth_task (tasks s) i of
        Some (Image_task p gp b t) \<Rightarrow>
          isGlobalLoading s \<and> batch_pending b (remove_nth i (tasks s))
      | _ \<Rightarrow> isGlobalLoading s)"
  by (auto simp: image_settled_def split: option.splits task.splits)

lemmas isGlobalLoading_after =
  isGlobalLoading_handleGenerate isGlobalLoading_text_settled isGlobalLoading_image_settled

lemmas tasks_after =
  tasks_handleGenerate tasks_text_settled tasks_image_settled tasks_handleRefine
  tasks_refine_settled handleSchedulePost_frame(2) deleteScheduledPost_frame(2)
  togglePlatform_frame(2)

section \<open>The other fields after each event\<close>

lemma enabledPlatforms_apply_event:
  "enabledPlatforms (apply_event ev s) =
     (case ev of Toggle_platform p \<Rightarrow> enabledPlatforms (togglePlatform p s)
      | _ \<Rightarrow> enabledPlatforms s)"
  by (cases ev) (simp_all add: frame_simps)

lemma scheduledPosts_apply_event:
  "scheduledPosts (apply_event ev s) =
     (case ev of Schedule p d i \<Rightarrow> scheduledPosts (handleSchedulePost p d i s)
      | Delete_post i \<Rightarrow> scheduledPosts (deleteScheduledPost i s)
      | _ \<Rightarrow> scheduledPosts s)"
  by (cases ev) (simp_all add: frame_simps)

lemma history_apply_event:
  "history (apply_event ev s) =
     (case ev of Generate now \<Rightarrow> history (handleGenerate now s) | _ \<Rightarrow> history s)"
  by (cases ev) (simp_all add: frame_simps)

lemma stored_apply_event:
  "stored (apply_event ev s) =
     (case ev of Generate now \<Rightarrow> stored (handleGenerate now s) | _ \<Rightarrow> stored s)"
  by (cases ev) (simp_all add: frame_simps)

lemma next_batch_apply_event:
  "next_batch (apply_event ev s) =
     (case ev of Generate now \<Rightarrow> next_batch (handleGenerate now s) | _ \<Rightarrow> next_batch s)"
  by (cases ev) (simp_all add: frame_simps)

lemma next_batch_mono: "next_batch s \<le> next_batch (apply_event ev s)"
  by (simp add: next_batch_apply_event next_batch_handleGenerate split: event.split)

section \<open>Runs through the controls and the example states\<close>

fun touched_run :: "app_state \<Rightarrow> event list \<Rightarrow> platform list" where
  "touched_run s [] = []"
| "touched_run s (ev # evs) = touched s ev @ touched_run (apply_event ev s) evs"

fun ui_run :: "app_state \<Rightarrow> event list \<Rightarrow> bool" where
  "ui_run s [] = True"
| "ui_run s (ev # evs) = (ui_enabled s ev \<and> ui_run (apply_event ev s) evs)"

lemma ui_reachable_run: "ui_reachable s \<Longrightarrow> ui_run s evs \<Longrightarrow> ui_reachable (run evs s)"
  by (induction evs arbitrary: s) (auto intro: ui_reachable.ui_step)

text \<open>The user's steps that lead from the initial state to the state \<open>ready\<close>.\<close>

definition setup_events :: "event list" where
  "setup_events =
     [Set_topic (js ''T''), Toggle_platform INSTAGRAM, Toggle_platform THREADS,
      Connection_status True]"

lemma ready_run: "ready = run setup_events (init_state No_entry env_keyed)"
  by (simp add: ready_def setup_events_def togglePlatform_def onConnectionStatusChange_def
      init_state_def Platform_values_def)

lemma ui_run_setup: "ui_run s setup_events"
  by (simp add: setup_events_def)

lemma ui_reachable_ready: "ui_reachable ready"
  unfolding ready_run by (intro ui_reachable_run ui_reachable.ui_init ui_run_setup)

lemma reachable_ready: "reachable ready"
  by (rule ui_reachable_reachable) (rule ui_reachable_ready)

lemma ui_generate_accepts:
  "\<not> generate_disabled s \<longleftrightarrow> accepts s \<and> \<not> isGlobalLoading s"
  by (auto simp: generate_disabled_def accepts_def)

lemma generate_enabled_ready: "\<not> generate_disabled ready"
  by (simp add: ui_generate_accepts)

lemma ui_reachable_generate_ready: "ui_reachable (handleGenerate now ready)"
  using ui_reachable.ui_step [OF ui_reachable_ready, of "Generate now"]
  by (simp add: generate_enabled_ready)

section \<open>Properties of the transition system\<close>

text \<open>
  C3. Writes to the result table stay in their slot: over any sequence of events, a slot
  that none of the events names (a platform outside the enabled set of a submission, a
  platform other than that of a settled call or of a refinement) is left exactly as it
  was. A failure in one pipeline therefore changes no other platform's result.
\<close>

theorem writes_stay_in_slot:
  "q \<notin> set (touched_run s evs) \<Longrightarrow> results (run evs s) q = results s q"
  by (induction evs arbitrary: s) (simp_all add: untouched_slot)

theorem writes_stay_in_slot_witness:
  "results (run [Generate 0, Text_settled 0 (Inl (JsError None))] ready) TWITTER =
   results (run [Generate 0] ready) TWITTER \<and>
   results (run [Generate 0, Text_settled 0 (Inl (JsError None))] ready) INSTAGRAM =
   results ready INSTAGRAM"
  using writes_stay_in_slot
      [of TWITTER "handleGenerate 0 ready" "[Text_settled 0 (Inl (JsError None))]"]
    writes_stay_in_slot
      [of INSTAGRAM ready "[Generate 0, Text_settled 0 (Inl (JsError None))]"]
  by (simp add: tasks_generate_ready)

end
