(* ===== verification/App_Invariants.thy ===== *)
theory App_Invariants
  imports App_Machine "HOL-Library.Sublist"
begin

text \<open>
  Invariants of the application: properties of the state that hold initially and that
  every event preserves, whoever invokes the handlers and in whatever order the
  environment settles the promises. Each invariant has a step lemma and a theorem over
  the reachable states.
\<close>

section \<open>Invariants\<close>

definition slots_ok :: "app_state \<Rightarrow> bool" where
  "slots_ok s \<longleftrightarrow> (\<forall>p. platform (results s p) = p)"

definition pending_for :: "app_state \<Rightarrow> platform \<Rightarrow> bool" where
  "pending_for s p \<longleftrightarrow> list_ex (\<lambda>t. task_platform t = p) (tasks s)"

definition flight_tracked :: "app_state \<Rightarrow> bool" where
  "flight_tracked s \<longleftrightarrow> (\<forall>p. in_flight (status (results s p)) \<longrightarrow> pending_for s p)"

definition history_saved :: "app_state \<Rightarrow> bool" where
  "history_saved s \<longleftrightarrow> stored s = Saved (history s)"

definition batches_fresh :: "app_state \<Rightarrow> bool" where
  "batches_fresh s \<longleftrightarrow>
     list_all (\<lambda>t. case task_batch t of None \<Rightarrow> True | Some b \<Rightarrow> b < next_batch s) (tasks s)"

text \<open>
  The pipelines among the pending promises, and the two invariants of the loading flag:
  whoever calls the handlers, the flag is only set while a pipeline is pending; through
  the rendered controls, it is set exactly while one is, all pending pipelines belong to
  the batch started last, and no platform has two of them.
\<close>

definition is_gen :: "task \<Rightarrow> bool" where
  "is_gen t \<longleftrightarrow> task_batch t \<noteq> None"

definition gen_tasks :: "app_state \<Rightarrow> task list" where
  "gen_tasks s = filter is_gen (tasks s)"

definition loading_pending :: "app_state \<Rightarrow> bool" where
  "loading_pending s \<longleftrightarrow> (isGlobalLoading s \<longrightarrow> gen_tasks s \<noteq> [])"

definition single_batch :: "app_state \<Rightarrow> bool" where
  "single_batch s \<longleftrightarrow>
     (isGlobalLoading s \<longleftrightarrow> gen_tasks s \<noteq> []) \<and>
     list_all (\<lambda>t. task_batch t = Some (next_batch s - 1)) (gen_tasks s) \<and>
     distinct (map task_platform (gen_tasks s))"

section \<open>Tasks and platforms\<close>

lemma pending_for_iff: "pending_for s p \<longleftrightarrow> p \<in> task_platform ` set (tasks s)"
  by (auto simp: pending_for_def list_ex_iff)

lemma platforms_remove_nth:
  assumes "nth_task ts i = Some t" and "task_platform t \<noteq> q"
  shows "q \<in> task_platform ` set (remove_nth i ts) \<longleftrightarrow> q \<in> task_platform ` set ts"
proof -
  from assms(1) have "set ts = insert t (set (remove_nth i ts))"
    using set_remove_nth [of i ts] by (auto simp: nth_task_Some_iff)
  with assms(2) show ?thesis by auto
qed

lemma platforms_update:
  assumes "nth_task ts i = Some t" and "task_platform t' = task_platform t"
  shows "map task_platform (ts[i := t']) = map task_platform ts"
  using assms by (simp add: nth_task_Some_iff map_update list_update_same_conv)

lemma platforms_update_set:
  assumes "nth_task ts i = Some t" and "task_platform t' = task_platform t"
  shows "task_platform ` set (ts[i := t']) = task_platform ` set ts"
  using platforms_update [OF assms, THEN arg_cong, where f = set] by simp

lemma nth_task_platform: "nth_task ts i = Some t \<Longrightarrow> task_platform t \<in> task_platform ` set ts"
  by (auto dest: nth_task_in_set)

lemma pending_kept:
  "q \<notin> set (touched s ev) \<Longrightarrow> pending_for s q \<Longrightarrow> pending_for (apply_event ev s) q"
  by (cases ev)
     (auto simp: pending_for_iff tasks_after platforms_remove_nth platforms_update_set
        split: option.splits task.splits if_splits)

lemma touched_in_flight:
  "q \<in> set (touched s ev) \<Longrightarrow> in_flight (status (results (apply_event ev s) q)) \<Longrightarrow>
   pending_for (apply_event ev s) q"
  by (cases ev)
     (auto simp: pending_for_iff tasks_after results_after platforms_update_set image_Un
        image_comp
        split: option.splits task.splits if_splits dest: nth_task_platform)

section \<open>Steps\<close>

lemma flight_tracked_step: "flight_tracked s \<Longrightarrow> flight_tracked (apply_event ev s)"
  unfolding flight_tracked_def
  by (metis touched_in_flight untouched_slot pending_kept)

lemma flight_tracked_init: "flight_tracked (init_state st e)"
  by (simp add: flight_tracked_def in_flight_def)

lemma enabled_ok_step: "enabled_ok s \<Longrightarrow> enabled_ok (apply_event ev s)"
  by (simp add: enabled_ok_def enabledPlatforms_apply_event togglePlatform_nonempty
      togglePlatform_distinct split: event.split)

lemma queue_sorted_step: "queue_sorted s \<Longrightarrow> queue_sorted (apply_event ev s)"
  using handleSchedulePost_queue_sorted [of s] deleteScheduledPost_queue_sorted [of s]
  by (simp add: queue_sorted_def scheduledPosts_apply_event split: event.split)

lemma history_saved_step: "history_saved s \<Longrightarrow> history_saved (apply_event ev s)"
  by (simp add: history_saved_def history_apply_event stored_apply_event
      history_handleGenerate stored_handleGenerate split: event.split)

lemma slots_ok_step: "slots_ok s \<Longrightarrow> slots_ok (apply_event ev s)"
  unfolding slots_ok_def
  by (cases ev) (auto simp: results_after split: option.splits task.splits)

lemma batches_fresh_iff:
  "batches_fresh s \<longleftrightarrow> (\<forall>t\<in>set (tasks s). \<forall>b. task_batch t = Some b \<longrightarrow> b < next_batch s)"
  by (auto simp: batches_fresh_def list_all_iff split: option.splits)

lemma in_set_update_cases:
  "t \<in> set (xs[i := x]) \<Longrightarrow> t = x \<or> t \<in> set xs"
  using set_update_subset_insert [of xs i x] by auto

lemma nth_task_batch_pending:
  "nth_task ts i = Some t \<Longrightarrow> task_batch t = Some b \<Longrightarrow> batch_pending b ts"
  by (auto simp: batch_pending_iff dest: nth_task_in_set)

lemma batch_origin:
  assumes "t \<in> set (tasks (apply_event ev s))" and "task_batch t = Some b"
  shows "batch_pending b (tasks s) \<or>
         (b = next_batch s \<and> next_batch (apply_event ev s) = Suc (next_batch s))"
  using assms
  by (cases ev)
     (auto simp: tasks_after batch_pending_iff next_batch_handleGenerate
        split: option.splits task.splits if_splits
        dest!: in_set_update_cases set_remove_nth_subset [THEN subsetD]
        dest: nth_task_batch_pending [unfolded batch_pending_iff])

lemma batches_fresh_step: "batches_fresh s \<Longrightarrow> batches_fresh (apply_event ev s)"
  unfolding batches_fresh_iff
  using next_batch_mono [of s ev]
  by (fastforce dest: batch_origin simp: batch_pending_iff)

lemma batches_fresh_pending: "batches_fresh s \<Longrightarrow> \<not> batch_pending (next_batch s) (tasks s)"
  by (auto simp: batches_fresh_iff batch_pending_iff)

section \<open>The loading flag\<close>

lemma is_gen_simps [simp]:
  "is_gen (Text_task p gp b)" "is_gen (Image_task p gp b t)" "\<not> is_gen (Refine_task p)"
  by (simp_all add: is_gen_def)

lemma batch_pending_filter_gen:
  "batch_pending b (filter is_gen ts) = batch_pending b ts"
  by (auto simp: batch_pending_iff is_gen_def)

lemma one_batch_pending:
  "list_all (\<lambda>t. task_batch t = Some b) (filter is_gen ts) \<Longrightarrow>
   batch_pending b ts \<longleftrightarrow> filter is_gen ts \<noteq> []"
  by (auto simp: batch_pending_iff list_all_iff filter_empty_conv is_gen_def)

lemma gen_pending_batch: "filter is_gen ts \<noteq> [] \<longleftrightarrow> (\<exists>b. batch_pending b ts)"
  by (auto simp: batch_pending_iff filter_empty_conv is_gen_def)

lemma batch_pending_gen: "batch_pending b ts \<Longrightarrow> filter is_gen ts \<noteq> []"
  by (auto simp: gen_pending_batch)

lemma filter_gen_new [simp]:
  "filter is_gen (map (\<lambda>p. Text_task p gp b) ps) = map (\<lambda>p. Text_task p gp b) ps"
  by (induction ps) simp_all

lemma loading_pending_step:
  assumes "loading_pending s" shows "loading_pending (apply_event ev s)"
proof (cases ev)
  case (Generate now)
  with assms show ?thesis
    by (auto simp: loading_pending_def gen_tasks_def isGlobalLoading_handleGenerate
        tasks_handleGenerate split: if_splits dest: batch_pending_gen)
next
  case (Text_settled i r)
  show ?thesis
  proof (cases rule: text_settled_cases [where i = i and r = r and s = s])
    case none
    with assms Text_settled show ?thesis by simp
  next
    case (failed p gp b)
    from failed(1) obtain A B where "remove_nth i (tasks s) = A @ B"
      by (rule nth_task_split)
    with failed(3) Text_settled show ?thesis
      by (auto simp: loading_pending_def gen_tasks_def gen_pending_batch)
  next
    case (continues p gp b)
    from continues(1) obtain A B where "\<forall>t'. (tasks s)[i := t'] = A @ t' # B"
      by (rule nth_task_split)
    with continues(3) Text_settled show ?thesis
      by (simp add: loading_pending_def gen_tasks_def)
  qed
next
  case (Image_settled i r)
  show ?thesis
  proof (cases rule: image_settled_cases [where i = i and r = r and s = s])
    case none
    with assms Image_settled show ?thesis by simp
  next
    case (task p gp b t)
    from task(1) obtain A B where "remove_nth i (tasks s) = A @ B"
      by (rule nth_task_split)
    with task(2) Image_settled show ?thesis
      by (auto simp: loading_pending_def gen_tasks_def gen_pending_batch)
  qed
next
  case (Refine_settled i r)
  show ?thesis
  proof (cases rule: refine_settled_cases [where i = i and r = r and s = s])
    case none
    with assms Refine_settled show ?thesis by simp
  next
    case (task p)
    from task(1) obtain A B where "tasks s = A @ Refine_task p # B"
      and "remove_nth i (tasks s) = A @ B"
      by (rule nth_task_split)
    with task(2) Refine_settled assms show ?thesis
      by (simp add: loading_pending_def gen_tasks_def)
  qed
qed (use assms in \<open>simp_all add: loading_pending_def gen_tasks_def frame_simps tasks_after\<close>)

lemma platforms_new [simp]: "map (task_platform \<circ> (\<lambda>p. Text_task p gp b)) ps = ps"
  by (induction ps) simp_all

lemma single_batch_remove:
  assumes "single_batch s" and "tasks s = A @ t # B" and "task_batch t = Some b"
  shows "single_batch (join b (s\<lparr>results := tbl, tasks := A @ B\<rparr>))"
proof -
  from assms have b: "b = next_batch s - 1" and loading: "isGlobalLoading s"
    and rest: "list_all (\<lambda>t. task_batch t = Some b) (filter is_gen (A @ B))"
    and dist: "distinct (map task_platform (filter is_gen (A @ B)))"
    by (auto simp: single_batch_def gen_tasks_def is_gen_def)
  from rest have "batch_pending b (A @ B) \<longleftrightarrow> filter is_gen (A @ B) \<noteq> []"
    by (rule one_batch_pending)
  with b loading rest dist show ?thesis
    by (simp add: single_batch_def gen_tasks_def)
qed

lemma list_all_new [simp]:
  "list_all (\<lambda>t. task_batch t = Some b') (map (\<lambda>p. Text_task p gp b) ps) \<longleftrightarrow> ps = [] \<or> b = b'"
  by (induction ps) auto

lemma single_batch_generate:
  assumes "single_batch s" and "enabled_ok s" and "\<not> generate_disabled s"
  shows "single_batch (handleGenerate now s)"
proof -
  from assms(3) have acc: "accepts s" and idle: "\<not> isGlobalLoading s"
    by (simp_all add: ui_generate_accepts)
  from assms(1) idle have none: "filter is_gen (tasks s) = []"
    by (simp add: single_batch_def gen_tasks_def)
  then have "\<not> batch_pending b (tasks s)" for b
    using batch_pending_gen by blast
  with acc none assms(2) show ?thesis
    by (simp add: single_batch_def gen_tasks_def handleGenerate_fields enabled_ok_def)
qed

lemma single_batch_text_settled:
  assumes "single_batch s" shows "single_batch (text_settled i r s)"
proof (cases rule: text_settled_cases [where i = i and r = r and s = s])
  case none
  with assms show ?thesis by simp
next
  case (failed p gp b)
  from failed(1) obtain A B where "tasks s = A @ Text_task p gp b # B"
    and "remove_nth i (tasks s) = A @ B"
    by (rule nth_task_split)
  with failed(3) assms show ?thesis
    by (simp add: single_batch_remove)
next
  case (continues p gp b)
  from continues(1) obtain A B where "tasks s = A @ Text_task p gp b # B"
    and "\<forall>t'. (tasks s)[i := t'] = A @ t' # B"
    by (rule nth_task_split)
  with continues(3) assms show ?thesis
    by (simp add: single_batch_def gen_tasks_def)
qed

lemma single_batch_image_settled:
  assumes "single_batch s" shows "single_batch (image_settled i r s)"
proof (cases rule: image_settled_cases [where i = i and r = r and s = s])
  case none
  with assms show ?thesis by simp
next
  case (task p gp b t)
  from task(1) obtain A B where "tasks s = A @ Image_task p gp b t # B"
    and "remove_nth i (tasks s) = A @ B"
    by (rule nth_task_split)
  with task(2) assms show ?thesis
    by (simp add: single_batch_remove)
qed

lemma gen_tasks_refine_settled: "gen_tasks (refine_settled i r s) = gen_tasks s"
proof (cases rule: refine_settled_cases [where i = i and r = r and s = s])
  case none
  then show ?thesis by simp
next
  case (task p)
  from task(1) obtain A B where "tasks s = A @ Refine_task p # B"
    and "remove_nth i (tasks s) = A @ B"
    by (rule nth_task_split)
  with task(2) show ?thesis
    by (simp add: gen_tasks_def)
qed

lemma gen_tasks_handleRefine: "gen_tasks (handleRefine p act s) = gen_tasks s"
  by (simp add: gen_tasks_def tasks_handleRefine)

lemma single_batch_step:
  assumes "single_batch s" and "enabled_ok s" and "ui_enabled s ev"
  shows "single_batch (apply_event ev s)"
proof (cases ev)
  case (Generate now)
  with assms show ?thesis by (simp add: single_batch_generate)
next
  case (Text_settled i r)
  with assms show ?thesis by (simp add: single_batch_text_settled)
next
  case (Image_settled i r)
  with assms show ?thesis by (simp add: single_batch_image_settled)
next
  case (Refine p act)
  with assms show ?thesis
    by (simp add: single_batch_def gen_tasks_handleRefine frame_simps)
next
  case (Refine_settled i r)
  with assms show ?thesis
    by (simp add: single_batch_def gen_tasks_refine_settled frame_simps)
qed (use assms in \<open>simp_all add: single_batch_def gen_tasks_def frame_simps\<close>)

lemma single_batch_init: "single_batch (init_state st e)"
  by (simp add: single_batch_def gen_tasks_def)

section \<open>The history\<close>

lemma history_suffix_step: "suffix (history s) (history (apply_event ev s))"
  by (simp add: history_apply_event history_handleGenerate suffix_ConsI split: event.split)

section \<open>The invariants hold in every reachable state\<close>

lemma loading_pending_init: "loading_pending (init_state st e)"
  by (simp add: loading_pending_def)

lemma slots_ok_init: "slots_ok (init_state st e)"
  by (simp add: slots_ok_def)

lemma queue_sorted_init: "queue_sorted (init_state st e)"
  by (simp add: queue_sorted_def)

lemma history_saved_init: "history_saved (init_state st e)"
  by (simp add: history_saved_def)

lemma batches_fresh_init: "batches_fresh (init_state st e)"
  by (simp add: batches_fresh_def)

lemmas invariant_inits =
  flight_tracked_init loading_pending_init slots_ok_init queue_sorted_init
  history_saved_init batches_fresh_init enabled_ok_init

lemmas invariant_steps =
  flight_tracked_step loading_pending_step slots_ok_step queue_sorted_step
  history_saved_step batches_fresh_step enabled_ok_step

lemma reachable_invariants:
  assumes "reachable s"
  shows "flight_tracked s" and "loading_pending s" and "slots_ok s" and "queue_sorted s"
    and "history_saved s" and "batches_fresh s" and "enabled_ok s"
  using assms
  by (induction rule: reachable.induct) (simp_all add: invariant_inits invariant_steps)

lemma history_suffix_run: "suffix (history s) (history (run evs s))"
proof (induction evs arbitrary: s)
  case Nil
  show ?case by simp
next
  case (Cons ev evs)
  from history_suffix_step [of s ev] Cons [of "apply_event ev s"] show ?case
    by (simp add: suffix_order.trans)
qed

lemma single_batch_ui_reachable: "ui_reachable s \<Longrightarrow> single_batch s"
  by (induction rule: ui_reachable.induct)
     (simp_all add: single_batch_init single_batch_step reachable_invariants(7)
        ui_reachable_reachable)

section \<open>Properties of the reachable states\<close>

text \<open>
  C2. No slot is left loading or refining without a call to answer it: in every reachable
  state, a slot whose status is \<open>loading_text\<close>, \<open>loading_image\<close> or \<open>refining\<close>
  has a pending promise for its platform.
\<close>

theorem in_flight_has_pending_call:
  "reachable s \<Longrightarrow> in_flight (status (results s p)) \<Longrightarrow> pending_for s p"
  using reachable_invariants(1) [of s] by (simp add: flight_tracked_def)

theorem in_flight_has_pending_call_witness:
  "pending_for (handleGenerate 0 ready) TWITTER"
  using in_flight_has_pending_call [of "apply_event (Generate 0) ready" TWITTER]
    reachable.step [OF reachable_ready, of "Generate 0"]
  by (simp add: results_handleGenerate)

text \<open>
  C4. Through the rendered controls only one batch runs at a time: in every state
  reachable through them, the loading flag is set exactly while a pipeline is pending,
  all pending pipelines belong to the batch submitted last, and no platform has more than
  one of them.
\<close>

theorem one_batch_through_ui:
  "ui_reachable s \<Longrightarrow>
   (isGlobalLoading s \<longleftrightarrow> gen_tasks s \<noteq> []) \<and>
   list_all (\<lambda>t. task_batch t = Some (next_batch s - 1)) (gen_tasks s) \<and>
   distinct (map task_platform (gen_tasks s))"
  using single_batch_ui_reachable [of s] by (simp add: single_batch_def)

theorem one_batch_through_ui_witness:
  "(isGlobalLoading (handleGenerate 0 ready) \<longleftrightarrow> gen_tasks (handleGenerate 0 ready) \<noteq> []) \<and>
   list_all (\<lambda>t. task_batch t = Some (next_batch (handleGenerate 0 ready) - 1))
     (gen_tasks (handleGenerate 0 ready)) \<and>
   distinct (map task_platform (gen_tasks (handleGenerate 0 ready)))"
  by (rule one_batch_through_ui) (rule ui_reachable_generate_ready)

text \<open>
  Whoever invokes the handlers and in whatever order, the loading flag is never set
  without a pipeline pending: it cannot stay on after the last pipeline has settled.
\<close>

lemma loading_flag_has_pipeline:
  "reachable s \<Longrightarrow> isGlobalLoading s \<Longrightarrow> gen_tasks s \<noteq> []"
  using reachable_invariants(2) [of s] by (simp add: loading_pending_def)

lemma loading_flag_has_pipeline_witness:
  "gen_tasks (handleGenerate 0 ready) \<noteq> []"
  using loading_flag_has_pipeline [of "apply_event (Generate 0) ready"]
    reachable.step [OF reachable_ready, of "Generate 0"]
  by (simp add: isGlobalLoading_handleGenerate)

text \<open>
  C25. In every reachable state the set of enabled platforms is non-empty and lists no
  platform twice, the schedule is in ascending order of date, and every slot of the
  result table carries the platform it is stored under.
\<close>

theorem state_well_formed:
  "reachable s \<Longrightarrow>
   enabledPlatforms s \<noteq> [] \<and> distinct (enabledPlatforms s) \<and>
   sorted (map scheduledDate (scheduledPosts s)) \<and>
   platform (results s p) = p"
  using reachable_invariants(3,4,7) [of s]
  by (simp add: enabled_ok_def queue_sorted_def slots_ok_def)

theorem state_well_formed_witness:
  "enabledPlatforms ready \<noteq> [] \<and> distinct (enabledPlatforms ready) \<and>
   sorted (map scheduledDate (scheduledPosts ready)) \<and>
   platform (results ready TWITTER) = TWITTER"
  by (rule state_well_formed) (rule reachable_ready)

text \<open>
  C24. The history only grows, at its front, and the stored copy follows it: over any
  sequence of events the earlier history is a suffix of the later one, and in every
  reachable state the entry in the browser's storage is the history in memory.
\<close>

theorem history_append_only:
  "reachable s \<Longrightarrow>
   suffix (history s) (history (run evs s)) \<and> stored (run evs s) = Saved (history (run evs s))"
  using reachable_invariants(5) [OF reachable_run, of s evs]
  by (simp add: history_suffix_run history_saved_def)

theorem history_append_only_witness:
  "suffix (history ready) (history (run [Generate 5, Generate 6] ready)) \<and>
   stored (run [Generate 5, Generate 6] ready) =
     Saved (history (run [Generate 5, Generate 6] ready))"
  by (rule history_append_only) (rule reachable_ready)

end
