(* ===== verification/Batch_Join.thy ===== *)
theory Batch_Join
  imports App_Invariants
begin

text \<open>
  The join of a batch: \<open>handleGenerate\<close> awaits \<open>Promise.allSettled\<close>, so the batch
  ends when every pipeline has settled, whatever the outcomes. The theory measures the
  calls still to be answered (\<open>work\<close>), shows that every answer of the environment
  lowers the measure, and runs the application against an environment that answers the
  pending calls one after the other (\<open>drain\<close>, with the number of answers as fuel):
  with fuel \<open>work s\<close> no promise is left, the loading flag is cleared and no slot
  is left loading or refining.
\<close>

section \<open>Work left and an answering environment\<close>

fun weight :: "task \<Rightarrow> nat" where
  "weight (Text_task p gp b) = (if p_generateImages gp then 2 else 1)"
| "weight (Image_task p gp b t) = 1"
| "weight (Refine_task p) = 1"

definition work :: "app_state \<Rightarrow> nat" where
  "work s = sum_list (map weight (tasks s))"

fun settle_event :: "nat \<Rightarrow> text_response outcome \<Rightarrow> image_response outcome \<Rightarrow> task \<Rightarrow> event" where
  "settle_event i rt ri (Text_task p gp b) = Text_settled i rt"
| "settle_event i rt ri (Image_task p gp b t) = Image_settled i ri"
| "settle_event i rt ri (Refine_task p) = Refine_settled i rt"

fun drain ::
  "nat \<Rightarrow> (task \<Rightarrow> text_response outcome) \<Rightarrow> (task \<Rightarrow> image_response outcome) \<Rightarrow>
   app_state \<Rightarrow> app_state" where
  "drain 0 ft fi s = s"
| "drain (Suc n) ft fi s =
     (case tasks s of
        [] \<Rightarrow> s
      | t # ts \<Rightarrow> drain n ft fi (apply_event (settle_event 0 (ft t) (fi t) t) s))"

section \<open>Every answer makes progress\<close>

lemma weight_pos [simp]: "0 < weight t"
  by (cases t) simp_all

lemma work_0_iff [simp]: "work s = 0 \<longleftrightarrow> tasks s = []"
  by (cases "tasks s") (simp_all add: work_def)

lemma work_settle:
  assumes "nth_task (tasks s) i = Some t"
  shows "work (apply_event (settle_event i rt ri t) s) < work s"
proof -
  from assms obtain A B where sp: "tasks s = A @ t # B" "remove_nth i (tasks s) = A @ B"
    "\<forall>t'. (tasks s)[i := t'] = A @ t' # B"
    by (rule nth_task_split)
  show ?thesis
  proof (cases t)
    case (Text_task p gp b)
    with assms sp show ?thesis
      by (auto simp: work_def text_settled_task text_continues_def)
  next
    case (Image_task p gp b x)
    with assms sp show ?thesis
      by (simp add: work_def image_settled_task)
  next
    case (Refine_task p)
    with assms sp show ?thesis
      by (simp add: work_def refine_settled_task)
  qed
qed

lemma drain_done: "work s \<le> n \<Longrightarrow> tasks (drain n ft fi s) = []"
proof (induction n arbitrary: s)
  case 0
  then show ?case by simp
next
  case (Suc n)
  show ?case
  proof (cases "tasks s")
    case Nil
    then show ?thesis by simp
  next
    case (Cons t ts)
    then have "nth_task (tasks s) 0 = Some t" by simp
    from work_settle [OF this, of "ft t" "fi t"] Suc.prems
    have "work (apply_event (settle_event 0 (ft t) (fi t) t) s) \<le> n" by simp
    with Cons Suc.IH show ?thesis by simp
  qed
qed

lemma reachable_drain: "reachable s \<Longrightarrow> reachable (drain n ft fi s)"
  by (induction n ft fi s rule: drain.induct)
     (auto intro: reachable.step split: list.splits)

section \<open>Sequences of answers\<close>

text \<open>
  A sequence of answers of the environment: each event settles a promise that is pending
  when it arrives, with an event of its kind.
\<close>

fun answers :: "app_state \<Rightarrow> event list \<Rightarrow> bool" where
  "answers s [] = True"
| "answers s (Text_settled i r # evs) =
     ((case nth_task (tasks s) i of Some (Text_task p gp b) \<Rightarrow> True | _ \<Rightarrow> False)
      \<and> answers (text_settled i r s) evs)"
| "answers s (Image_settled i r # evs) =
     ((case nth_task (tasks s) i of Some (Image_task p gp b t) \<Rightarrow> True | _ \<Rightarrow> False)
      \<and> answers (image_settled i r s) evs)"
| "answers s (Refine_settled i r # evs) =
     ((case nth_task (tasks s) i of Some (Refine_task p) \<Rightarrow> True | _ \<Rightarrow> False)
      \<and> answers (refine_settled i r s) evs)"
| "answers s (ev # evs) = False"

lemma answers_Cons:
  assumes "answers s (ev # evs)"
  obtains i rt ri t where "nth_task (tasks s) i = Some t" and "ev = settle_event i rt ri t"
    and "answers (apply_event ev s) evs"
proof (cases ev)
  case (Text_settled i r)
  with assms obtain p gp b where "nth_task (tasks s) i = Some (Text_task p gp b)"
    by (auto split: option.splits task.splits)
  with assms Text_settled that [of i "Text_task p gp b" r] show ?thesis by simp
next
  case (Image_settled i r)
  with assms obtain p gp b t where "nth_task (tasks s) i = Some (Image_task p gp b t)"
    by (auto split: option.splits task.splits)
  with assms Image_settled that [of i "Image_task p gp b t" _ r] show ?thesis by simp
next
  case (Refine_settled i r)
  with assms obtain p where "nth_task (tasks s) i = Some (Refine_task p)"
    by (auto split: option.splits task.splits)
  with assms Refine_settled that [of i "Refine_task p" r] show ?thesis by simp
qed (use assms in simp_all)

lemma history_drain: "history (drain n ft fi s) = history s"
  by (induction n ft fi s rule: drain.induct)
     (auto simp: history_apply_event split: list.splits task.splits event.splits
        elim: settle_event.elims)

section \<open>Properties of the join\<close>

text \<open>
  C20. The calls of a state are answered in finitely many steps, in whatever order the
  answers arrive: every answer lowers the work left, so a sequence of answers is never
  longer than the work left at its start (one per refinement and image call, two per
  text call of a pipeline that requested images, one per other text call).
\<close>

theorem answers_bounded:
  "answers s evs \<Longrightarrow> length evs + work (run evs s) \<le> work s"
proof (induction evs arbitrary: s)
  case Nil
  then show ?case by simp
next
  case (Cons ev evs)
  from Cons.prems obtain i rt ri t where "nth_task (tasks s) i = Some t"
    and "ev = settle_event i rt ri t" and "answers (apply_event ev s) evs"
    by (rule answers_Cons)
  with work_settle [of s i t rt ri] Cons.IH [of "apply_event ev s"] show ?case
    by simp
qed

theorem answers_bounded_witness:
  "length [Text_settled 1 (Inl (JsError None)), Image_settled 0 (Inr None)] +
     work (run [Text_settled 1 (Inl (JsError None)), Image_settled 0 (Inr None)]
             awaiting_image)
   \<le> work awaiting_image"
  by (rule answers_bounded)
     (simp add: nth_task_def tasks_text_settled)

text \<open>
  C1. Every batch finishes, whatever the outcomes: from any reachable state, once the
  environment has answered the pending calls (\<open>work s\<close> answers suffice, successes or
  failures alike), no promise is pending, the loading flag is cleared and every slot is
  idle, completed or in error. The history is the one the state had.
\<close>

theorem every_batch_finishes:
  assumes "reachable s"
  shows "tasks (drain (work s) ft fi s) = [] \<and>
         \<not> isGlobalLoading (drain (work s) ft fi s) \<and>
         (\<forall>p. \<not> in_flight (status (results (drain (work s) ft fi s) p))) \<and>
         history (drain (work s) ft fi s) = history s"
proof -
  let ?s = "drain (work s) ft fi s"
  have empty: "tasks ?s = []"
    by (rule drain_done) simp
  from assms have r: "reachable ?s"
    by (rule reachable_drain)
  from reachable_invariants(1,2) [OF r] empty
  have "\<not> isGlobalLoading ?s" and "\<forall>p. \<not> in_flight (status (results ?s p))"
    by (auto simp: loading_pending_def gen_tasks_def flight_tracked_def pending_for_def)
  with empty show ?thesis
    by (simp add: history_drain)
qed

theorem every_batch_finishes_witness:
  "tasks (drain (work (handleGenerate 0 ready)) (\<lambda>t. Inr None) (\<lambda>t. Inl (JsError None))
            (handleGenerate 0 ready)) = [] \<and>
   \<not> isGlobalLoading
      (drain (work (handleGenerate 0 ready)) (\<lambda>t. Inr None) (\<lambda>t. Inl (JsError None))
         (handleGenerate 0 ready)) \<and>
   (\<forall>p. \<not> in_flight (status (results
      (drain (work (handleGenerate 0 ready)) (\<lambda>t. Inr None) (\<lambda>t. Inl (JsError None))
         (handleGenerate 0 ready)) p))) \<and>
   history (drain (work (handleGenerate 0 ready)) (\<lambda>t. Inr None) (\<lambda>t. Inl (JsError None))
              (handleGenerate 0 ready)) = history (handleGenerate 0 ready)"
  using every_batch_finishes [OF reachable.step [OF reachable_ready, of "Generate 0"]]
  by simp

end
