(* ===== verification/Pipeline_Run.thy ===== *)
theory Pipeline_Run
  imports Batch_Join
begin

text \<open>
  The pipelines of a batch run interleaved: \<open>handleGenerate\<close> starts one \<open>async\<close>
  callback per enabled platform, and the continuations of all of them, the user's
  events and the answers to refinement calls arrive in any order. This theory shows that
  the interleaving is invisible to a platform: what one platform sees of the state (its
  pending calls and its slot) changes only when one of its own calls is answered, and
  then by the continuation of its callback (\<open>resume\<close>); from the reset of a submission
  the continuations compose to \<open>run_pipeline\<close>, the callback run on its own. When the
  response to a call depends on the call alone and the key stays in place, the slot a
  pipeline ends with is a function of the submission (\<open>foreseen\<close>), whatever the order
  in which the environment answers; \<open>drain\<close> is one such order.
\<close>

section \<open>What one platform sees\<close>

definition own_tasks :: "platform \<Rightarrow> app_state \<Rightarrow> task list" where
  "own_tasks p s = filter (\<lambda>t. task_platform t = p) (tasks s)"

definition view :: "platform \<Rightarrow> app_state \<Rightarrow> task list \<times> generation_result" where
  "view p s = (own_tasks p s, results s p)"

text \<open>At most one call of the platform is pending, and it is a call of a pipeline.\<close>

definition piped :: "platform \<Rightarrow> app_state \<Rightarrow> bool" where
  "piped p s \<longleftrightarrow> (case own_tasks p s of [] \<Rightarrow> True | [t] \<Rightarrow> is_gen t | _ \<Rightarrow> False)"

text \<open>
  The events that leave the pipeline of \<open>p\<close> alone: every event but a new submission
  and a refinement of \<open>p\<close>.
\<close>

fun quiet :: "platform \<Rightarrow> event \<Rightarrow> bool" where
  "quiet p (Generate now) = False"
| "quiet p (Refine q act) = (q \<noteq> p)"
| "quiet p ev = True"

text \<open>The pending call that an event answers.\<close>

fun answered :: "app_state \<Rightarrow> event \<Rightarrow> task option" where
  "answered s (Text_settled i r) =
     (case nth_task (tasks s) i of
        Some (Text_task p gp b) \<Rightarrow> Some (Text_task p gp b) | _ \<Rightarrow> None)"
| "answered s (Image_settled i r) =
     (case nth_task (tasks s) i of
        Some (Image_task p gp b t) \<Rightarrow> Some (Image_task p gp b t) | _ \<Rightarrow> None)"
| "answered s (Refine_settled i r) =
     (case nth_task (tasks s) i of
        Some (Refine_task p) \<Rightarrow> Some (Refine_task p) | _ \<Rightarrow> None)"
| "answered s ev = None"

section \<open>The callback, one continuation at a time\<close>

text \<open>
  The callback of \<open>platformsToGenerate.map\<close> resumed after an \<open>await\<close>, on the slot of
  its platform alone: after the text call the slot is patched and the image call is
  awaited, if images were requested and the request can be built; after the image call
  the slot is patched and the callback returns; an exception ends in the \<open>catch\<close> block.
  The result is the call the callback awaits next, if any, and the slot.
\<close>

fun resume :: "bool \<Rightarrow> event \<Rightarrow> task \<Rightarrow> generation_result \<Rightarrow> task list \<times> generation_result" where
  "resume key (Text_settled i rt) (Text_task p gp b) r =
     (if text_continues key (p_generateImages gp) rt
      then [Image_task p gp b (text_of_response rt)] else [],
      text_effect key (p_generateImages gp) rt r)"
| "resume key (Image_settled i ri) (Image_task p gp b t) r =
     ([], after_image (generatePlatformImage_settle ri) r)"
| "resume key ev t r = ([t], r)"


text \<open>
  An environment that answers by the book: \<open>ft\<close> and \<open>fi\<close> give the response to
  every text and image call, whenever it arrives, and the key stays in the environment.
  \<open>foreseen\<close> is the slot that the callback of \<open>p\<close>, run on its own against these
  answers, leaves.
\<close>

fun told ::
  "(task \<Rightarrow> text_response outcome) \<Rightarrow> (task \<Rightarrow> image_response outcome) \<Rightarrow> event \<Rightarrow> task \<Rightarrow> bool"
  where
  "told ft fi (Text_settled i r) t = (r = ft t)"
| "told ft fi (Image_settled i r) t = (r = fi t)"
| "told ft fi ev t = True"

fun keeps_key :: "event \<Rightarrow> bool" where
  "keeps_key (Env_changed e) = truthy_opt (API_KEY e)"
| "keeps_key ev = True"

definition obeys ::
  "(task \<Rightarrow> text_response outcome) \<Rightarrow> (task \<Rightarrow> image_response outcome) \<Rightarrow>
   app_state \<Rightarrow> event \<Rightarrow> bool" where
  "obeys ft fi s ev \<longleftrightarrow>
     keeps_key ev \<and> (case answered s ev of None \<Rightarrow> True | Some t \<Rightarrow> told ft fi ev t)"


definition foreseen ::
  "(task \<Rightarrow> text_response outcome) \<Rightarrow> (task \<Rightarrow> image_response outcome) \<Rightarrow>
   platform \<Rightarrow> gen_params \<Rightarrow> nat \<Rightarrow> generation_result \<Rightarrow> generation_result" where
  "foreseen ft fi p gp b r0 =
     (let rt = ft (Text_task p gp b)
      in run_pipeline (p_generateImages gp) (generatePlatformText_settle rt)
           (generatePlatformImage_settle (fi (Image_task p gp b (text_of_response rt)))) r0)"

definition stage_by ::
  "(task \<Rightarrow> text_response outcome) \<Rightarrow> (task \<Rightarrow> image_response outcome) \<Rightarrow>
   platform \<Rightarrow> gen_params \<Rightarrow> nat \<Rightarrow> generation_result \<Rightarrow>
   task list \<times> generation_result \<Rightarrow> bool" where
  "stage_by ft fi p gp b r0 v \<longleftrightarrow>
     (let g = p_generateImages gp; rt = ft (Text_task p gp b)
      in case v of
           ([], r) \<Rightarrow> r = foreseen ft fi p gp b r0
         | ([t], r) \<Rightarrow>
             t = Text_task p gp b \<and> r = reset_result g r0 \<or>
             t = Image_task p gp b (text_of_response rt) \<and> text_continues True g rt \<and>
               r = text_ready g (text_of_response rt) (reset_result g r0)
         | _ \<Rightarrow> False)"

section \<open>The view under the events\<close>

lemma own_tasks_Nil_iff: "own_tasks p s = [] \<longleftrightarrow> \<not> pending_for s p"
  by (auto simp: own_tasks_def pending_for_def list_ex_iff filter_empty_conv)

lemma own_tasks_at:
  assumes "nth_task (tasks s) i = Some t" and "task_platform t = p" and "piped p s"
  shows "own_tasks p s = [t]"
    and "filter (\<lambda>t. task_platform t = p) (remove_nth i (tasks s)) = []"
    and "filter (\<lambda>t. task_platform t = p) ((tasks s)[i := u]) =
           (if task_platform u = p then [u] else [])"
proof -
  from assms(1) obtain A B where sp: "tasks s = A @ t # B" "remove_nth i (tasks s) = A @ B"
    "\<forall>t'. (tasks s)[i := t'] = A @ t' # B"
    by (rule nth_task_split)
  let ?P = "\<lambda>t. task_platform t = p"
  from assms(2,3) sp(1) have "filter ?P A = [] \<and> filter ?P B = []"
    by (cases "filter ?P A"; cases "filter ?P B")
       (simp_all add: piped_def own_tasks_def split: list.splits)
  with assms(2) sp show "own_tasks p s = [t]"
    and "filter ?P (remove_nth i (tasks s)) = []"
    and "filter ?P ((tasks s)[i := u]) = (if task_platform u = p then [u] else [])"
    by (simp_all add: own_tasks_def)
qed

lemma own_tasks_other:
  assumes "nth_task (tasks s) i = Some t" and "task_platform t \<noteq> p"
  shows "filter (\<lambda>t. task_platform t = p) (remove_nth i (tasks s)) = own_tasks p s"
    and "task_platform u \<noteq> p \<Longrightarrow>
         filter (\<lambda>t. task_platform t = p) ((tasks s)[i := u]) = own_tasks p s"
proof -
  from assms(1) obtain A B where sp: "tasks s = A @ t # B" "remove_nth i (tasks s) = A @ B"
    "\<forall>t'. (tasks s)[i := t'] = A @ t' # B"
    by (rule nth_task_split)
  with assms(2) show "filter (\<lambda>t. task_platform t = p) (remove_nth i (tasks s)) = own_tasks p s"
    and "task_platform u \<noteq> p \<Longrightarrow>
         filter (\<lambda>t. task_platform t = p) ((tasks s)[i := u]) = own_tasks p s"
    by (simp_all add: own_tasks_def)
qed

lemma own_tasks_join [simp]: "own_tasks p (join b s) = own_tasks p s"
  by (simp add: own_tasks_def)

lemma view_text_settled:
  assumes "piped p s"
  shows "view p (text_settled i r s) =
     (case answered s (Text_settled i r) of
        Some t \<Rightarrow> if task_platform t = p
                  then resume (have_key s) (Text_settled i r) t (results s p) else view p s
      | None \<Rightarrow> view p s)"
proof (cases rule: text_settled_cases [where i = i and r = r and s = s])
  case none
  then show ?thesis by (auto split: option.splits task.splits)
next
  case (failed q gp b)
  with assms show ?thesis
    by (cases "q = p")
       (simp_all add: view_def own_tasks_def own_tasks_at [where t = "Text_task q gp b"]
          own_tasks_other [where t = "Text_task q gp b", unfolded own_tasks_def])
next
  case (continues q gp b)
  with assms show ?thesis
    by (cases "q = p")
       (simp_all add: view_def own_tasks_def own_tasks_at [where t = "Text_task q gp b"]
          own_tasks_other [where t = "Text_task q gp b", unfolded own_tasks_def])
qed

lemma view_image_settled:
  assumes "piped p s"
  shows "view p (image_settled i r s) =
     (case answered s (Image_settled i r) of
        Some t \<Rightarrow> if task_platform t = p
                  then resume (have_key s) (Image_settled i r) t (results s p) else view p s
      | None \<Rightarrow> view p s)"
proof (cases rule: image_settled_cases [where i = i and r = r and s = s])
  case none
  then show ?thesis by (auto split: option.splits task.splits)
next
  case (task q gp b t)
  with assms show ?thesis
    by (cases "q = p")
       (simp_all add: view_def own_tasks_def own_tasks_at [where t = "Image_task q gp b t"]
          own_tasks_other [where t = "Image_task q gp b t", unfolded own_tasks_def])
qed

lemma view_refine_settled:
  assumes "piped p s"
  shows "view p (refine_settled i r s) = view p s"
proof (cases rule: refine_settled_cases [where i = i and r = r and s = s])
  case none
  then show ?thesis by simp
next
  case (task q)
  from assms have "q \<noteq> p"
    using own_tasks_at(1) [OF task(1) _ assms] by (auto simp: piped_def is_gen_def)
  with task show ?thesis
    by (simp add: view_def own_tasks_def
        own_tasks_other [where t = "Refine_task q", unfolded own_tasks_def])
qed

lemma view_handleRefine: "q \<noteq> p \<Longrightarrow> view p (handleRefine q act s) = view p s"
  by (simp add: view_def own_tasks_def tasks_handleRefine results_handleRefine)

text \<open>
  The projection: an event that leaves the pipeline of \<open>p\<close> alone changes the view of
  \<open>p\<close> only when it answers a call of \<open>p\<close>, and then as the continuation does.
\<close>

lemma view_step:
  assumes "piped p s" and "quiet p ev"
  shows "view p (apply_event ev s) =
     (case answered s ev of
        Some t \<Rightarrow> if task_platform t = p then resume (have_key s) ev t (results s p)
                  else view p s
      | None \<Rightarrow> view p s)"
proof (cases ev)
  case (Text_settled i r)
  show ?thesis
    unfolding Text_settled apply_event.simps by (rule view_text_settled [OF assms(1)])
next
  case (Image_settled i r)
  show ?thesis
    unfolding Image_settled apply_event.simps by (rule view_image_settled [OF assms(1)])
next
  case (Refine_settled i r)
  have "nth_task (tasks s) i \<noteq> Some (Refine_task p)"
  proof
    assume "nth_task (tasks s) i = Some (Refine_task p)"
    from own_tasks_at(1) [OF this _ assms(1)] assms(1) show False
      by (simp add: piped_def is_gen_def)
  qed
  with assms(1) Refine_settled show ?thesis
    by (auto simp: view_refine_settled split: option.splits task.splits)
next
  case (Refine q act)
  with assms(2) show ?thesis by (simp add: view_handleRefine)
qed (use assms(2) in \<open>simp_all add: view_def own_tasks_def frame_simps\<close>)

lemma answered_own:
  assumes "answered s ev = Some t" and "task_platform t = p" and "piped p s"
  shows "own_tasks p s = [t]"
proof -
  from assms(1) obtain i where "nth_task (tasks s) i = Some t"
    by (cases ev) (auto split: option.splits task.splits)
  from own_tasks_at(1) [OF this assms(2,3)] show ?thesis .
qed

section \<open>The continuations compose to the callback\<close>


lemma text_stops_pipeline:
  "\<not> text_continues key g rt \<Longrightarrow>
   text_effect key g rt (reset_result g r0) =
     run_pipeline g (generatePlatformText_settle rt) (Inl key_missing) r0"
  by (cases rt)
     (auto simp: run_pipeline_def after_image_def text_effect_Inr text_continues_def
        generatePlatformText_settle_def)

lemma text_continues_effect:
  "text_continues key g rt \<Longrightarrow>
   g \<and> text_effect key g rt r = text_ready g (text_of_response rt) r \<and>
   generatePlatformText_settle rt = Inr (text_of_response rt)"
  by (cases rt)
     (simp_all add: text_effect_Inr text_continues_def text_of_response_def
        generatePlatformText_settle_def)

lemma image_ends_pipeline:
  "after_image o2 (text_ready True t (reset_result True r0)) = run_pipeline True (Inr t) o2 r0"
  by (simp add: run_pipeline_def)




lemma own_started:
  "p \<in> set ps \<Longrightarrow> distinct ps \<Longrightarrow>
   filter (\<lambda>t. task_platform t = p) (map (\<lambda>q. Text_task q gp b) ps) = [Text_task p gp b]"
  by (induction ps) (auto simp: filter_empty_conv)


section \<open>Answers by the book\<close>

lemma run_pipeline_second:
  "\<not> text_continues True g rt \<Longrightarrow>
   run_pipeline g (generatePlatformText_settle rt) o2 r0 =
   run_pipeline g (generatePlatformText_settle rt) o2' r0"
  by (cases rt) (auto simp: run_pipeline_def text_continues_def generatePlatformText_settle_def)

lemma stage_by_piped: "stage_by ft fi p gp b r0 (view p s) \<Longrightarrow> piped p s"
  by (auto simp: stage_by_def view_def piped_def is_gen_def Let_def split: list.splits)

lemma stage_by_resume:
  assumes "stage_by ft fi p gp b r0 ([t], r)" and "told ft fi ev t"
  shows "stage_by ft fi p gp b r0 (resume True ev t r)"
proof (cases "(True, ev, t, r)" rule: resume.cases)
  case (1 key' i rt q gp' b' r')
  with assms show ?thesis
    by (cases "text_continues True (p_generateImages gp) rt")
       (auto simp: stage_by_def foreseen_def Let_def text_stops_pipeline
          intro: run_pipeline_second dest: text_continues_effect)
next
  case (2 key' i ri q gp' b' t' r')
  with assms show ?thesis
    by (auto simp: stage_by_def foreseen_def Let_def image_ends_pipeline
        dest: text_continues_effect)
qed (use assms in simp_all)

lemma env_apply_event:
  "env (apply_event ev s) = (case ev of Env_changed e \<Rightarrow> e | _ \<Rightarrow> env s)"
  by (cases ev) (simp_all add: frame_simps initCheck_def onConnectionStatusChange_def Let_def)

lemma have_key_step: "keeps_key ev \<Longrightarrow> have_key s \<Longrightarrow> have_key (apply_event ev s)"
  by (cases ev) (simp_all add: env_apply_event del: apply_event.simps)

lemma stage_by_step:
  assumes "stage_by ft fi p gp b r0 (view p s)" and "have_key s"
    and "quiet p ev" and "obeys ft fi s ev"
  shows "stage_by ft fi p gp b r0 (view p (apply_event ev s))"
proof -
  from assms(1) have piped: "piped p s"
    by (rule stage_by_piped)
  show ?thesis
  proof (cases "answered s ev")
    case None
    with assms piped show ?thesis by (simp add: view_step)
  next
    case (Some t)
    show ?thesis
    proof (cases "task_platform t = p")
      case True
      with Some piped have "view p s = ([t], results s p)"
        by (simp add: view_def answered_own)
      moreover from assms(4) Some have "told ft fi ev t"
        by (simp add: obeys_def)
      ultimately have "stage_by ft fi p gp b r0 (resume True ev t (results s p))"
        using assms(1) by (simp add: stage_by_resume)
      with assms(2,3) piped Some True show ?thesis by (simp add: view_step)
    next
      case False
      with assms piped Some show ?thesis by (simp add: view_step)
    qed
  qed
qed


lemma stage_by_generate:
  assumes "accepts s" and "have_key s" and "p \<in> set (enabledPlatforms s)"
    and "distinct (enabledPlatforms s)" and "\<not> pending_for s p"
  shows "stage_by ft fi p (capture s) (next_batch s) (results s p) (view p (handleGenerate now s))"
  using assms own_tasks_Nil_iff [of p s]
  by (simp add: stage_by_def view_def own_tasks_def tasks_handleGenerate results_handleGenerate
      capture_def own_started)

lemma settle_event_quiet [simp]: "quiet p (settle_event i rt ri t)"
  by (cases t) simp_all

lemma settle_event_obeys:
  "nth_task (tasks s) i = Some t \<Longrightarrow> obeys ft fi s (settle_event i (ft t) (fi t) t)"
  by (cases t) (simp_all add: obeys_def)

lemma stage_by_drain:
  "stage_by ft fi p gp b r0 (view p s) \<Longrightarrow> have_key s \<Longrightarrow>
   stage_by ft fi p gp b r0 (view p (drain n ft fi s))"
proof (induction n ft fi s rule: drain.induct)
  case (2 n ft fi s)
  show ?case
  proof (cases "tasks s")
    case Nil
    with 2 show ?thesis by simp
  next
    case (Cons t ts)
    let ?ev = "settle_event 0 (ft t) (fi t) t"
    from Cons have "obeys ft fi s ?ev"
      by (simp add: settle_event_obeys)
    with 2 Cons show ?thesis
      by (simp add: stage_by_step have_key_step obeys_def)
  qed
qed simp

text \<open>A platform with no call pending sees nothing of the events of the others.\<close>

lemma idle_view_step:
  assumes "own_tasks q s = []" and "quiet q ev"
  shows "view q (apply_event ev s) = view q s"
proof -
  from assms(1) have piped: "piped q s"
    by (simp add: piped_def)
  have "task_platform t \<noteq> q" if "answered s ev = Some t" for t
    using answered_own [OF that _ piped] assms(1) by auto
  with piped assms(2) show ?thesis
    by (simp add: view_step split: option.splits)
qed

lemma idle_view_drain: "own_tasks q s = [] \<Longrightarrow> view q (drain n ft fi s) = view q s"
proof (induction n ft fi s rule: drain.induct)
  case (2 n ft fi s)
  show ?case
  proof (cases "tasks s")
    case Nil
    then show ?thesis by simp
  next
    case (Cons t ts)
    let ?s = "apply_event (settle_event 0 (ft t) (fi t) t) s"
    from 2(2) have same: "view q ?s = view q s"
      by (simp add: idle_view_step)
    with 2(2) have "own_tasks q ?s = []"
      by (simp add: view_def)
    with 2(1) [OF Cons this] same Cons show ?thesis by simp
  qed
qed simp

lemma drain_computes_pipeline:
  assumes "reachable s" and "accepts s" and "have_key s" and "p \<in> set (enabledPlatforms s)"
    and "\<not> pending_for s p"
  shows "results (drain (work (handleGenerate now s)) ft fi (handleGenerate now s)) p =
           foreseen ft fi p (capture s) (next_batch s) (results s p)"
proof -
  let ?s = "handleGenerate now s"
  from assms reachable_invariants(7) [OF assms(1)]
  have "stage_by ft fi p (capture s) (next_batch s) (results s p) (view p ?s)"
    by (simp add: stage_by_generate enabled_ok_def)
  with assms(3)
  have "stage_by ft fi p (capture s) (next_batch s) (results s p)
          (view p (drain (work ?s) ft fi ?s))"
    by (simp add: stage_by_drain frame_simps)
  moreover have "tasks (drain (work ?s) ft fi ?s) = []"
    by (rule drain_done) simp
  ultimately show ?thesis
    by (simp add: stage_by_def view_def own_tasks_def)
qed

section \<open>Properties of the interleaving\<close>





end
