(* ===== verification/History_Analytics.thy ===== *)
theory History_Analytics
  imports OmniPost_Types
begin

text \<open>
  The usage statistics of \<^verbatim>\<open>src/components/AnalyticsModal.tsx\<close>: the \<open>useMemo\<close> body
  that walks the history once, counts tones weighted by batch size and platforms by
  occurrence in objects keyed by the enum strings, sorts both tallies in descending order
  of count with the stable sort, and derives the scale of the bars. The specification is
  stated on the history itself (\<open>tone_weight\<close>, \<open>platform_uses\<close>); the lemmas show
  that the tallies implement it, that each ranking is a descending list without repeated
  keys in which ties keep the order of first occurrence, and that the scale is never zero.
\<close>

section \<open>The computation\<close>

record tally =
  total :: int
  toneCounts :: "tone counters"
  platformCounts :: "platform counters"

definition count_item :: "generation_history_item \<Rightarrow> tally \<Rightarrow> tally" where
  "count_item item acc =
     (let postCount = int (length (platforms item)) in
      \<lparr>total = total acc + postCount,
       toneCounts = add_count (item_tone item) postCount (toneCounts acc),
       platformCounts = fold (\<lambda>p. add_count p 1) (platforms item) (platformCounts acc)\<rparr>)"

definition tally_history :: "generation_history_item list \<Rightarrow> tally" where
  "tally_history h = fold count_item h \<lparr>total = 0, toneCounts = [], platformCounts = []\<rparr>"

text \<open>\<open>sorted[0]?.count || 1\<close>: the first count, or 1 when there is none or it is 0.\<close>

definition first_count_or_1 :: "'k counters \<Rightarrow> int" where
  "first_count_or_1 cs = (case cs of [] \<Rightarrow> 1 | (k, c) # rest \<Rightarrow> if c = 0 then 1 else c)"

record stats =
  totalPosts :: int
  sortedTones :: "tone counters"
  sortedPlatforms :: "platform counters"
  maxToneCount :: int
  maxPlatformCount :: int

definition compute_stats :: "generation_history_item list \<Rightarrow> stats" where
  "compute_stats h =
     (let t = tally_history h;
          tones = js_sort (descending snd) (toneCounts t);
          plats = js_sort (descending snd) (platformCounts t)
      in \<lparr>totalPosts = total t, sortedTones = tones, sortedPlatforms = plats,
          maxToneCount = first_count_or_1 tones,
          maxPlatformCount = first_count_or_1 plats\<rparr>)"

text \<open>The summary cards: \<open>sortedTones[0]?.tone || '-'\<close> and its platform twin.\<close>

definition top_tone :: "stats \<Rightarrow> jsstring" where
  "top_tone st =
     (case sortedTones st of [] \<Rightarrow> js ''-'' | (t, c) # rest \<Rightarrow> js_or (Some (Tone_value t)) (js ''-''))"

definition top_platform :: "stats \<Rightarrow> jsstring" where
  "top_platform st =
     (case sortedPlatforms st of
        [] \<Rightarrow> js ''-''
      | (p, c) # rest \<Rightarrow> js_or (Some (Platform_value p)) (js ''-''))"

section \<open>The specification\<close>

definition tone_weight :: "tone \<Rightarrow> generation_history_item list \<Rightarrow> int" where
  "tone_weight t h =
     (\<Sum>item\<leftarrow>h. if item_tone item = t then int (length (platforms item)) else 0)"

definition platform_uses :: "platform \<Rightarrow> generation_history_item list \<Rightarrow> int" where
  "platform_uses p h = (\<Sum>item\<leftarrow>h. int (count_list (platforms item) p))"

definition posts_generated :: "generation_history_item list \<Rightarrow> int" where
  "posts_generated h = (\<Sum>item\<leftarrow>h. int (length (platforms item)))"

definition ranking :: "'k counters \<Rightarrow> bool" where
  "ranking cs \<longleftrightarrow> sorted (map (\<lambda>kc. - snd kc) cs) \<and> distinct (map fst cs)"

section \<open>Counting one batch\<close>

lemma count_of_fold_add1:
  "count_of (fold (\<lambda>p. add_count p 1) ps cs) q = count_of cs q + int (count_list ps q)"
  by (induction ps arbitrary: cs) simp_all

lemma distinct_fold_add1:
  "distinct (map fst cs) \<Longrightarrow> distinct (map fst (fold (\<lambda>p. add_count p 1) ps cs))"
  by (induction ps arbitrary: cs) simp_all

lemma sum_fold_add1:
  "distinct (map fst cs) \<Longrightarrow>
   sum_list (map snd (fold (\<lambda>p. add_count p 1) ps cs)) = sum_list (map snd cs) + int (length ps)"
  by (induction ps arbitrary: cs) (simp_all add: sum_list_add_count)

lemma count_item_simps [simp]:
  "total (count_item item acc) = total acc + int (length (platforms item))"
  "toneCounts (count_item item acc) =
     add_count (item_tone item) (int (length (platforms item))) (toneCounts acc)"
  "platformCounts (count_item item acc) =
     fold (\<lambda>p. add_count p 1) (platforms item) (platformCounts acc)"
  by (simp_all add: count_item_def Let_def)

section \<open>Counting the history\<close>

definition tally_ok :: "tally \<Rightarrow> bool" where
  "tally_ok t \<longleftrightarrow>
     distinct (map fst (toneCounts t)) \<and> distinct (map fst (platformCounts t)) \<and>
     sum_list (map snd (toneCounts t)) = total t \<and>
     sum_list (map snd (platformCounts t)) = total t"

lemma tally_ok_count_item: "tally_ok t \<Longrightarrow> tally_ok (count_item item t)"
  by (simp add: tally_ok_def distinct_fold_add1 sum_fold_add1 sum_list_add_count)

lemma tally_ok_fold: "tally_ok t \<Longrightarrow> tally_ok (fold count_item h t)"
  by (induction h arbitrary: t) (simp_all add: tally_ok_count_item)

lemma tally_ok_history: "tally_ok (tally_history h)"
  unfolding tally_history_def by (rule tally_ok_fold) (simp add: tally_ok_def)

lemma fold_count_item_tone:
  "count_of (toneCounts (fold count_item h t)) k = count_of (toneCounts t) k + tone_weight k h"
  by (induction h arbitrary: t) (simp_all add: tone_weight_def)

lemma fold_count_item_platform:
  "count_of (platformCounts (fold count_item h t)) p =
     count_of (platformCounts t) p + platform_uses p h"
  by (induction h arbitrary: t) (simp_all add: platform_uses_def count_of_fold_add1)

lemma fold_count_item_total:
  "total (fold count_item h t) = total t + posts_generated h"
  by (induction h arbitrary: t) (simp_all add: posts_generated_def)

lemma tally_history_tone: "count_of (toneCounts (tally_history h)) k = tone_weight k h"
  by (simp add: tally_history_def fold_count_item_tone)

lemma tally_history_platform:
  "count_of (platformCounts (tally_history h)) p = platform_uses p h"
  by (simp add: tally_history_def fold_count_item_platform)

lemma tally_history_total: "total (tally_history h) = posts_generated h"
  by (simp add: tally_history_def fold_count_item_total)

section \<open>Rankings\<close>

lemma distinct_keys_js_sort:
  "distinct (map fst (js_sort cmp cs)) \<longleftrightarrow> distinct (map fst cs)"
proof -
  have "mset (map fst (js_sort cmp cs)) = mset (map fst cs)"
    by simp
  then show ?thesis
    by (rule mset_eq_imp_distinct_iff)
qed

lemma count_of_js_sort:
  "distinct (map fst cs) \<Longrightarrow> count_of (js_sort cmp cs) k = count_of cs k"
proof -
  assume d: "distinct (map fst cs)"
  then have "map_of (js_sort cmp cs) = map_of cs"
    by (simp add: map_of_inject_set distinct_keys_js_sort)
  then show ?thesis
    by (simp add: count_of_def)
qed

lemma ranking_js_sort: "distinct (map fst cs) \<Longrightarrow> ranking (js_sort (descending snd) cs)"
  by (simp add: ranking_def distinct_keys_js_sort) (simp add: js_sort_descending)

lemma ranking_ties_stable:
  "filter (\<lambda>kc. snd kc = c) (js_sort (descending snd) cs) = filter (\<lambda>kc. snd kc = c) cs"
proof -
  have "filter (\<lambda>kc. - snd kc = - c) (sort_key (\<lambda>kc. - snd kc) cs)
      = filter (\<lambda>kc. - snd kc = - c) cs"
    by (rule sort_key_stable)
  then show ?thesis
    by (simp add: js_sort_descending)
qed

lemma ranking_head_max:
  assumes "ranking ((k, c) # cs)" and "(k', c') \<in> set ((k, c) # cs)"
  shows "c' \<le> c"
  using assms by (auto simp: ranking_def)

lemma first_count_or_1_positive:
  "\<forall>kc\<in>set cs. 0 \<le> snd kc \<Longrightarrow> 1 \<le> first_count_or_1 cs"
  by (cases cs) (auto simp: first_count_or_1_def)

lemma first_count_or_1_bound:
  assumes "ranking cs" and "(k, c) \<in> set cs" and "0 < c"
  shows "c \<le> first_count_or_1 cs"
proof (cases cs)
  case Nil
  with assms(2) show ?thesis by simp
next
  case (Cons a rest)
  obtain k0 c0 where a: "a = (k0, c0)" by (cases a)
  from assms(1,2) Cons a have "c \<le> c0"
    by (auto dest: ranking_head_max)
  with assms(3) Cons a show ?thesis
    by (simp add: first_count_or_1_def)
qed

section \<open>The statistics\<close>

lemma compute_stats_simps:
  "totalPosts (compute_stats h) = total (tally_history h)"
  "sortedTones (compute_stats h) = js_sort (descending snd) (toneCounts (tally_history h))"
  "sortedPlatforms (compute_stats h) =
     js_sort (descending snd) (platformCounts (tally_history h))"
  "maxToneCount (compute_stats h) = first_count_or_1 (sortedTones (compute_stats h))"
  "maxPlatformCount (compute_stats h) = first_count_or_1 (sortedPlatforms (compute_stats h))"
  by (simp_all add: compute_stats_def Let_def)

lemma sortedTones_count: "count_of (sortedTones (compute_stats h)) k = tone_weight k h"
  using tally_ok_history [of h]
  by (simp add: compute_stats_simps count_of_js_sort tally_ok_def tally_history_tone)

lemma sortedPlatforms_count: "count_of (sortedPlatforms (compute_stats h)) p = platform_uses p h"
  using tally_ok_history [of h]
  by (simp add: compute_stats_simps count_of_js_sort tally_ok_def tally_history_platform)

lemma sortedTones_ranking: "ranking (sortedTones (compute_stats h))"
  using tally_ok_history [of h]
  by (simp add: compute_stats_simps ranking_js_sort tally_ok_def)

lemma sortedPlatforms_ranking: "ranking (sortedPlatforms (compute_stats h))"
  using tally_ok_history [of h]
  by (simp add: compute_stats_simps ranking_js_sort tally_ok_def)

lemma compute_stats_Nil:
  "compute_stats [] =
     \<lparr>totalPosts = 0, sortedTones = [], sortedPlatforms = [], maxToneCount = 1,
      maxPlatformCount = 1\<rparr>"
  by (simp add: compute_stats_def tally_history_def first_count_or_1_def)

lemma tone_weight_nonneg: "0 \<le> tone_weight k h"
  unfolding tone_weight_def by (rule sum_list_nonneg) auto

lemma platform_uses_nonneg: "0 \<le> platform_uses p h"
  unfolding platform_uses_def by (rule sum_list_nonneg) auto

section \<open>Properties of the statistics\<close>

text \<open>
  C18. The statistics implement the specification of the rollup: the count listed for a
  tone is the number of platforms of the batches generated in that tone, the count
  listed for a platform is the number of batches that included it, and the total is the
  number of posts generated.
\<close>

theorem rollup_counts:
  "count_of (sortedTones (compute_stats h)) k = tone_weight k h \<and>
   count_of (sortedPlatforms (compute_stats h)) p = platform_uses p h \<and>
   totalPosts (compute_stats h) = posts_generated h"
  by (simp add: sortedTones_count sortedPlatforms_count compute_stats_simps(1)
      tally_history_total)

text \<open>
  C38. Both lists of the statistics are rankings: in descending order of count, with no
  key listed twice; and entries of equal count stand in the order in which the tally
  first met their keys.
\<close>

theorem rollup_rankings:
  "ranking (sortedTones (compute_stats h)) \<and> ranking (sortedPlatforms (compute_stats h)) \<and>
   filter (\<lambda>kc. snd kc = c) (sortedTones (compute_stats h)) =
     filter (\<lambda>kc. snd kc = c) (toneCounts (tally_history h)) \<and>
   filter (\<lambda>kc. snd kc = c) (sortedPlatforms (compute_stats h)) =
     filter (\<lambda>kc. snd kc = c) (platformCounts (tally_history h))"
  using sortedTones_ranking [of h] sortedPlatforms_ranking [of h]
  by (simp add: compute_stats_simps(2,3) ranking_ties_stable)

text \<open>
  The counts listed are non-negative, and none exceeds the scale of its list, which is at
  least 1.
\<close>

lemma sortedTones_nonneg: "kc \<in> set (sortedTones (compute_stats h)) \<Longrightarrow> 0 \<le> snd kc"
proof -
  assume "kc \<in> set (sortedTones (compute_stats h))"
  then have "count_of (sortedTones (compute_stats h)) (fst kc) = snd kc"
    using sortedTones_ranking [of h] by (intro count_of_eq_snd) (simp_all add: ranking_def)
  then show ?thesis
    using tone_weight_nonneg [of "fst kc" h] by (simp add: sortedTones_count)
qed

lemma sortedPlatforms_nonneg: "kc \<in> set (sortedPlatforms (compute_stats h)) \<Longrightarrow> 0 \<le> snd kc"
proof -
  assume "kc \<in> set (sortedPlatforms (compute_stats h))"
  then have "count_of (sortedPlatforms (compute_stats h)) (fst kc) = snd kc"
    using sortedPlatforms_ranking [of h]
    by (intro count_of_eq_snd) (simp_all add: ranking_def)
  then show ?thesis
    using platform_uses_nonneg [of "fst kc" h] by (simp add: sortedPlatforms_count)
qed

lemma count_within_scale:
  assumes "ranking cs" and "(k, c) \<in> set cs" and "\<forall>kc\<in>set cs. 0 \<le> snd kc"
  shows "c \<le> first_count_or_1 cs \<and> 1 \<le> first_count_or_1 cs"
  using assms first_count_or_1_bound [of cs k c] first_count_or_1_positive [of cs]
  by (cases "0 < c") auto

text \<open>The history of the rollup example: a batch for two platforms, then one for one.\<close>

definition example_history :: "generation_history_item list" where
  "example_history =
     [\<lparr>timestamp = 1, item_tone = PROFESSIONAL, platforms = [LINKEDIN, TWITTER]\<rparr>,
      \<lparr>timestamp = 2, item_tone = WITTY, platforms = [LINKEDIN]\<rparr>]"

text \<open>
  The rollup example: a professional batch for LinkedIn and Twitter and a witty batch
  for LinkedIn give the tone counts Professional 2, Witty 1 and the platform counts
  LinkedIn 2, Twitter 1, with Professional and LinkedIn on top; the empty history gives
  empty rankings, the scale 1 and the placeholder \<open>-\<close> for both top values.
\<close>

lemma rollup_example:
  "sortedTones (compute_stats example_history) = [(PROFESSIONAL, 2), (WITTY, 1)] \<and>
   sortedPlatforms (compute_stats example_history) = [(LINKEDIN, 2), (TWITTER, 1)] \<and>
   totalPosts (compute_stats example_history) = 3 \<and>
   top_tone (compute_stats example_history) = js ''Professional'' \<and>
   top_platform (compute_stats example_history) = js ''LinkedIn'' \<and>
   sortedTones (compute_stats []) = [] \<and> sortedPlatforms (compute_stats []) = [] \<and>
   maxToneCount (compute_stats []) = 1 \<and>
   top_tone (compute_stats []) = js ''-'' \<and> top_platform (compute_stats []) = js ''-''"
  by (simp add: compute_stats_def tally_history_def example_history_def count_item_def
      add_count_def count_of_def js_sort_def top_tone_def top_platform_def
      first_count_or_1_def js_or_def truthy_def js_def)

end
