(* ===== verification/Result_Card.thy ===== *)
theory Result_Card
  imports Pipeline
begin

text \<open>
  The result card of \<^verbatim>\<open>src/components/ResultCard.tsx\<close>: the four \<open>useState\<close> hooks of a
  card and its pending copy timers, the handlers of its buttons, and what it renders
  for a slot of the result table. A handler that calls the parent or the browser
  returns that call as a value (\<open>card_effect\<close>), so the card is modelled on its own;
  \<open>App_Screen\<close> connects the calls to the handlers of the application. The lemmas give
  what the card shows at each step of a pipeline and which controls it offers in
  which status.
\<close>

section \<open>Local state\<close>

text \<open>
  \<open>copy_timers\<close> counts the callbacks of \<open>setTimeout\<close> that have not run yet; React
  does not hold it, the browser does.
\<close>

record card_state =
  copied :: bool
  showSchedule :: bool
  scheduleDate :: jsstring
  showRefineMenu :: bool
  copy_timers :: nat

definition card_init :: card_state where
  "card_init =
     \<lparr>copied = False, showSchedule = False, scheduleDate = [], showRefineMenu = False,
      copy_timers = 0\<rparr>"

section \<open>Calls that leave the card\<close>

record download =
  href :: jsstring
  file_name :: jsstring

datatype card_effect =
    WriteText jsstring
  | Save download
  | OnSchedule jsstring
  | OnRefine refinement_action

section \<open>Handlers\<close>

text \<open>
  \<open>toLowerCase\<close> on the letters A to Z; the strings it is applied to are the platform
  names, which hold no other upper-case letter (\<open>Platform_value_ascii\<close>).
\<close>

definition lower_unit :: "code_unit \<Rightarrow> code_unit" where
  "lower_unit c = (if 0x41 \<le> c \<and> c \<le> 0x5A then c + 0x20 else c)"

definition toLowerCase :: "jsstring \<Rightarrow> jsstring" where
  "toLowerCase s = map lower_unit s"

definition handleCopy :: "generation_result \<Rightarrow> card_state \<Rightarrow> card_effect option \<times> card_state" where
  "handleCopy r c =
     (Some (WriteText (text' r)), c\<lparr>copied := True, copy_timers := Suc (copy_timers c)\<rparr>)"

definition copy_expired :: "card_state \<Rightarrow> card_state" where
  "copy_expired c = c\<lparr>copied := False, copy_timers := copy_timers c - 1\<rparr>"

definition handleDownload :: "generation_result \<Rightarrow> card_effect option" where
  "handleDownload r =
     (case imageUrl r of
        None \<Rightarrow> None
      | Some url \<Rightarrow>
          if truthy url
          then Some (Save \<lparr>href = url,
                            file_name = toLowerCase (Platform_value (platform r))
                                          @ js ''-image.png''\<rparr>)
          else None)"

definition handleScheduleConfirm :: "card_state \<Rightarrow> card_effect option \<times> card_state" where
  "handleScheduleConfirm c =
     (if truthy (scheduleDate c)
      then (Some (OnSchedule (scheduleDate c)), c\<lparr>showSchedule := False, scheduleDate := []\<rparr>)
      else (None, c))"

definition refine_item_clicked ::
  "refinement_action \<Rightarrow> card_state \<Rightarrow> card_effect option \<times> card_state" where
  "refine_item_clicked a c = (Some (OnRefine a), c\<lparr>showRefineMenu := False\<rparr>)"

section \<open>Branding\<close>

datatype icon = Linkedin | Twitter | Instagram | AtSign

fun getBorderColor :: "platform \<Rightarrow> jsstring" where
  "getBorderColor LINKEDIN = js ''border-blue-200 hover:border-blue-300''"
| "getBorderColor TWITTER = js ''border-sky-200 hover:border-sky-300''"
| "getBorderColor INSTAGRAM = js ''border-pink-200 hover:border-pink-300''"
| "getBorderColor THREADS = js ''border-neutral-200 hover:border-neutral-300''"

fun getHeaderBg :: "platform \<Rightarrow> jsstring" where
  "getHeaderBg LINKEDIN = js ''bg-blue-50 text-blue-900''"
| "getHeaderBg TWITTER = js ''bg-sky-50 text-sky-900''"
| "getHeaderBg INSTAGRAM = js ''bg-pink-50 text-pink-900''"
| "getHeaderBg THREADS = js ''bg-neutral-100 text-neutral-900''"

text \<open>The \<open>default\<close> branch of the source returns \<open>null\<close>; no platform reaches it.\<close>

fun getIcon :: "platform \<Rightarrow> icon option" where
  "getIcon LINKEDIN = Some Linkedin"
| "getIcon TWITTER = Some Twitter"
| "getIcon INSTAGRAM = Some Instagram"
| "getIcon THREADS = Some AtSign"

record card_header =
  header_icon :: "icon option"
  header_title :: jsstring
  header_ratio :: jsstring

definition header :: "generation_result \<Rightarrow> card_header" where
  "header r =
     \<lparr>header_icon = getIcon (platform r), header_title = Platform_value (platform r),
      header_ratio = aspectRatio (PLATFORM_CONFIG (platform r))\<rparr>"

section \<open>What the card renders\<close>

definition isLoadingText :: "generation_result \<Rightarrow> bool" where
  "isLoadingText r \<longleftrightarrow>
     status r = Loading_text \<or> status r = Idle \<or> status r = Refining"

text \<open>
  The text area: pulsing placeholder lines, with the caption \<open>Refining...\<close> while the
  status is refining, or the text rendered as Markdown.
\<close>

datatype text_area = Skeleton "jsstring option" | Markdown jsstring

definition text_content :: "generation_result \<Rightarrow> text_area" where
  "text_content r =
     (if isLoadingText r
      then Skeleton (if status r = Refining then Some (js ''Refining...'') else None)
      else Markdown (text' r))"

definition confirm_disabled :: "card_state \<Rightarrow> bool" where
  "confirm_disabled c \<longleftrightarrow> \<not> truthy (scheduleDate c)"

definition action_bar :: "generation_result \<Rightarrow> card_state \<Rightarrow> bool" where
  "action_bar r c \<longleftrightarrow> (status r = Completed \<or> status r = Refining) \<and> \<not> showSchedule c"

definition refine_button_disabled :: "generation_result \<Rightarrow> bool" where
  "refine_button_disabled r \<longleftrightarrow> status r = Refining"

definition refine_menu :: "card_state \<Rightarrow> (jsstring \<times> refinement_action) list" where
  "refine_menu c =
     (if showRefineMenu c
      then map (\<lambda>item. (action_label item, action item)) REFINEMENT_ACTIONS
      else [])"

definition copy_label :: "card_state \<Rightarrow> jsstring" where
  "copy_label c = (if copied c then js ''Copied'' else js ''Copy'')"

text \<open>
  The image area. In the condition of the source \<open>&&\<close> binds tighter than \<open>||\<close>: the
  test of \<open>imageUrl\<close> belongs to the status refining alone.
\<close>

definition image_pending :: "generation_result \<Rightarrow> bool" where
  "image_pending r \<longleftrightarrow>
     status r = Loading_image \<or> status r = Loading_text \<or> status r = Idle
     \<or> (status r = Refining \<and> \<not> truthy_opt (imageUrl r))"

definition image_caption :: "generation_result \<Rightarrow> jsstring" where
  "image_caption r =
     (if status r = Idle then js ''Ready to generate''
      else if status r = Loading_text then js ''Drafting content...''
      else if status r = Loading_image then js ''Rendering visuals...''
      else js ''Refining content...'')"

datatype image_area =
    No_area
  | Waiting bool jsstring
  | Picture jsstring jsstring
  | Image_failed

definition image_content :: "generation_result \<Rightarrow> image_area" where
  "image_content r =
     (if \<not> imageEnabled r then No_area
      else if image_pending r then Waiting (status r \<noteq> Idle) (image_caption r)
      else if truthy_opt (imageUrl r)
      then Picture (the (imageUrl r)) (js ''Generated for '' @ Platform_value (platform r))
      else Image_failed)"

definition error_banner :: "generation_result \<Rightarrow> jsstring option" where
  "error_banner r =
     (if truthy_opt (error r) then Some (js ''Error: '' @ the (error r)) else None)"

section \<open>The card as a machine\<close>

datatype card_event =
    Click_copy
  | Copy_timeout
  | Click_download
  | Click_schedule
  | Input_scheduleDate jsstring
  | Click_confirm
  | Click_cancel
  | Click_refine
  | Click_backdrop
  | Click_refine_item refinement_action

fun card_step :: "generation_result \<Rightarrow> card_event \<Rightarrow> card_state \<Rightarrow> card_effect option \<times> card_state"
  where
  "card_step r Click_copy c = handleCopy r c"
| "card_step r Copy_timeout c = (None, copy_expired c)"
| "card_step r Click_download c = (handleDownload r, c)"
| "card_step r Click_schedule c = (None, c\<lparr>showSchedule := True\<rparr>)"
| "card_step r (Input_scheduleDate v) c = (None, c\<lparr>scheduleDate := v\<rparr>)"
| "card_step r Click_confirm c = handleScheduleConfirm c"
| "card_step r Click_cancel c = (None, c\<lparr>showSchedule := False\<rparr>)"
| "card_step r Click_refine c = (None, c\<lparr>showRefineMenu := \<not> showRefineMenu c\<rparr>)"
| "card_step r Click_backdrop c = (None, c\<lparr>showRefineMenu := False\<rparr>)"
| "card_step r (Click_refine_item a) c = refine_item_clicked a c"

text \<open>
  Which events the rendered card can produce: a button that is not rendered or is
  disabled cannot be clicked, and a timer fires only if one is pending.
\<close>

fun card_offers :: "generation_result \<Rightarrow> card_state \<Rightarrow> card_event \<Rightarrow> bool" where
  "card_offers r c Click_copy = action_bar r c"
| "card_offers r c Copy_timeout = (0 < copy_timers c)"
| "card_offers r c Click_download =
     (case image_content r of Picture src alt \<Rightarrow> True | _ \<Rightarrow> False)"
| "card_offers r c Click_schedule = action_bar r c"
| "card_offers r c (Input_scheduleDate v) = showSchedule c"
| "card_offers r c Click_confirm = (showSchedule c \<and> \<not> confirm_disabled c)"
| "card_offers r c Click_cancel = showSchedule c"
| "card_offers r c Click_refine = (action_bar r c \<and> \<not> refine_button_disabled r)"
| "card_offers r c Click_backdrop = (action_bar r c \<and> showRefineMenu c)"
| "card_offers r c (Click_refine_item a) =
     (action_bar r c \<and> a \<in> snd ` set (refine_menu c))"

definition label_reverts :: "card_state \<Rightarrow> bool" where
  "label_reverts c \<longleftrightarrow> (copied c \<longrightarrow> 0 < copy_timers c)"

lemmas card_defs =
  handleCopy_def copy_expired_def handleDownload_def handleScheduleConfirm_def
  refine_item_clicked_def
lemmas view_defs =
  isLoadingText_def text_content_def confirm_disabled_def action_bar_def
  refine_button_disabled_def refine_menu_def copy_label_def image_pending_def
  image_caption_def image_content_def error_banner_def

section \<open>Strings\<close>

lemma Platform_value_ascii: "c \<in> set (Platform_value p) \<Longrightarrow> c < 0x80"
  by (cases p) (auto simp: js_def)

lemma toLowerCase_Platform_value:
  "toLowerCase (Platform_value LINKEDIN) = js ''linkedin''"
  "toLowerCase (Platform_value TWITTER) = js ''twitter''"
  "toLowerCase (Platform_value INSTAGRAM) = js ''instagram''"
  "toLowerCase (Platform_value THREADS) = js ''threads''"
  by (simp_all add: toLowerCase_def lower_unit_def js_def)

lemma toLowerCase_idem [simp]: "toLowerCase (toLowerCase s) = toLowerCase s"
  by (simp add: toLowerCase_def lower_unit_def) (auto simp: word_le_nat_alt unat_plus_if')

lemma length_toLowerCase [simp]: "length (toLowerCase s) = length s"
  by (simp add: toLowerCase_def)

lemma getIcon_total: "getIcon p \<noteq> None"
  by (cases p) simp_all

section \<open>The card along a pipeline\<close>

lemma text_content_patches [simp]:
  "text_content (reset_result b r) = Skeleton None"
  "text_content (text_ready b t r) = Markdown t"
  "text_content (image_ready u r) = Markdown (text' r)"
  "text_content (generation_failed e r) = Markdown (text' r)"
  "text_content (refine_started r) = Skeleton (Some (js ''Refining...''))"
  "text_content (refine_ready t r) = Markdown t"
  "text_content (refine_failed r) = Markdown (text' r)"
  by (simp_all add: text_content_def isLoadingText_def)

lemma image_content_reset [simp]:
  "image_content (reset_result b r) =
     (if b then Waiting True (js ''Drafting content...'') else No_area)"
  by (simp add: image_content_def image_pending_def image_caption_def)

lemma image_content_text_ready:
  "imageEnabled r \<Longrightarrow>
   image_content (text_ready True t r) = Waiting True (js ''Rendering visuals...'')"
  by (simp add: image_content_def image_pending_def image_caption_def)

lemma image_content_image_ready:
  "imageEnabled r \<Longrightarrow> u \<noteq> [] \<Longrightarrow>
   image_content (image_ready u r) =
     Picture u (js ''Generated for '' @ Platform_value (platform r))"
  by (simp add: image_content_def image_pending_def)

lemma image_content_failed:
  "imageEnabled r \<Longrightarrow> imageUrl r = None \<Longrightarrow> image_content (generation_failed e r) = Image_failed"
  by (simp add: image_content_def image_pending_def)

lemma image_content_disabled [simp]: "\<not> imageEnabled r \<Longrightarrow> image_content r = No_area"
  by (simp add: image_content_def)

lemma error_banner_patches [simp]:
  "error_banner (reset_result b r) = None"
  "error_banner (generation_failed e r) =
     Some (js ''Error: '' @ js_or (message e) (js ''Generation failed''))"
  "error_banner (refine_failed r) = Some (js ''Error: Refinement failed'')"
  "error_banner (text_ready b t r) = error_banner r"
  "error_banner (image_ready u r) = error_banner r"
  "error_banner (refine_started r) = error_banner r"
  "error_banner (refine_ready t r) = error_banner r"
  by (simp_all add: error_banner_def js_or_nonempty js_def)

section \<open>The card's own steps\<close>

lemma label_reverts_step: "label_reverts c \<Longrightarrow> label_reverts (snd (card_step r ev c))"
  by (cases ev) (auto simp: label_reverts_def card_defs)

lemma copy_writes_text: "fst (card_step r Click_copy c) = Some (WriteText (text' r))"
  by (simp add: handleCopy_def)

lemma early_timer_clears_label:
  "copied (snd (card_step r Copy_timeout (snd (card_step r Click_copy (snd (card_step r Click_copy c))))))
     = False
   \<and> copy_timers (snd (card_step r Copy_timeout
        (snd (card_step r Click_copy (snd (card_step r Click_copy c)))))) = Suc (copy_timers c)"
  by (simp add: card_defs)

lemma cancel_keeps_date:
  "scheduleDate (snd (card_step r Click_cancel c)) = scheduleDate c"
  by simp

lemma calls_of_the_card:
  "fst (card_step r ev c) = Some (OnRefine act) \<longleftrightarrow> ev = Click_refine_item act"
  "fst (card_step r ev c) = Some (OnSchedule d) \<longleftrightarrow>
     ev = Click_confirm \<and> d = scheduleDate c \<and> truthy d"
  by (cases ev; auto simp: card_defs split: option.splits)+

section \<open>Properties of the card\<close>

text \<open>
  C32. A failed text call, seen on the card: with images requested, the card of a
  platform whose text call failed shows the text of the previous run (empty on a first
  run), the caption \<open>Failed to generate image.\<close> in the image area although no image
  was requested from the service, and the banner with the failure's message.
\<close>

theorem failed_text_on_card:
  "text_content (run_pipeline True (Inl e) r2 r) = Markdown (text' r) \<and>
   image_content (run_pipeline True (Inl e) r2 r) = Image_failed \<and>
   error_banner (run_pipeline True (Inl e) r2 r) =
     Some (js ''Error: '' @ js_or (message e) (js ''Generation failed''))"
  by (simp add: run_pipeline_def image_content_failed)

text \<open>
  The Download button and its handler agree: whenever the card renders the image with
  its Download button, \<open>handleDownload\<close> saves that image under the platform's name in
  lower case followed by \<open>-image.png\<close>; the guard inside the handler never fails.
\<close>

lemma download_offered_saves:
  "card_offers r c Click_download \<Longrightarrow>
   handleDownload r =
     Some (Save \<lparr>href = the (imageUrl r),
                  file_name = toLowerCase (Platform_value (platform r)) @ js ''-image.png''\<rparr>)"
  by (auto simp: image_content_def handleDownload_def truthy_def truthy_opt_def
      split: if_splits option.splits)

lemma download_offered_saves_witness:
  "handleDownload (image_ready (js ''data:image/png;base64,AA=='') (INITIAL_STATE TWITTER)) =
     Some (Save \<lparr>href = js ''data:image/png;base64,AA=='',
                  file_name = js ''twitter-image.png''\<rparr>)"
  using download_offered_saves
      [of "image_ready (js ''data:image/png;base64,AA=='') (INITIAL_STATE TWITTER)" card_init]
  by (simp add: image_content_image_ready toLowerCase_def lower_unit_def js_def)

end
