(* ===== verification/Slot_Typing.thy ===== *)
theory Slot_Typing
  imports App_Invariants Result_Card
begin

text \<open>
  What a slot of the result table can hold. \<open>slot_step\<close> lists the updates that the
  handlers of \<^verbatim>\<open>src/App.tsx\<close> apply to one slot, and every event is one of them on
  every slot (\<open>slot_step_event\<close>); properties of single slots are then proved once per
  update. \<open>slot_conforms\<close> is the typing of a slot that holds whoever calls the
  handlers; \<open>pipeline_sync\<close> and \<open>image_shown_ok\<close> relate the image fields to the
  pending pipelines and hold through the rendered controls. The last section reads
  the typing through \<^verbatim>\<open>src/components/ResultCard.tsx\<close>: what the card can and cannot
  show.
\<close>

section \<open>Definitions\<close>

inductive slot_step :: "generation_result \<Rightarrow> generation_result \<Rightarrow> bool" where
  unchanged: "slot_step r r"
| submitted: "slot_step r (reset_result images r)"
| submitted_no_key: "slot_step r (generation_failed key_missing (reset_result images r))"
| text_answered: "slot_step r (text_effect key images resp r)"
| image_answered: "slot_step r (after_image (generatePlatformImage_settle resp) r)"
| refine_requested: "truthy (text' r) \<Longrightarrow> slot_step r (refine_started r)"
| refine_no_key: "truthy (text' r) \<Longrightarrow> slot_step r (refine_failed (refine_started r))"
| refine_answered: "slot_step r (refine_effect resp r)"

definition is_image_url :: "jsstring \<Rightarrow> bool" where
  "is_image_url u \<longleftrightarrow> startsWith u (js ''data:image/'')"

text \<open>
  The typing of the slot of platform \<open>p\<close>: it names its platform; it is idle only as
  long as nothing has written it; an error status comes with a message; a refinement
  runs on a text; a slot waiting for its text shows neither an error nor an image; and
  an image is a data URL of an image type.
\<close>

definition slot_conforms :: "platform \<Rightarrow> generation_result \<Rightarrow> bool" where
  "slot_conforms p r \<longleftrightarrow>
     platform r = p
     \<and> (status r = Idle \<longrightarrow> r = INITIAL_STATE p)
     \<and> (status r = Error \<longrightarrow> truthy_opt (error r))
     \<and> (status r = Refining \<longrightarrow> truthy (text' r))
     \<and> (status r = Loading_text \<longrightarrow> error r = None \<and> imageUrl r = None)
     \<and> (case imageUrl r of None \<Rightarrow> True | Some u \<Rightarrow> is_image_url u)"

definition results_conform :: "app_state \<Rightarrow> bool" where
  "results_conform s \<longleftrightarrow> (\<forall>p \<in> set Platform_values. slot_conforms p (results s p))"

text \<open>
  Through the controls a pending pipeline has not yet delivered an image, and it asks
  for one exactly if its card has an image area.
\<close>

fun task_sync :: "generation_state \<Rightarrow> task \<Rightarrow> bool" where
  "task_sync tbl (Text_task p gp b) \<longleftrightarrow>
     imageUrl (tbl p) = None \<and> imageEnabled (tbl p) = p_generateImages gp"
| "task_sync tbl (Image_task p gp b t) \<longleftrightarrow>
     imageUrl (tbl p) = None \<and> imageEnabled (tbl p) \<and> p_generateImages gp"
| "task_sync tbl (Refine_task p) \<longleftrightarrow> True"

definition pipeline_sync :: "app_state \<Rightarrow> bool" where
  "pipeline_sync s \<longleftrightarrow> list_all (task_sync (results s)) (tasks s)"

definition image_shown_ok :: "generation_result \<Rightarrow> bool" where
  "image_shown_ok r \<longleftrightarrow>
     (imageUrl r \<noteq> None \<longrightarrow> imageEnabled r \<and> (status r = Completed \<or> status r = Refining))
     \<and> (status r = Loading_image \<longrightarrow> imageEnabled r)"

definition images_ok :: "app_state \<Rightarrow> bool" where
  "images_ok s \<longleftrightarrow> (\<forall>p \<in> set Platform_values. image_shown_ok (results s p))"

text \<open>
  The condition of the image area with the test of \<open>imageUrl\<close> applied to all four
  statuses, the other way to read the unparenthesised source line.
\<close>

definition image_pending_grouped :: "generation_result \<Rightarrow> bool" where
  "image_pending_grouped r \<longleftrightarrow>
     (status r = Loading_image \<or> status r = Loading_text \<or> status r = Idle
      \<or> status r = Refining) \<and> \<not> truthy_opt (imageUrl r)"

section \<open>Every event is a slot update\<close>

lemma slot_step_event: "slot_step (results s q) (results (apply_event ev s) q)"
  by (cases ev)
     (auto simp: results_after frame_simps intro: slot_step.intros
        split: option.splits task.splits)

lemma slot_step_run: "P (results s q) \<Longrightarrow> (\<And>r r'. P r \<Longrightarrow> slot_step r r' \<Longrightarrow> P r') \<Longrightarrow>
  P (results (run evs s) q)"
  by (induction evs arbitrary: s) (auto intro: slot_step_event)

section \<open>Typing of a slot\<close>

lemma image_settle_is_url:
  "generatePlatformImage_settle resp = Inr u \<Longrightarrow> is_image_url u"
  by (auto simp: generatePlatformImage_settle_def is_image_url_def
      split: sum.splits option.splits dest!: first_image_Some intro: data_url_prefix)

lemma is_image_url_truthy: "is_image_url u \<Longrightarrow> truthy u"
  by (auto simp: is_image_url_def startsWith_iff truthy_def js_def)

lemma failed_message_truthy [simp]: "js_or m (js ''Generation failed'') \<noteq> []"
  by (rule js_or_nonempty) (simp add: js_def)

lemma slot_conforms_init: "slot_conforms p (INITIAL_STATE p)"
  by (simp add: slot_conforms_def)

lemma slot_conforms_step:
  assumes "slot_conforms p r" and "slot_step r r'"
  shows "slot_conforms p r'"
  using assms(2,1)
proof (cases rule: slot_step.cases)
  case (text_answered key images resp)
  with assms(1) show ?thesis
    by (cases resp) (auto simp: slot_conforms_def text_effect_Inr split: option.splits)
next
  case (image_answered resp)
  with assms(1) show ?thesis
    by (cases "generatePlatformImage_settle resp")
       (auto simp: slot_conforms_def dest: image_settle_is_url split: option.splits)
next
  case (refine_answered resp)
  with assms(1) show ?thesis
    by (cases resp) (auto simp: slot_conforms_def split: option.splits)
qed (auto simp: slot_conforms_def refine_failed_def split: option.splits)

lemma results_conform_init: "results_conform (init_state st e)"
  by (simp add: results_conform_def init_state_def slot_conforms_init)

lemma results_conform_step: "results_conform s \<Longrightarrow> results_conform (apply_event ev s)"
  unfolding results_conform_def by (blast intro: slot_conforms_step slot_step_event)

lemma reachable_conform: "reachable s \<Longrightarrow> results_conform s"
  by (induction rule: reachable.induct) (simp_all add: results_conform_init results_conform_step)

section \<open>Images and pipelines through the controls\<close>

lemma task_sync_cong:
  "imageUrl (tbl' (task_platform t)) = imageUrl (tbl (task_platform t)) \<Longrightarrow>
   imageEnabled (tbl' (task_platform t)) = imageEnabled (tbl (task_platform t)) \<Longrightarrow>
   task_sync tbl' t = task_sync tbl t"
  by (cases t) simp_all

lemma task_sync_other: "task_platform t \<noteq> p \<Longrightarrow> task_sync (patch p f tbl) t = task_sync tbl t"
  by (rule task_sync_cong) simp_all

lemma task_sync_not_gen [simp]: "\<not> is_gen t \<Longrightarrow> task_sync tbl t"
  by (cases t) (simp_all add: is_gen_def)

lemma image_fields_kept [simp]:
  "imageUrl (text_effect key images resp r) = imageUrl r"
  "imageEnabled (text_effect key images resp r) = imageEnabled r"
  "imageUrl (refine_effect resp r) = imageUrl r"
  "imageEnabled (refine_effect resp r) = imageEnabled r"
  "imageEnabled (after_image r2 r) = imageEnabled r"
  "imageUrl (refine_failed r) = imageUrl r"
  "imageEnabled (refine_failed r) = imageEnabled r"
  by (cases resp; cases r2; simp add: text_effect_Inr refine_failed_def)+

lemma task_sync_kept:
  "task_sync (results (text_settled i r s)) = task_sync (results s)"
  "task_sync (results (refine_settled i r s)) = task_sync (results s)"
  "task_sync (results (handleRefine p act s)) = task_sync (results s)"
  by (rule ext, rule task_sync_cong;
      simp add: results_after split: option.splits task.splits)+

lemma list_all_update: "list_all P xs \<Longrightarrow> P y \<Longrightarrow> list_all P (xs[i := y])"
  by (auto simp: list_all_iff dest: set_update_subset_insert [THEN subsetD])

lemma list_all_remove_nth: "list_all P xs \<Longrightarrow> list_all P (remove_nth i xs)"
  by (auto simp: list_all_iff dest: set_remove_nth_subset [THEN subsetD])

lemma pipeline_sync_init: "pipeline_sync (init_state st e)"
  by (simp add: pipeline_sync_def init_state_def)

lemma pipeline_sync_generate:
  assumes "single_batch s" and "\<not> generate_disabled s"
  shows "pipeline_sync (handleGenerate now s)"
proof -
  from assms have "gen_tasks s = []"
    by (simp add: ui_generate_accepts single_batch_def)
  then have "list_all (task_sync tbl) (tasks s)" for tbl
    by (auto simp: gen_tasks_def list_all_iff filter_empty_conv)
  then show ?thesis
    by (auto simp: pipeline_sync_def tasks_handleGenerate results_handleGenerate list_all_iff
        capture_def)
qed

lemma pipeline_sync_text_settled:
  assumes "pipeline_sync s" shows "pipeline_sync (text_settled i r s)"
proof -
  have "task_sync (results s) (Image_task p gp b t)"
    if "nth_task (tasks s) i = Some (Text_task p gp b)"
      and "text_continues k (p_generateImages gp) r" for p gp b t k
    using assms that
    by (auto simp: pipeline_sync_def list_all_iff text_continues_def dest!: nth_task_in_set)
  with assms show ?thesis
    unfolding pipeline_sync_def task_sync_kept tasks_text_settled
    by (auto simp: text_continues_def intro!: list_all_update list_all_remove_nth
        split: option.splits task.splits)
qed

lemma pipeline_sync_image_settled:
  assumes "pipeline_sync s" and "single_batch s"
  shows "pipeline_sync (image_settled i r s)"
proof (cases rule: image_settled_cases [where i = i and r = r and s = s])
  case none
  with assms show ?thesis by simp
next
  case (task p gp b t)
  from task(1) obtain A B where split: "tasks s = A @ Image_task p gp b t # B"
    and removed: "remove_nth i (tasks s) = A @ B"
    by (rule nth_task_split)
  from assms(2) split have "task_platform t' \<noteq> p" if "t' \<in> set (A @ B)" "is_gen t'" for t'
    using that by (auto simp: single_batch_def gen_tasks_def is_gen_def)
  then have "task_sync (patch p f (results s)) t' = task_sync (results s) t'"
    if "t' \<in> set (A @ B)" for t' f
    using that by (cases "is_gen t'") (simp_all add: task_sync_other)
  moreover from assms(1) split have "\<forall>t'\<in>set (A @ B). task_sync (results s) t'"
    by (auto simp: pipeline_sync_def list_all_iff)
  ultimately show ?thesis
    by (simp add: pipeline_sync_def task(2) removed list_all_iff)
qed

lemma pipeline_sync_refine:
  assumes "pipeline_sync s"
  shows "pipeline_sync (handleRefine p act s)" and "pipeline_sync (refine_settled i r s)"
  using assms
  by (simp_all add: pipeline_sync_def task_sync_kept tasks_after list_all_remove_nth
      split: option.splits task.splits)

lemma pipeline_sync_step:
  assumes "pipeline_sync s" and "single_batch s" and "ui_enabled s ev"
  shows "pipeline_sync (apply_event ev s)"
proof (cases ev)
  case (Generate now)
  with assms show ?thesis by (simp add: pipeline_sync_generate)
qed (use assms in \<open>simp_all add: pipeline_sync_text_settled pipeline_sync_image_settled
      pipeline_sync_refine\<close>, simp_all add: pipeline_sync_def frame_simps)

lemma ui_reachable_sync: "ui_reachable s \<Longrightarrow> pipeline_sync s"
  by (induction rule: ui_reachable.induct)
     (simp_all add: pipeline_sync_init pipeline_sync_step single_batch_ui_reachable)

lemma sync_nth: "pipeline_sync s \<Longrightarrow> nth_task (tasks s) i = Some t \<Longrightarrow> task_sync (results s) t"
  by (auto simp: pipeline_sync_def list_all_iff dest: nth_task_in_set)

lemma sync_text:
  "pipeline_sync s \<Longrightarrow> nth_task (tasks s) i = Some (Text_task p gp b) \<Longrightarrow>
   imageUrl (results s p) = None \<and> imageEnabled (results s p) = p_generateImages gp"
  by (drule (1) sync_nth) simp

lemma sync_image:
  "pipeline_sync s \<Longrightarrow> nth_task (tasks s) i = Some (Image_task p gp b t) \<Longrightarrow>
   imageUrl (results s p) = None \<and> imageEnabled (results s p)"
  by (drule (1) sync_nth) simp

lemma image_shown_ok_step:
  assumes "image_shown_ok (results s q)" and "pipeline_sync s"
  shows "image_shown_ok (results (apply_event ev s) q)"
  using assms(1)
  by (cases ev)
     (auto simp: results_after frame_simps image_shown_ok_def status_text_effect after_image_def
        split: option.splits task.splits sum.splits
        dest: sync_text [OF assms(2)] sync_image [OF assms(2)])

lemma images_ok_step: "images_ok s \<Longrightarrow> pipeline_sync s \<Longrightarrow> images_ok (apply_event ev s)"
  by (simp add: images_ok_def image_shown_ok_step)

lemma images_ok_init: "images_ok (init_state st e)"
  by (simp add: images_ok_def image_shown_ok_def init_state_def)

lemma ui_reachable_images: "ui_reachable s \<Longrightarrow> images_ok s"
  by (induction rule: ui_reachable.induct)
     (simp_all add: images_ok_init images_ok_step ui_reachable_sync)

section \<open>What the card can show\<close>

lemma image_pending_readings:
  "image_shown_ok r \<Longrightarrow> image_pending r = image_pending_grouped r"
  by (auto simp: image_shown_ok_def image_pending_def image_pending_grouped_def)

lemma picture_is_image_url:
  "slot_conforms p r \<Longrightarrow> image_content r = Picture src alt \<Longrightarrow> is_image_url src"
  by (auto simp: slot_conforms_def image_content_def split: if_splits option.splits)

lemma delivered_image_is_shown:
  assumes "slot_conforms p r" and "image_shown_ok r" and "imageUrl r = Some u"
  shows "image_content r = Picture u (js ''Generated for '' @ Platform_value p)"
  using assms is_image_url_truthy [of u]
  by (auto simp: slot_conforms_def image_shown_ok_def image_content_def image_pending_def
      truthy_def)

lemma error_status_has_banner:
  "slot_conforms p r \<Longrightarrow> status r = Error \<Longrightarrow> error_banner r = Some (js ''Error: '' @ the (error r))"
  by (simp add: slot_conforms_def error_banner_def)

lemma idle_card_is_blank:
  "slot_conforms p r \<Longrightarrow> status r = Idle \<Longrightarrow>
   text_content r = Skeleton None \<and> image_content r = Waiting False (js ''Ready to generate'')
   \<and> error_banner r = None"
  by (simp add: slot_conforms_def view_defs)

section \<open>Example: a delivered image\<close>

definition linkedin_pictured :: app_state where
  "linkedin_pictured =
     run [Generate 0, Text_settled 0 (Inr (Some (js ''Hello''))),
          Image_settled 0 (Inr (Some [[Some png]]))] ready"

lemma linkedin_pictured_reachable: "ui_reachable linkedin_pictured"
  unfolding linkedin_pictured_def
  by (intro ui_reachable_run ui_reachable_ready) (simp add: generate_enabled_ready)

lemma linkedin_pictured_url:
  "imageUrl (results linkedin_pictured LINKEDIN) = Some (js ''data:image/png;base64,AA=='')"
  by (simp add: linkedin_pictured_def results_after tasks_after frame_simps nth_task_def
      remove_nth_def text_effect_Inr image_settle_png)

section \<open>Properties of the result table\<close>

text \<open>
  C9. The result table is well typed in every reachable state, whoever calls the
  handlers and however the answers arrive: the slot of a platform names that platform; a
  slot is idle only while it is the initial one; a slot in error carries a non-empty
  message; a slot being refined has text; a slot waiting for its text has neither error
  nor image; and an image, once present, is a data URL of an image type.
\<close>

theorem results_well_typed:
  "reachable s \<Longrightarrow> slot_conforms p (results s p)"
  using reachable_conform [of s] by (simp add: results_conform_def)

theorem results_well_typed_witness:
  "slot_conforms TWITTER (results (handleGenerate 0 ready) TWITTER)"
  using results_well_typed [of "apply_event (Generate 0) ready" TWITTER]
    reachable.step [OF reachable_ready, of "Generate 0"]
  by simp

text \<open>
  C21. The condition that decides between the spinner and the image mixes \<open>||\<close> and
  \<open>&&\<close> without parentheses. Through the rendered controls both readings agree in
  every state: a slot holds an image only while it is completed or refining, so the test
  of \<open>imageUrl\<close> makes no difference for the three loading statuses.
\<close>

theorem image_condition_unambiguous:
  "ui_reachable s \<Longrightarrow> image_pending (results s p) = image_pending_grouped (results s p)"
  using ui_reachable_images [of s] by (simp add: images_ok_def image_pending_readings)

theorem image_condition_unambiguous_witness:
  "image_pending (results (handleGenerate 0 ready) TWITTER) =
   image_pending_grouped (results (handleGenerate 0 ready) TWITTER)"
  by (rule image_condition_unambiguous) (rule ui_reachable_generate_ready)

text \<open>
  C22. A delivered image is displayed: through the rendered controls, a slot that holds an
  image belongs to a card with an image area, and the card shows that image with the
  platform's name in its alternative text, also while the text is being refined; the
  card never shows \<open>Failed to generate image.\<close> over an image it holds.
\<close>

theorem delivered_image_displayed:
  "ui_reachable s \<Longrightarrow> imageUrl (results s p) = Some u \<Longrightarrow>
   image_content (results s p) = Picture u (js ''Generated for '' @ Platform_value p)"
  using ui_reachable_images [of s] reachable_conform [of s]
  by (intro delivered_image_is_shown)
     (simp_all add: images_ok_def results_conform_def ui_reachable_reachable)

theorem delivered_image_displayed_witness:
  "image_content (results linkedin_pictured LINKEDIN) =
     Picture (js ''data:image/png;base64,AA=='') (js ''Generated for LinkedIn'')"
  using delivered_image_displayed [OF linkedin_pictured_reachable linkedin_pictured_url]
  by (simp add: js_def)

end
