(* ===== verification/App_View.thy ===== *)
theory App_View
  imports App_Machine Result_Card "HOL-Library.Sublist"
begin

text \<open>
  What the \<open>App\<close> component of \<^verbatim>\<open>src/App.tsx\<close> renders from its state: the settings
  button, the platform buttons, the option lists, the two switches, the Generate button
  with its label and colour, the result cards and the schedule. Each definition is the
  expression of the JSX it names. The lemmas relate what is shown to what a click
  does: the Generate button names a model in exactly the states in which a click
  submits, every option list offers each value once, and a card is rendered for each
  enabled platform in the order of the enum.
\<close>

section \<open>Branding\<close>

fun getPlatformIcon :: "platform \<Rightarrow> icon" where
  "getPlatformIcon LINKEDIN = Linkedin"
| "getPlatformIcon TWITTER = Twitter"
| "getPlatformIcon INSTAGRAM = Instagram"
| "getPlatformIcon THREADS = AtSign"

fun getPlatformColor :: "platform \<Rightarrow> jsstring" where
  "getPlatformColor LINKEDIN = js ''text-blue-700''"
| "getPlatformColor TWITTER = js ''text-sky-500''"
| "getPlatformColor INSTAGRAM = js ''text-pink-600''"
| "getPlatformColor THREADS = js ''text-slate-900''"

section \<open>Header\<close>

datatype top_icon = AlertTriangle | Settings

record settings_button =
  settings_class :: jsstring
  settings_icon :: top_icon

definition settings_control :: "app_state \<Rightarrow> settings_button" where
  "settings_control s =
     \<lparr>settings_class =
        (if \<not> isApiKeyConnected s
         then js ''bg-red-50 text-red-600 animate-pulse ring-1 ring-red-200''
         else js ''text-slate-600 hover:bg-slate-100''),
      settings_icon = (if \<not> isApiKeyConnected s then AlertTriangle else Settings)\<rparr>"

section \<open>Controls\<close>

record platform_button =
  button_platform :: platform
  isEnabled :: bool
  button_class :: jsstring
  icon_class :: jsstring
  button_icon :: icon

definition platform_buttons :: "app_state \<Rightarrow> platform_button list" where
  "platform_buttons s =
     map (\<lambda>platform.
            let isEnabled = platform \<in> set (enabledPlatforms s)
            in \<lparr>button_platform = platform,
                isEnabled = isEnabled,
                button_class =
                  (if isEnabled then js ''bg-slate-800 border-slate-800 text-white shadow-md''
                   else js ''bg-white border-slate-200 text-slate-500 hover:bg-slate-50''),
                icon_class = (if isEnabled then js ''text-white'' else getPlatformColor platform),
                button_icon = getPlatformIcon platform\<rparr>)
         Platform_values"

text \<open>An \<open>option\<close> element: its value and its label.\<close>

definition tone_options :: "(jsstring \<times> jsstring) list" where
  "tone_options = map (\<lambda>t. (Tone_value t, Tone_value t)) Tone_values"

definition language_options :: "(jsstring \<times> jsstring) list" where
  "language_options = map (\<lambda>l. (Language_value (fst l), snd l)) LANGUAGES"

definition switch_class :: "bool \<Rightarrow> jsstring" where
  "switch_class on = (if on then js ''bg-indigo-600'' else js ''bg-slate-300'')"

definition knob_class :: "bool \<Rightarrow> jsstring" where
  "knob_class on = (if on then js ''translate-x-4'' else [])"

definition toggle_isThread :: "app_state \<Rightarrow> app_state" where
  "toggle_isThread s = s\<lparr>isThread := \<not> isThread s\<rparr>"

definition toggle_generateImages :: "app_state \<Rightarrow> app_state" where
  "toggle_generateImages s = s\<lparr>generateImages := \<not> generateImages s\<rparr>"

section \<open>The Generate button\<close>

definition generate_class :: "app_state \<Rightarrow> jsstring" where
  "generate_class s =
     (if isGlobalLoading s then js ''bg-slate-400 cursor-not-allowed''
      else if \<not> isApiKeyConnected s then js ''bg-slate-300 cursor-not-allowed''
      else if modelTier s = Pro_3_0
      then js ''bg-gradient-to-r from-amber-500 to-orange-600 hover:from-amber-600 hover:to-orange-700 shadow-amber-200''
      else if modelTier s = Pro_2_5
      then js ''bg-gradient-to-r from-emerald-500 to-teal-600 hover:from-emerald-600 hover:to-teal-700 shadow-emerald-200''
      else js ''bg-indigo-600 hover:bg-indigo-700 shadow-indigo-200'')"

text \<open>
  The label: a spinner while a batch is loading, a prompt to connect while there is no
  key, else the short label of the chosen model; \<open>find\<close> may return \<open>undefined\<close>, which
  the template literal would print as such.
\<close>

datatype generate_label = Spinner | Label jsstring

definition short_label :: "model_tier \<Rightarrow> jsstring" where
  "short_label t =
     (case find (\<lambda>o'. option_id o' = t) MODEL_OPTIONS of
        None \<Rightarrow> js ''undefined''
      | Some o' \<Rightarrow> shortLabel o')"

definition generate_caption :: "app_state \<Rightarrow> generate_label" where
  "generate_caption s =
     (if isGlobalLoading s then Spinner
      else if \<not> isApiKeyConnected s then Label (js ''Connect API Key to Generate'')
      else Label (js ''Generate with '' @ short_label (modelTier s)))"

section \<open>Results and schedule\<close>

definition rendered_cards :: "app_state \<Rightarrow> platform list" where
  "rendered_cards s = filter (\<lambda>p. p \<in> set (enabledPlatforms s)) Platform_values"

definition schedule_shown :: "app_state \<Rightarrow> bool" where
  "schedule_shown s \<longleftrightarrow> length (scheduledPosts s) > 0"

definition post_badge :: "scheduled_post \<Rightarrow> jsstring" where
  "post_badge post =
     (if post_platform post = LINKEDIN then js ''bg-blue-100 text-blue-700''
      else if post_platform post = TWITTER then js ''bg-sky-100 text-sky-600''
      else if post_platform post = INSTAGRAM then js ''bg-pink-100 text-pink-600''
      else js ''bg-neutral-100 text-neutral-900'')"

definition thumbnail :: "scheduled_post \<Rightarrow> jsstring option" where
  "thumbnail post = (if truthy_opt (post_imageUrl post) then post_imageUrl post else None)"

lemmas app_view_defs =
  settings_control_def platform_buttons_def tone_options_def language_options_def
  switch_class_def knob_class_def generate_class_def short_label_def generate_caption_def
  rendered_cards_def schedule_shown_def post_badge_def thumbnail_def

section \<open>The option lists\<close>

lemma short_label_simps [simp]:
  "short_label Flash_2_5 = js ''Flash 2.5''"
  "short_label Pro_2_5 = js ''Pro 2.5''"
  "short_label Pro_3_0 = js ''Pro 3.0''"
  by (simp_all add: short_label_def MODEL_OPTIONS_def)

lemma short_label_defined:
  "\<exists>o' \<in> set MODEL_OPTIONS. option_id o' = t \<and> short_label t = shortLabel o'"
  by (cases t) (simp_all add: MODEL_OPTIONS_def)

lemma tone_options_complete:
  "map fst tone_options = map Tone_value Tone_values" "distinct (map fst tone_options)"
  by (simp_all add: tone_options_def Tone_values_def comp_def)

lemma language_options_complete:
  "fst ` set language_options = range Language_value" "distinct (map fst language_options)"
proof -
  have "fst ` set language_options = Language_value ` fst ` set LANGUAGES"
    by (force simp: language_options_def)
  then show "fst ` set language_options = range Language_value"
    by (simp add: LANGUAGES_complete)
  show "distinct (map fst language_options)"
    by (simp add: language_options_def LANGUAGES_def comp_def)
qed

section \<open>Platform buttons and cards\<close>

lemma platform_buttons_platforms [simp]:
  "map button_platform (platform_buttons s) = Platform_values"
  by (simp add: platform_buttons_def comp_def Let_def)

lemma platform_buttons_offer_all [simp]: "p \<in> button_platform ` set (platform_buttons s)"
proof -
  have "button_platform ` set (platform_buttons s) = set (map button_platform (platform_buttons s))"
    by (simp only: set_map)
  then show ?thesis by simp
qed

lemma platform_button_enabled:
  "b \<in> set (platform_buttons s) \<Longrightarrow> isEnabled b \<longleftrightarrow> button_platform b \<in> set (enabledPlatforms s)"
  by (auto simp: platform_buttons_def Let_def)

lemma set_rendered_cards [simp]: "set (rendered_cards s) = set (enabledPlatforms s)"
  by (auto simp: rendered_cards_def)

lemma distinct_rendered_cards [simp]: "distinct (rendered_cards s)"
  by (simp add: rendered_cards_def)

lemma rendered_cards_sublist: "subseq (rendered_cards s) Platform_values"
  by (simp add: rendered_cards_def)

lemma rendered_cards_nonempty: "enabled_ok s \<Longrightarrow> rendered_cards s \<noteq> []"
  by (metis enabled_ok_def set_rendered_cards set_empty)

lemma rendered_cards_init [simp]: "rendered_cards (init_state st e) = Platform_values"
  by (simp add: rendered_cards_def init_state_def)

section \<open>The Generate button\<close>

lemma generate_caption_names_model:
  "(\<exists>l. generate_caption s = Label (js ''Generate with '' @ l)) \<longleftrightarrow>
   \<not> isGlobalLoading s \<and> isApiKeyConnected s"
  by (auto simp: generate_caption_def js_def)

lemma generate_enabled_names_model:
  "\<not> generate_disabled s \<Longrightarrow>
   generate_caption s = Label (js ''Generate with '' @ short_label (modelTier s))"
  by (simp add: generate_disabled_def generate_caption_def)

lemma toggles_involutive [simp]:
  "toggle_isThread (toggle_isThread s) = s"
  "toggle_generateImages (toggle_generateImages s) = s"
  by (simp_all add: toggle_isThread_def toggle_generateImages_def)

lemma thumbnail_truthy: "thumbnail post = Some u \<Longrightarrow> truthy u"
  by (auto simp: thumbnail_def truthy_opt_def split: if_splits option.splits)

end
