(* ===== verification/Settings_Modal.thy ===== *)
theory Settings_Modal
  imports Gemini_Service
begin

text \<open>
  The settings dialog of \<^verbatim>\<open>src/components/SettingsModal.tsx\<close>: its two \<open>useState\<close>
  hooks, the effect that checks the connection when the dialog opens, \<open>handleConnect\<close>
  split at its \<open>await\<close>, and what the dialog renders. The two asynchronous functions
  report to the parent through \<open>onConnectionStatusChange\<close>; here they return the
  reported value beside the new local state, and \<open>App_Screen\<close> passes it on. The
  lemmas show that the dialog offers exactly one model as active, that choosing a model
  makes it the active one, and what the connection panel shows.
\<close>

section \<open>Local state\<close>

record settings_state =
  isConnected :: bool
  isLoading :: bool

definition settings_init :: settings_state where
  "settings_init = \<lparr>isConnected = False, isLoading = False\<rparr>"

section \<open>The connection check and the Connect button\<close>

text \<open>
  The effect depends on \<open>isOpen\<close> (the callback it also names never changes): it runs
  after a render in which \<open>isOpen\<close> differs from the render before, and starts
  \<open>check\<close> if the dialog is then open. The dialog is mounted closed.
\<close>

definition check_starts :: "bool \<Rightarrow> bool \<Rightarrow> bool" where
  "check_starts was_open isOpen \<longleftrightarrow> was_open \<noteq> isOpen \<and> isOpen"

definition check_settled :: "js_env \<Rightarrow> settings_state \<Rightarrow> bool \<times> settings_state" where
  "check_settled env m =
     (let status = checkApiKeyConnection env in (status, m\<lparr>isConnected := status\<rparr>))"

definition handleConnect_request :: "settings_state \<Rightarrow> settings_state" where
  "handleConnect_request m = m\<lparr>isLoading := True\<rparr>"

definition handleConnect_settled :: "js_env \<Rightarrow> settings_state \<Rightarrow> bool \<times> settings_state" where
  "handleConnect_settled env m =
     (let success = ensureApiKey env
      in (success, m\<lparr>isConnected := success, isLoading := False\<rparr>))"

section \<open>What the dialog renders\<close>

datatype settings_icon = ShieldCheck | Key | Zap | Brain | Crown

record connection_panel =
  panel_class :: jsstring
  badge_class :: jsstring
  badge_icon :: settings_icon
  panel_title :: jsstring
  panel_hint :: jsstring

definition connection :: "settings_state \<Rightarrow> connection_panel" where
  "connection m =
     \<lparr>panel_class =
        (if isConnected m then js ''bg-emerald-50 border-emerald-100''
         else js ''bg-slate-50 border-slate-200''),
      badge_class =
        (if isConnected m then js ''bg-emerald-100 text-emerald-600''
         else js ''bg-slate-200 text-slate-500''),
      badge_icon = (if isConnected m then ShieldCheck else Key),
      panel_title =
        (if isConnected m then js ''Connected to Google AI'' else js ''Not Connected''),
      panel_hint =
        (if isConnected m then js ''Ready to generate content.''
         else js ''Connect to start using the app.'')\<rparr>"

text \<open>
  The Connect button is rendered while the dialog holds no connection; its label is
  replaced by a spinner while \<open>isLoading\<close>.
\<close>

record connect_button =
  connect_disabled :: bool
  connect_label :: "jsstring option"

definition connect :: "settings_state \<Rightarrow> connect_button option" where
  "connect m =
     (if \<not> isConnected m
      then Some \<lparr>connect_disabled = isLoading m,
                 connect_label = (if isLoading m then None else Some (js ''Connect API Key''))\<rparr>
      else None)"

definition secure_note :: "settings_state \<Rightarrow> jsstring option" where
  "secure_note m = (if isConnected m then Some (js ''Secure connection active'') else None)"

record model_button =
  button_tier :: model_tier
  isActive :: bool
  button_icons :: "settings_icon list"
  button_label :: jsstring
  button_hint :: jsstring

definition tier_icons :: "model_tier \<Rightarrow> settings_icon list" where
  "tier_icons t =
     (if t = Flash_2_5 then [Zap] else []) @ (if t = Pro_2_5 then [Brain] else [])
       @ (if t = Pro_3_0 then [Crown] else [])"

definition tier_hint :: "model_tier \<Rightarrow> jsstring" where
  "tier_hint t =
     (if t = Flash_2_5 then js ''Fastest generation, free tier supported.''
      else if t = Pro_2_5 then js ''Balanced reasoning and speed.''
      else js ''Highest quality reasoning and images.'')"

definition model_buttons :: "model_tier \<Rightarrow> model_button list" where
  "model_buttons currentModel =
     map (\<lambda>option.
            \<lparr>button_tier = option_id option,
             isActive = (currentModel = option_id option),
             button_icons = tier_icons (option_id option),
             button_label = option_label option,
             button_hint = tier_hint (option_id option)\<rparr>)
         MODEL_OPTIONS"

section \<open>The dialog as a machine\<close>

text \<open>
  The clicks the dialog can produce. \<open>Click_close\<close> and \<open>Click_model\<close> only call the
  parent (\<open>onClose\<close>, \<open>onModelChange\<close>); nothing is rendered while the dialog is closed.
\<close>

datatype settings_event = Click_close | Click_connect | Click_model model_tier

fun settings_offers :: "bool \<Rightarrow> model_tier \<Rightarrow> settings_state \<Rightarrow> settings_event \<Rightarrow> bool" where
  "settings_offers isOpen current m Click_close = isOpen"
| "settings_offers isOpen current m Click_connect =
     (isOpen \<and> (case connect m of None \<Rightarrow> False | Some b \<Rightarrow> \<not> connect_disabled b))"
| "settings_offers isOpen current m (Click_model t) =
     (isOpen \<and> t \<in> button_tier ` set (model_buttons current))"

lemmas settings_defs =
  settings_init_def check_starts_def check_settled_def handleConnect_request_def
  handleConnect_settled_def
lemmas settings_view_defs =
  connection_def connect_def secure_note_def tier_icons_def tier_hint_def model_buttons_def

section \<open>The model list\<close>

lemma button_tier_model_buttons [simp]:
  "map button_tier (model_buttons t) = [Flash_2_5, Pro_2_5, Pro_3_0]"
  by (simp add: model_buttons_def MODEL_OPTIONS_def)

lemma model_buttons_offer_all [simp]: "t \<in> button_tier ` set (model_buttons current)"
proof -
  have "button_tier ` set (model_buttons current) = {Flash_2_5, Pro_2_5, Pro_3_0}"
    by (simp add: model_buttons_def MODEL_OPTIONS_def)
  then show ?thesis
    by (cases t) simp_all
qed

lemma one_model_active:
  "map button_tier (filter isActive (model_buttons t)) = [t]"
  by (cases t) (simp_all add: model_buttons_def MODEL_OPTIONS_def)

lemma active_after_choice:
  "b \<in> set (model_buttons current) \<Longrightarrow>
   filter isActive (model_buttons (button_tier b)) = [b\<lparr>isActive := True\<rparr>]"
  by (cases current) (auto simp: model_buttons_def MODEL_OPTIONS_def)

lemma tier_icons_single: "length (tier_icons t) = 1"
  by (cases t) (simp_all add: tier_icons_def)

section \<open>The connection panel\<close>

lemma connect_offered_iff [simp]:
  "settings_offers isOpen current m Click_connect \<longleftrightarrow>
   isOpen \<and> \<not> isConnected m \<and> \<not> isLoading m"
  by (simp add: connect_def)

lemma connect_or_secure: "(connect m = None) \<longleftrightarrow> (secure_note m \<noteq> None)"
  by (simp add: connect_def secure_note_def)

lemma check_settled_simps [simp]:
  "fst (check_settled env m) = checkApiKeyConnection env"
  "isConnected (snd (check_settled env m)) = checkApiKeyConnection env"
  "isLoading (snd (check_settled env m)) = isLoading m"
  by (simp_all add: check_settled_def Let_def)

lemma handleConnect_request_simps [simp]:
  "isLoading (handleConnect_request m)"
  "isConnected (handleConnect_request m) = isConnected m"
  by (simp_all add: handleConnect_request_def)

lemma handleConnect_settled_simps [simp]:
  "fst (handleConnect_settled env m) = ensureApiKey env"
  "isConnected (snd (handleConnect_settled env m)) = ensureApiKey env"
  "\<not> isLoading (snd (handleConnect_settled env m))"
  by (simp_all add: handleConnect_settled_def Let_def)

lemma reported_is_shown:
  "isConnected (snd (check_settled env m)) = fst (check_settled env m)"
  "isConnected (snd (handleConnect_settled env m)) = fst (handleConnect_settled env m)"
  by simp_all

end
