(* ===== verification/App_Screen.thy ===== *)
theory App_Screen
  imports Slot_Typing App_View Settings_Modal
begin

text \<open>
  The screen: the \<open>App\<close> component together with the components it mounts, the
  settings dialog and one result card per enabled platform. A state holds the state of
  \<open>App\<close>, the hooks of the dialog and of every card, what has been written to the
  clipboard and offered for download, and the asynchronous checks still pending. An
  event is a click or an input on a rendered control, the expiry of a timer, or the
  settlement of a pending call; \<open>screen_offers\<close> tells which events the rendered
  screen can produce. Each event runs the component's own handler (\<open>local_step\<close>) and
  at most one handler of \<open>App\<close> (\<open>handler_of\<close>), after which the screen is rendered
  again (\<open>dispatch\<close>).

  The theory shows that the screen refines the transition system of \<open>App_Machine\<close>
  restricted to the controls, so that every invariant of \<open>ui_reachable\<close> holds on the
  screen, and that the cards let a refinement start only on a completed result.
\<close>

section \<open>State\<close>

text \<open>
  What the browser hands to the handlers of a card: the time value of
  \<open>new Date(scheduleDate)\<close> and the identifier built from the clock and
  \<open>Math.random\<close>.
\<close>

record ambient =
  date_value :: int
  random_id :: jsstring

record screen =
  app :: app_state
  settings :: settings_state
  cards :: "platform \<Rightarrow> card_state"
  clipboard :: "jsstring option"
  downloads :: "download list"
  mount_check :: bool
  checks :: nat
  connects :: nat

definition screen_init :: "stored_history \<Rightarrow> js_env \<Rightarrow> screen" where
  "screen_init st e =
     \<lparr>app = init_state st e, settings = settings_init, cards = (\<lambda>p. card_init),
      clipboard = None, downloads = [], mount_check = True, checks = 0, connects = 0\<rparr>"

section \<open>Events\<close>

text \<open>
  The events of the input section, those of the page header, and the handlers of \<open>App\<close>
  they call; the two switches pass the negation of the current value.
\<close>

datatype input_event =
    Type_topic jsstring
  | Click_platform platform
  | Select_tone tone
  | Select_language language
  | Click_thread
  | Click_images
  | Type_keywords jsstring
  | Type_brandVoice jsstring

fun input_handler :: "app_state \<Rightarrow> input_event \<Rightarrow> event" where
  "input_handler s (Type_topic v) = Set_topic v"
| "input_handler s (Click_platform p) = Toggle_platform p"
| "input_handler s (Select_tone t) = Set_tone t"
| "input_handler s (Select_language l) = Set_language l"
| "input_handler s Click_thread = Set_isThread (\<not> isThread s)"
| "input_handler s Click_images = Set_generateImages (\<not> generateImages s)"
| "input_handler s (Type_keywords v) = Set_keywords v"
| "input_handler s (Type_brandVoice v) = Set_brandVoice v"

datatype header_event = Click_analytics | Click_settings

fun header_handler :: "header_event \<Rightarrow> event" where
  "header_handler Click_analytics = Set_showAnalytics True"
| "header_handler Click_settings = Set_showSettings True"

text \<open>
  The props that \<open>App\<close> passes to the settings dialog and to a card: what a call of the
  dialog's \<open>onClose\<close> and \<open>onModelChange\<close>, and of a card's \<open>onSchedule\<close> and
  \<open>onRefine\<close>, runs in \<open>App\<close>.
\<close>

fun settings_handler :: "settings_event \<Rightarrow> event option" where
  "settings_handler Click_close = Some (Set_showSettings False)"
| "settings_handler (Click_model t) = Some (Set_modelTier t)"
| "settings_handler Click_connect = None"

fun card_handler :: "platform \<Rightarrow> ambient \<Rightarrow> card_effect \<Rightarrow> event option" where
  "card_handler p a (OnSchedule d) = Some (Schedule p (date_value a) (random_id a))"
| "card_handler p a (OnRefine act) = Some (Refine p act)"
| "card_handler p a eff = None"

datatype screen_event =
    Input input_event
  | Header header_event
  | Close_analytics
  | In_settings settings_event
  | Click_generate int
  | On_card platform card_event ambient
  | Click_delete jsstring
  | Mount_check_settled
  | Check_settled
  | Connect_settled
  | Answer_text nat "text_response outcome"
  | Answer_image nat "image_response outcome"
  | Answer_refine nat "text_response outcome"
  | Environment js_env

text \<open>The handler of \<open>App\<close> that an event calls, with its arguments.\<close>

fun handler_of :: "screen \<Rightarrow> screen_event \<Rightarrow> event option" where
  "handler_of u (Input ev) = Some (input_handler (app u) ev)"
| "handler_of u (Header ev) = Some (header_handler ev)"
| "handler_of u Close_analytics = Some (Set_showAnalytics False)"
| "handler_of u (In_settings ev) = settings_handler ev"
| "handler_of u (Click_generate now) = Some (Generate now)"
| "handler_of u (On_card p ev a) =
     (case fst (card_step (results (app u) p) ev (cards u p)) of
        None \<Rightarrow> None
      | Some eff \<Rightarrow> card_handler p a eff)"
| "handler_of u (Click_delete i) = Some (Delete_post i)"
| "handler_of u Mount_check_settled = Some Init_check"
| "handler_of u Check_settled =
     Some (Connection_status (fst (check_settled (env (app u)) (settings u))))"
| "handler_of u Connect_settled =
     Some (Connection_status (fst (handleConnect_settled (env (app u)) (settings u))))"
| "handler_of u (Answer_text i r) = Some (Text_settled i r)"
| "handler_of u (Answer_image i r) = Some (Image_settled i r)"
| "handler_of u (Answer_refine i r) = Some (Refine_settled i r)"
| "handler_of u (Environment e) = Some (Env_changed e)"

text \<open>What an event changes outside \<open>App\<close>.\<close>

definition card_clicked :: "platform \<Rightarrow> card_event \<Rightarrow> screen \<Rightarrow> screen" where
  "card_clicked p ev u =
     (let (eff, c) = card_step (results (app u) p) ev (cards u p);
          u1 = u\<lparr>cards := (cards u)(p := c)\<rparr>
      in case eff of
           Some (WriteText t) \<Rightarrow> u1\<lparr>clipboard := Some t\<rparr>
         | Some (Save d) \<Rightarrow> u1\<lparr>downloads := downloads u1 @ [d]\<rparr>
         | _ \<Rightarrow> u1)"

fun local_step :: "screen_event \<Rightarrow> screen \<Rightarrow> screen" where
  "local_step (On_card p ev a) u = card_clicked p ev u"
| "local_step (In_settings Click_connect) u =
     u\<lparr>settings := handleConnect_request (settings u), connects := Suc (connects u)\<rparr>"
| "local_step Mount_check_settled u = u\<lparr>mount_check := False\<rparr>"
| "local_step Check_settled u =
     u\<lparr>settings := snd (check_settled (env (app u)) (settings u)), checks := checks u - 1\<rparr>"
| "local_step Connect_settled u =
     u\<lparr>settings := snd (handleConnect_settled (env (app u)) (settings u)),
       connects := connects u - 1\<rparr>"
| "local_step ev u = u"

text \<open>
  A handler of \<open>App\<close> and the render that follows: the card of a platform that is no
  longer enabled is unmounted and loses its state, and the effect of the settings dialog
  starts a check if the dialog has just opened.
\<close>

definition dispatch :: "event \<Rightarrow> screen \<Rightarrow> screen" where
  "dispatch ev u =
     (let s = apply_event ev (app u)
      in u\<lparr>app := s,
           cards := (\<lambda>p. if p \<in> set (rendered_cards s) then cards u p else card_init),
           checks := (if check_starts (showSettings (app u)) (showSettings s)
                      then Suc (checks u) else checks u)\<rparr>)"

definition screen_step :: "screen_event \<Rightarrow> screen \<Rightarrow> screen" where
  "screen_step ev u =
     (case handler_of u ev of
        None \<Rightarrow> local_step ev u
      | Some e \<Rightarrow> dispatch e (local_step ev u))"

fun screen_offers :: "screen \<Rightarrow> screen_event \<Rightarrow> bool" where
  "screen_offers u (Input (Click_platform p)) =
     (p \<in> button_platform ` set (platform_buttons (app u)))"
| "screen_offers u (In_settings ev) =
     settings_offers (showSettings (app u)) (modelTier (app u)) (settings u) ev"
| "screen_offers u (Click_generate now) = (\<not> generate_disabled (app u))"
| "screen_offers u (On_card p ev a) =
     (p \<in> set (rendered_cards (app u)) \<and> card_offers (results (app u) p) (cards u p) ev)"
| "screen_offers u (Click_delete i) =
     (schedule_shown (app u) \<and> i \<in> post_id ` set (scheduledPosts (app u)))"
| "screen_offers u Mount_check_settled = mount_check u"
| "screen_offers u Check_settled = (0 < checks u)"
| "screen_offers u Connect_settled = (0 < connects u)"
| "screen_offers u ev = True"

definition screen_run :: "screen_event list \<Rightarrow> screen \<Rightarrow> screen" where
  "screen_run evs u = fold screen_step evs u"

fun screen_offers_all :: "screen \<Rightarrow> screen_event list \<Rightarrow> bool" where
  "screen_offers_all u [] = True"
| "screen_offers_all u (ev # evs) =
     (screen_offers u ev \<and> screen_offers_all (screen_step ev u) evs)"

inductive screen_reachable :: "screen \<Rightarrow> bool" where
  mounted: "screen_reachable (screen_init st e)"
| event: "screen_reachable u \<Longrightarrow> screen_offers u ev \<Longrightarrow> screen_reachable (screen_step ev u)"

section \<open>Invariant of the components\<close>

text \<open>
  The refine menu of a card is closed while its result is being refined; a card that is
  not rendered is in its initial state; a card that shows \<open>Copied\<close> has a timer pending;
  at most one connection attempt is pending, and the dialog's \<open>isLoading\<close> tells
  whether one is.
\<close>

definition card_ok :: "app_state \<Rightarrow> platform \<Rightarrow> card_state \<Rightarrow> bool" where
  "card_ok s p c \<longleftrightarrow>
     (status (results s p) = Refining \<longrightarrow> \<not> showRefineMenu c)
     \<and> (p \<notin> set (enabledPlatforms s) \<longrightarrow> c = card_init)
     \<and> label_reverts c"

definition screen_ok :: "screen \<Rightarrow> bool" where
  "screen_ok u \<longleftrightarrow>
     (\<forall>p \<in> set Platform_values. card_ok (app u) p (cards u p))
     \<and> connects u \<le> 1 \<and> (isLoading (settings u) \<longleftrightarrow> connects u = 1)"

section \<open>Fields after a step\<close>

lemma app_card_clicked [simp]: "app (card_clicked p ev u) = app u"
  by (simp add: card_clicked_def Let_def split: prod.splits option.splits card_effect.splits)

lemma cards_card_clicked [simp]:
  "cards (card_clicked p ev u) = (cards u)(p := snd (card_step (results (app u) p) ev (cards u p)))"
  by (simp add: card_clicked_def Let_def split: prod.splits option.splits card_effect.splits)

lemma settings_card_clicked [simp]:
  "settings (card_clicked p ev u) = settings u" "connects (card_clicked p ev u) = connects u"
  "checks (card_clicked p ev u) = checks u" "mount_check (card_clicked p ev u) = mount_check u"
  by (simp_all add: card_clicked_def Let_def split: prod.splits option.splits card_effect.splits)

lemma app_local_step [simp]: "app (local_step ev u) = app u"
  by (induction ev u rule: local_step.induct) simp_all

lemma dispatch_simps [simp]:
  "app (dispatch e u) = apply_event e (app u)"
  "cards (dispatch e u) p =
     (if p \<in> set (enabledPlatforms (apply_event e (app u))) then cards u p else card_init)"
  "settings (dispatch e u) = settings u"
  "connects (dispatch e u) = connects u"
  "mount_check (dispatch e u) = mount_check u"
  "clipboard (dispatch e u) = clipboard u"
  "downloads (dispatch e u) = downloads u"
  by (simp_all add: dispatch_def Let_def)

lemma checks_dispatch:
  "checks (dispatch e u) =
     (if \<not> showSettings (app u) \<and> showSettings (apply_event e (app u))
      then Suc (checks u) else checks u)"
  by (auto simp: dispatch_def Let_def check_starts_def)

lemma app_screen_step:
  "app (screen_step ev u) =
     (case handler_of u ev of None \<Rightarrow> app u | Some e \<Rightarrow> apply_event e (app u))"
  by (simp add: screen_step_def split: option.splits)

lemma screen_run_simps [simp]:
  "screen_run [] u = u"
  "screen_run (ev # evs) u = screen_run evs (screen_step ev u)"
  "screen_run (evs @ evs') u = screen_run evs' (screen_run evs u)"
  by (simp_all add: screen_run_def)

lemma screen_reachable_run:
  "screen_reachable u \<Longrightarrow> screen_offers_all u evs \<Longrightarrow> screen_reachable (screen_run evs u)"
  by (induction evs arbitrary: u) (auto intro: screen_reachable.event)

section \<open>The handlers called\<close>

lemma plain_handlers_enabled [simp]:
  "ui_enabled s (input_handler s ev)" "ui_enabled s (header_handler hev)"
  by (cases ev; simp) (cases hev; simp)

lemma settings_handler_enabled: "settings_handler ev = Some e \<Longrightarrow> ui_enabled s e"
  by (cases ev) auto

lemma not_refine_handlers [simp]:
  "input_handler s ev \<noteq> Refine p act" "header_handler hev \<noteq> Refine p act"
  "settings_handler sev \<noteq> Some (Refine p act)"
  by ((cases ev; simp), (cases hev; simp), (cases sev; simp))

lemma card_handler_Refine [simp]:
  "card_handler p a eff = Some (Refine q act) \<longleftrightarrow> eff = OnRefine act \<and> q = p"
  by (cases eff) auto

lemma card_handler_enabled:
  "card_handler p a eff = Some e \<Longrightarrow> e = Schedule p (date_value a) (random_id a) \<or>
   (\<exists>act. eff = OnRefine act \<and> e = Refine p act)"
  by (cases eff) auto

section \<open>The cards\<close>

lemma refining_origin:
  "status (results (apply_event e s) p) = Refining \<Longrightarrow>
   status (results s p) = Refining \<or> (\<exists>act. e = Refine p act)"
  by (cases e)
     (auto simp: results_after frame_simps status_text_effect after_image_def
        split: option.splits task.splits if_splits sum.splits)

lemma card_init_simps [simp]:
  "\<not> copied card_init" "\<not> showSchedule card_init" "scheduleDate card_init = []"
  "\<not> showRefineMenu card_init" "copy_timers card_init = 0" "label_reverts card_init"
  by (simp_all add: label_reverts_def card_init_def)

lemma card_ok_dispatch:
  assumes "card_ok s p c" and "\<And>act. e = Refine p act \<Longrightarrow> \<not> showRefineMenu c"
  shows "card_ok (apply_event e s) p
           (if p \<in> set (enabledPlatforms (apply_event e s)) then c else card_init)"
  using assms refining_origin [of e s p]
  by (auto simp: card_ok_def)

lemma card_ok_local:
  assumes "card_ok s p c" and "card_offers (results s p) c ev"
    and "p \<in> set (enabledPlatforms s)"
  shows "card_ok s p (snd (card_step (results s p) ev c))"
  using assms
  by (cases ev)
     (auto simp: card_ok_def card_defs label_reverts_def action_bar_def
        refine_button_disabled_def)

lemma refine_call_closes_menu:
  "fst (card_step r ev c) = Some (OnRefine act) \<Longrightarrow> \<not> showRefineMenu (snd (card_step r ev c))"
  by (cases ev) (auto simp: card_defs split: if_splits option.splits)

lemma handler_refine_closes_menu:
  "handler_of u ev = Some (Refine p act) \<Longrightarrow> \<not> showRefineMenu (cards (local_step ev u) p)"
  by (induction u ev rule: handler_of.induct)
     (auto simp: refine_call_closes_menu split: option.splits)

lemma refine_call_completed:
  "card_ok s p c \<Longrightarrow> card_offers (results s p) c ev \<Longrightarrow>
   fst (card_step (results s p) ev c) = Some (OnRefine act) \<Longrightarrow>
   status (results s p) = Completed"
  by (cases ev)
     (auto simp: card_ok_def card_defs action_bar_def refine_menu_def
        split: if_splits option.splits)

section \<open>The invariant\<close>

lemma screen_ok_init: "screen_ok (screen_init st e)"
  by (simp add: screen_ok_def screen_init_def card_ok_def settings_init_def init_state_def)

lemma screen_ok_local:
  assumes "screen_ok u" and "screen_offers u ev"
  shows "screen_ok (local_step ev u)"
proof (cases ev)
  case (On_card p cev a)
  with assms show ?thesis
    by (auto simp: screen_ok_def card_ok_local)
next
  case (In_settings sev)
  with assms show ?thesis
    by (cases sev) (auto simp: screen_ok_def)
qed (use assms in \<open>auto simp: screen_ok_def\<close>)

lemma screen_ok_dispatch:
  assumes "screen_ok u" and "\<And>p act. e = Refine p act \<Longrightarrow> \<not> showRefineMenu (cards u p)"
  shows "screen_ok (dispatch e u)"
proof -
  have "card_ok (app (dispatch e u)) p (cards (dispatch e u) p)" for p
    using card_ok_dispatch [of "app u" p "cards u p" e] assms by (simp add: screen_ok_def)
  with assms(1) show ?thesis
    by (simp add: screen_ok_def del: dispatch_simps(1,2))
qed

lemma screen_ok_step:
  assumes "screen_ok u" and "screen_offers u ev"
  shows "screen_ok (screen_step ev u)"
proof (cases "handler_of u ev")
  case None
  with assms show ?thesis
    by (simp add: screen_step_def screen_ok_local)
next
  case (Some e)
  have "screen_ok (dispatch e (local_step ev u))"
    using assms Some by (intro screen_ok_dispatch screen_ok_local) (auto dest: handler_refine_closes_menu)
  with Some show ?thesis
    by (simp add: screen_step_def)
qed

lemma screen_reachable_ok: "screen_reachable u \<Longrightarrow> screen_ok u"
  by (induction rule: screen_reachable.induct) (simp_all add: screen_ok_init screen_ok_step)

section \<open>Refinement\<close>

lemma handler_enabled:
  assumes "screen_ok u" and "screen_offers u ev" and "handler_of u ev = Some e"
  shows "ui_enabled (app u) e"
proof (cases ev)
  case (On_card p cev a)
  with assms refine_call_completed [of "app u" p "cards u p" cev] show ?thesis
    by (auto simp: screen_ok_def action_bar_shown_def refine_disabled_def
        split: option.splits dest!: card_handler_enabled)
next
  case (In_settings sev)
  with assms show ?thesis
    by (auto intro: settings_handler_enabled)
qed (use assms in auto)

lemma screen_app_reachable:
  "screen_reachable u \<Longrightarrow> ui_reachable (app u)"
proof (induction rule: screen_reachable.induct)
  case (mounted st e)
  show ?case by (simp add: screen_init_def ui_reachable.ui_init)
next
  case (event u ev)
  then show ?case
    by (auto simp: app_screen_step split: option.splits
        intro!: ui_reachable.ui_step handler_enabled dest: screen_reachable_ok)
qed

section \<open>Evaluating runs\<close>

lemma cards_local_step:
  "cards (local_step ev u) =
     (case ev of
        On_card p cev a \<Rightarrow> (cards u)(p := snd (card_step (results (app u) p) cev (cards u p)))
      | _ \<Rightarrow> cards u)"
  by (induction ev u rule: local_step.induct) simp_all

lemma cards_screen_step:
  "cards (screen_step ev u) p =
     (case handler_of u ev of
        None \<Rightarrow> cards (local_step ev u) p
      | Some e \<Rightarrow>
          if p \<in> set (enabledPlatforms (apply_event e (app u))) then cards (local_step ev u) p
          else card_init)"
  by (simp add: screen_step_def split: option.splits)

text \<open>
  Example states: the screen after the topic is typed, two platforms are switched off and
  the mount check has answered with a key present.
\<close>

definition demo_setup :: "screen_event list" where
  "demo_setup =
     [Input (Type_topic (js ''T'')), Input (Click_platform INSTAGRAM),
      Input (Click_platform THREADS), Mount_check_settled]"

definition at_ready :: screen where
  "at_ready = screen_run demo_setup (screen_init No_entry env_keyed)"

lemma app_at_ready [simp]: "app at_ready = ready"
  by (simp add: at_ready_def demo_setup_def app_screen_step screen_init_def ready_def
      togglePlatform_def initCheck_def init_state_def Platform_values_def
      checkApiKeyConnection_def env_keyed_def js_def)

lemma at_ready_simps [simp]:
  "cards at_ready p = card_init" "settings at_ready = settings_init"
  "connects at_ready = 0" "checks at_ready = 0" "\<not> mount_check at_ready"
  by (simp_all add: at_ready_def demo_setup_def screen_step_def screen_init_def
      checks_dispatch initCheck_def checkApiKeyConnection_def env_keyed_def js_def
      togglePlatform_def init_state_def Platform_values_def Let_def)

lemma offers_setup: "screen_offers_all (screen_init st e) demo_setup"
  by (simp add: demo_setup_def screen_init_def screen_step_def dispatch_def Let_def)

lemma at_ready_reachable: "screen_reachable at_ready"
  unfolding at_ready_def
  by (intro screen_reachable_run screen_reachable.mounted offers_setup)


lemmas screen_fields =
  app_screen_step cards_screen_step cards_local_step results_after tasks_after
  isGlobalLoading_after frame_simps nth_task_def remove_nth_def text_effect_Inr

definition amb :: ambient where
  "amb = \<lparr>date_value = 0, random_id = js ''id''\<rparr>"

text \<open>Images switched off, a submission, and the answer for Twitter.\<close>

definition twitter_shown :: screen where
  "twitter_shown =
     screen_run
       [Input Click_images, Click_generate 0, Answer_text 1 (Inr (Some (js ''Hello'')))]
       at_ready"

lemma accepts_ready_update [simp]: "accepts (ready\<lparr>generateImages := b\<rparr>)"
  by (simp add: accepts_def truthy_def js_eq_Nil_iff)

lemma twitter_shown_simps [simp]:
  "status (results (app twitter_shown) TWITTER) = Completed"
  "text' (results (app twitter_shown) TWITTER) = js ''Hello''"
  "enabledPlatforms (app twitter_shown) = [LINKEDIN, TWITTER]"
  "cards twitter_shown TWITTER = card_init"
  "scheduledPosts (app twitter_shown) = []"
  "isGlobalLoading (app twitter_shown)"
  "tasks (app twitter_shown) = [Text_task LINKEDIN (capture (ready\<lparr>generateImages := False\<rparr>)) 0]"
  "topic (app twitter_shown) = js ''T''"
  "isApiKeyConnected (app twitter_shown)"
  "env (app twitter_shown) = env_keyed"
  "\<not> generateImages (app twitter_shown)"
  by (simp_all add: twitter_shown_def screen_fields)

lemma twitter_shown_reachable: "screen_reachable twitter_shown"
  unfolding twitter_shown_def
  by (intro screen_reachable_run at_ready_reachable)
     (simp add: screen_fields generate_disabled_def truthy_def js_eq_Nil_iff)

text \<open>The refine menu of Twitter's card opened.\<close>

definition menu_open :: screen where
  "menu_open = screen_step (On_card TWITTER Click_refine amb) twitter_shown"

lemma menu_open_reachable: "screen_reachable menu_open"
  unfolding menu_open_def
  by (intro screen_reachable.event twitter_shown_reachable)
     (simp add: view_defs)

lemma menu_open_simps [simp]:
  "status (results (app menu_open) TWITTER) = Completed"
  "showRefineMenu (cards menu_open TWITTER)"
  "\<not> showSchedule (cards menu_open TWITTER)"
  "enabledPlatforms (app menu_open) = [LINKEDIN, TWITTER]"
  by (simp_all add: menu_open_def screen_fields)

text \<open>
  The schedule panel of Twitter's card opened and a date entered, then LinkedIn's answer
  and a second submission.
\<close>

definition panel_open :: screen where
  "panel_open =
     screen_run
       [On_card TWITTER Click_schedule amb,
        On_card TWITTER (Input_scheduleDate (js ''2030-01-01T10:00'')) amb,
        Answer_text 0 (Inr (Some (js ''Hi''))),
        Click_generate 1]
       twitter_shown"

lemma panel_open_simps [simp]:
  "status (results (app panel_open) TWITTER) = Loading_text"
  "showSchedule (cards panel_open TWITTER)"
  "scheduleDate (cards panel_open TWITTER) = js ''2030-01-01T10:00''"
  "enabledPlatforms (app panel_open) = [LINKEDIN, TWITTER]"
  "scheduledPosts (app panel_open) = []"
  by (simp_all add: panel_open_def screen_fields card_defs accepts_def truthy_def
      js_eq_Nil_iff capture_def)

lemma panel_open_reachable: "screen_reachable panel_open"
  unfolding panel_open_def
  by (intro screen_reachable_run twitter_shown_reachable)
     (simp add: screen_fields view_defs card_defs generate_disabled_def truthy_def
        js_eq_Nil_iff)

text \<open>The settings dialog opened without a key and the Connect button clicked.\<close>

definition connecting :: screen where
  "connecting =
     screen_run [Header Click_settings, In_settings Click_connect]
       (screen_init No_entry env_bare)"

lemma connecting_reachable: "screen_reachable connecting"
  unfolding connecting_def
  by (intro screen_reachable_run screen_reachable.mounted)
     (simp add: screen_init_def screen_step_def dispatch_def Let_def settings_init_def)

section \<open>Properties of the screen\<close>

text \<open>
  C8. The screen refines the controls: in every state the screen reaches, the state of
  \<open>App\<close> is one that \<open>ui_reachable\<close> allows, and every event the rendered screen offers
  either leaves the state of \<open>App\<close> unchanged or is one handler call that the controls
  enable in that state. The invariants proved over \<open>ui_reachable\<close> therefore hold on the
  screen with its dialog and cards.
\<close>

theorem screen_refines_controls:
  "screen_reachable u \<Longrightarrow> screen_offers u ev \<Longrightarrow>
   ui_reachable (app u) \<and>
   (case handler_of u ev of
      None \<Rightarrow> app (screen_step ev u) = app u
    | Some e \<Rightarrow> ui_enabled (app u) e \<and> app (screen_step ev u) = apply_event e (app u))"
  by (auto simp: app_screen_step screen_app_reachable split: option.splits
      intro: handler_enabled screen_reachable_ok)

theorem screen_refines_controls_witness:
  "ui_reachable ready \<and> ui_enabled ready (Generate 0)
   \<and> app (screen_step (Click_generate 0) at_ready) = handleGenerate 0 ready"
  using screen_refines_controls [of at_ready "Click_generate 0"] at_ready_reachable
  by (simp add: generate_enabled_ready)

text \<open>
  C14. The cards start a refinement only on a completed result: whenever an event that the
  rendered screen offers calls \<open>handleRefine\<close> for a platform, that platform's card is
  rendered and its status is completed. The menu with the refinement actions is closed
  while the status is refining, and a click on an action closes it.
\<close>

theorem refine_offered_when_completed:
  "screen_reachable u \<Longrightarrow> screen_offers u ev \<Longrightarrow> handler_of u ev = Some (Refine p act) \<Longrightarrow>
   status (results (app u) p) = Completed \<and> p \<in> set (rendered_cards (app u))"
  using handler_enabled [of u ev "Refine p act"]
  by (auto simp: screen_reachable_ok action_bar_shown_def refine_disabled_def)

theorem refine_offered_when_completed_witness:
  "status (results (app menu_open) TWITTER) = Completed
   \<and> TWITTER \<in> set (rendered_cards (app menu_open))"
  using refine_offered_when_completed
      [of menu_open "On_card TWITTER (Click_refine_item Shorten) amb" TWITTER Shorten]
    menu_open_reachable
  by (simp add: view_defs card_defs REFINEMENT_ACTIONS_def)

text \<open>
  C36. The Connect button of the settings dialog cannot start a second attempt: on the
  screen at most one call of \<open>ensureApiKey\<close> is pending, and the dialog's \<open>isLoading\<close>
  is set exactly while one is.
\<close>

theorem one_connect_pending:
  "screen_reachable u \<Longrightarrow> connects u \<le> 1 \<and> (isLoading (settings u) \<longleftrightarrow> connects u = 1)"
  by (drule screen_reachable_ok) (simp add: screen_ok_def)

theorem one_connect_pending_witness:
  "connects connecting \<le> 1 \<and> (isLoading (settings connecting) \<longleftrightarrow> connects connecting = 1)"
  using one_connect_pending [of connecting] connecting_reachable by simp

text \<open>
  C31. Confirming a date on a card that is not completed discards it: the schedule panel
  stays open when the status changes, its Confirm button stays enabled, and a click then
  schedules nothing, closes the panel and clears the date.
\<close>

theorem confirm_drops_unfinished:
  assumes "p \<in> set (rendered_cards (app u))" and "showSchedule (cards u p)"
    and "truthy (scheduleDate (cards u p))" and "status (results (app u) p) \<noteq> Completed"
  shows "screen_offers u (On_card p Click_confirm a) \<and>
    scheduledPosts (app (screen_step (On_card p Click_confirm a) u)) = scheduledPosts (app u) \<and>
    \<not> showSchedule (cards (screen_step (On_card p Click_confirm a) u) p) \<and>
    scheduleDate (cards (screen_step (On_card p Click_confirm a) u) p) = []"
  using assms
  by (simp add: screen_fields card_defs confirm_disabled_def handleSchedulePost_def)

theorem confirm_drops_unfinished_witness:
  "screen_offers panel_open (On_card TWITTER Click_confirm amb) \<and>
   scheduledPosts (app (screen_step (On_card TWITTER Click_confirm amb) panel_open)) = [] \<and>
   \<not> showSchedule (cards (screen_step (On_card TWITTER Click_confirm amb) panel_open) TWITTER) \<and>
   scheduleDate (cards (screen_step (On_card TWITTER Click_confirm amb) panel_open) TWITTER) = []"
  using confirm_drops_unfinished [of TWITTER panel_open amb]
  by (simp add: truthy_def js_eq_Nil_iff)

end
