(* ===== verification/Api_Key_Modal.thy ===== *)
theory Api_Key_Modal
  imports Gemini_Service
begin

text \<open>
  The key dialog of \<^verbatim>\<open>src/components/ApiKeyModal.tsx\<close>, a component that
  \<^verbatim>\<open>src/App.tsx\<close> does not mount. Its state is the two \<open>useState\<close> hooks
  (\<open>isLoading\<close> is spelled \<open>isLoading'\<close>, the settings dialog having a hook of the same
  name), the awaits still pending, and a count of the calls of the parent's
  \<open>onKeySelected\<close>. \<open>checkKey\<close> runs on mount; with \<open>window.aistudio\<close> present it
  awaits \<open>hasSelectedApiKey\<close>, otherwise it finishes within the call. The lemmas show
  that the dialog never reappears once hidden, that it calls the parent exactly when it
  hides, and that through its one button it calls the parent at most once.
\<close>

section \<open>State\<close>

datatype key_task = Check_task | Connect_task

record key_modal =
  isVisible :: bool
  isLoading' :: bool
  keySelected :: nat
  awaiting :: "key_task list"

definition key_accepted :: "key_modal \<Rightarrow> key_modal" where
  "key_accepted m = m\<lparr>isVisible := False, keySelected := Suc (keySelected m)\<rparr>"

section \<open>\<open>checkKey\<close> and \<open>handleConnect\<close>\<close>

definition checkKey_request :: "js_env \<Rightarrow> key_modal \<Rightarrow> key_modal" where
  "checkKey_request env m =
     (let m1 = m\<lparr>isLoading' := True\<rparr>
      in case aistudio env of
           Some studio \<Rightarrow> m1\<lparr>awaiting := awaiting m1 @ [Check_task]\<rparr>
         | None \<Rightarrow>
             (if truthy_opt (API_KEY env) then key_accepted m1 else m1)\<lparr>isLoading' := False\<rparr>)"

text \<open>
  The outcome of \<open>hasSelectedApiKey\<close>: a rejection is caught and logged, and the
  \<open>finally\<close> block runs on every path.
\<close>

definition checkKey_settled :: "bool outcome \<Rightarrow> key_modal \<Rightarrow> key_modal" where
  "checkKey_settled r m =
     (case r of
        Inr hasKey \<Rightarrow> if hasKey then key_accepted m else m
      | Inl e \<Rightarrow> m)\<lparr>isLoading' := False\<rparr>"

definition handleConnect_request' :: "key_modal \<Rightarrow> key_modal" where
  "handleConnect_request' m = m\<lparr>isLoading' := True, awaiting := awaiting m @ [Connect_task]\<rparr>"

definition handleConnect_settled' :: "bool \<Rightarrow> key_modal \<Rightarrow> key_modal" where
  "handleConnect_settled' success m =
     (if success then key_accepted m else m)\<lparr>isLoading' := False\<rparr>"

text \<open>The dialog after mount: the initial hooks and the effect that calls \<open>checkKey\<close>.\<close>

definition key_modal_init :: key_modal where
  "key_modal_init = \<lparr>isVisible = True, isLoading' = False, keySelected = 0, awaiting = []\<rparr>"

definition mounted :: "js_env \<Rightarrow> key_modal" where
  "mounted env = checkKey_request env key_modal_init"

section \<open>The dialog as a machine\<close>

text \<open>
  The button is rendered while the dialog is visible and disabled while \<open>isLoading\<close>.
  A settlement answers the oldest pending await of its kind; the environment is read
  when \<open>ensureApiKey\<close> settles.
\<close>

datatype key_event =
    Click_connect_key
  | Check_answer "bool outcome"
  | Connect_answer js_env

definition connect_enabled :: "key_modal \<Rightarrow> bool" where
  "connect_enabled m \<longleftrightarrow> isVisible m \<and> \<not> isLoading' m"

fun key_offers :: "key_modal \<Rightarrow> key_event \<Rightarrow> bool" where
  "key_offers m Click_connect_key = connect_enabled m"
| "key_offers m (Check_answer r) = (Check_task \<in> set (awaiting m))"
| "key_offers m (Connect_answer env) = (Connect_task \<in> set (awaiting m))"

fun key_step :: "key_event \<Rightarrow> key_modal \<Rightarrow> key_modal" where
  "key_step Click_connect_key m = handleConnect_request' m"
| "key_step (Check_answer r) m =
     (checkKey_settled r m)\<lparr>awaiting := remove1 Check_task (awaiting m)\<rparr>"
| "key_step (Connect_answer env) m =
     (handleConnect_settled' (ensureApiKey env) m)\<lparr>awaiting := remove1 Connect_task (awaiting m)\<rparr>"

inductive key_reachable :: "key_modal \<Rightarrow> bool" where
  key_mounted: "key_reachable (mounted env)"
| key_stepped: "key_reachable m \<Longrightarrow> key_offers m ev \<Longrightarrow> key_reachable (key_step ev m)"

text \<open>
  While the dialog is visible, \<open>isLoading\<close> tells whether an await is pending, and at
  most one is; once it is hidden nothing is pending and the parent has been called once.
\<close>

definition key_modal_ok :: "key_modal \<Rightarrow> bool" where
  "key_modal_ok m \<longleftrightarrow>
     length (awaiting m) \<le> 1
     \<and> (isVisible m \<longrightarrow> keySelected m = 0 \<and> (isLoading' m \<longleftrightarrow> awaiting m \<noteq> []))
     \<and> (\<not> isVisible m \<longrightarrow> keySelected m = 1 \<and> awaiting m = [])"

lemmas key_defs =
  key_accepted_def checkKey_request_def checkKey_settled_def handleConnect_request'_def
  handleConnect_settled'_def key_modal_init_def mounted_def connect_enabled_def

section \<open>Lemmas\<close>

lemma length_le_1_cases: "length xs \<le> 1 \<Longrightarrow> xs = [] \<or> (\<exists>x. xs = [x])"
  by (cases xs) auto

lemma key_modal_ok_mounted: "key_modal_ok (mounted env)"
  by (simp add: key_modal_ok_def key_defs Let_def split: option.splits)

lemma key_modal_ok_step:
  assumes "key_modal_ok m" and "key_offers m ev"
  shows "key_modal_ok (key_step ev m)"
proof -
  from assms(1) have "awaiting m = [] \<or> (\<exists>t. awaiting m = [t])"
    by (simp add: key_modal_ok_def length_le_1_cases)
  with assms show ?thesis
    by (cases ev) (auto simp: key_modal_ok_def key_defs split: sum.splits)
qed

lemma key_reachable_ok: "key_reachable m \<Longrightarrow> key_modal_ok m"
  by (induction rule: key_reachable.induct) (simp_all add: key_modal_ok_mounted key_modal_ok_step)

lemma hidden_stays_hidden:
  "\<not> isVisible m \<Longrightarrow> \<not> isVisible (key_step ev m)"
  by (cases ev) (auto simp: key_defs split: sum.splits)

lemma checkKey_without_studio:
  "aistudio env = None \<Longrightarrow>
   mounted env =
     key_modal_init\<lparr>isVisible := \<not> truthy_opt (API_KEY env),
                     keySelected := (if truthy_opt (API_KEY env) then 1 else 0)\<rparr>"
  by (simp add: key_defs Let_def)

section \<open>Properties of the dialog\<close>

text \<open>
  C37. The key dialog calls \<open>onKeySelected\<close> at most once, and exactly when it hides: in
  every state reachable from the mount through the Connect button and the answers to its
  awaits, the dialog is visible iff the parent has not been called, the parent has been
  called at most once, at most one await is pending, and none is once the dialog is
  hidden.
\<close>

theorem key_selected_once:
  "key_reachable m \<Longrightarrow>
   keySelected m \<le> 1 \<and> (isVisible m \<longleftrightarrow> keySelected m = 0) \<and> length (awaiting m) \<le> 1
   \<and> (\<not> isVisible m \<longrightarrow> awaiting m = [])"
  by (drule key_reachable_ok) (auto simp: key_modal_ok_def)

theorem key_selected_once_witness:
  "keySelected (mounted \<lparr>aistudio = None, API_KEY = Some (js ''key'')\<rparr>) \<le> 1 \<and>
   (isVisible (mounted \<lparr>aistudio = None, API_KEY = Some (js ''key'')\<rparr>) \<longleftrightarrow>
    keySelected (mounted \<lparr>aistudio = None, API_KEY = Some (js ''key'')\<rparr>) = 0) \<and>
   length (awaiting (mounted \<lparr>aistudio = None, API_KEY = Some (js ''key'')\<rparr>)) \<le> 1"
  using key_selected_once [OF key_reachable.key_mounted,
      of "\<lparr>aistudio = None, API_KEY = Some (js ''key'')\<rparr>"]
  by simp

end
