(* ===== verification/Spec2Isabelle.thy ===== *)
theory Spec2Isabelle
  imports Pipeline_Run Analytics_View App_Screen Api_Key_Modal
begin

text \<open>
  \<^bold>\<open>OmniPost: a verification development.\<close>

  OmniPost is a single-page React application that turns one topic into posts for four
  social platforms. The user picks platforms, tone and language and submits; for every
  enabled platform the application asks the Gemini service for a text and then, if images
  are requested, for an image; the results appear in one card per platform, where a text
  can be refined and a finished post put on a schedule; a history of the submissions feeds
  a statistics panel. All of it is client-side state: that of the component \<open>App\<close>,
  which holds the results, the schedule and the history, and the hooks of the components
  it mounts, the settings dialog and one result card per enabled platform.

  \<^bold>\<open>The parts and the theories that model them.\<close>

  \<^item> \<open>OmniPost_Prelude\<close>: what the sources take from JavaScript. Strings are lists of
    UTF-16 code units (\<open>jsstring\<close>); truthiness, \<open>||\<close>, \<open>trim\<close>, \<open>substring\<close>,
    \<open>startsWith\<close> and template literals are functions on them. \<open>Array.prototype.sort\<close>
    is the stable comparator sort \<open>js_sort\<close>, equal to the library's \<open>sort_key\<close> for the
    subtracting comparators the sources use. A \<open>Record\<close> of counters is an association
    list in insertion order.
  \<^item> \<open>OmniPost_Types\<close>: \<^verbatim>\<open>src/types.ts\<close> and \<^verbatim>\<open>src/constants.ts\<close>. The enums are
    datatypes with their string values, the interfaces records, the tables functions and
    lists.
  \<^item> \<open>Gemini_Service\<close>: \<^verbatim>\<open>src/services/geminiService.ts\<close>. Each exported \<open>async\<close>
    function is split at its \<open>await\<close> into the request it builds (or the exception it
    throws first) and the treatment of the provider's outcome. The provider is not
    modelled: its outcome is an argument.
  \<^item> \<open>Pipeline\<close>: the updates of one slot of the result table in \<^verbatim>\<open>src/App.tsx\<close>
    (one definition per \<open>setResults\<close> updater), the status state machine, and the
    pipeline of one platform run alone.
  \<^item> \<open>App_State\<close>: the state of \<open>App\<close>, one field per \<open>useState\<close> hook, with the
    stored history, the pending promises (\<open>tasks\<close>), the environment and a ghost batch
    counter; \<open>togglePlatform\<close>, \<open>initCheck\<close> and the connection callback.
  \<^item> \<open>Schedule_Queue\<close>: \<open>handleSchedulePost\<close> and \<open>deleteScheduledPost\<close>.
  \<^item> \<open>Orchestrator\<close>: \<open>handleGenerate\<close>, the continuations of a pipeline after its
    text and image calls, the join on \<open>Promise.allSettled\<close>, \<open>handleRefine\<close> and its
    continuation.
  \<^item> \<open>App_Machine\<close>: the application as a transition system. An event is a handler
    invocation or the settlement of a pending promise with an outcome the environment
    chooses; \<open>run\<close> folds events over a state; \<open>reachable\<close> allows every event,
    \<open>ui_reachable\<close> only those the rendered controls allow (\<^verbatim>\<open>src/App.tsx\<close> line 402,
    \<^verbatim>\<open>src/components/ResultCard.tsx\<close> lines 138 and 144).
  \<^item> \<open>App_Invariants\<close>: the invariants of the transition system.
  \<^item> \<open>Batch_Join\<close>: the work left in a state and an environment that answers every call.
  \<^item> \<open>Pipeline_Run\<close>: what one platform sees of the state (\<open>view\<close>: its pending calls
    and its slot), the callback of \<open>handleGenerate\<close> resumed after an \<open>await\<close> on that
    view alone (\<open>resume\<close>), and the slot the callback leaves against given answers
    (\<open>foreseen\<close>).
  \<^item> \<open>History_Analytics\<close>: the \<open>useMemo\<close> of \<^verbatim>\<open>src/components/AnalyticsModal.tsx\<close>;
    \<open>Analytics_View\<close>: what the dialog renders from it.
  \<^item> \<open>Result_Card\<close>: \<^verbatim>\<open>src/components/ResultCard.tsx\<close>. The hooks of a card
    (\<open>card_state\<close>) with its pending copy timers, its handlers, and what it renders for a
    slot: \<open>text_content\<close>, \<open>image_content\<close>, \<open>error_banner\<close>, the action bar and the
    refine menu. A handler that calls the parent or the browser returns the call as a
    \<open>card_effect\<close>; \<open>card_step\<close> is the card as a machine and \<open>card_offers\<close> tells which
    of its controls are rendered and enabled.
  \<^item> \<open>Settings_Modal\<close>: \<^verbatim>\<open>src/components/SettingsModal.tsx\<close>. Its two hooks, the
    effect that checks the connection when the dialog opens, \<open>handleConnect\<close> split at its
    \<open>await\<close>, the connection panel and the model list.
  \<^item> \<open>Api_Key_Modal\<close>: \<^verbatim>\<open>src/components/ApiKeyModal.tsx\<close>, a dialog that \<open>App\<close> does not
    mount, as a machine of its own.
  \<^item> \<open>App_View\<close>: the expressions of the JSX of \<^verbatim>\<open>src/App.tsx\<close> that depend on the
    state (buttons, option lists, the label and colour of Generate, the cards rendered,
    the schedule).
  \<^item> \<open>Slot_Typing\<close>: the updates a slot can undergo (\<open>slot_step\<close>), the typing of a slot,
    and the relation between the image fields and the pending pipelines.
  \<^item> \<open>App_Screen\<close>: the screen, that is \<open>App\<close> composed with the settings dialog and
    the cards. A state holds all their hooks; an event is a click or input on a rendered
    control, a timer, or a settlement; a card is unmounted, and loses its state, when its
    platform is switched off; opening the dialog starts its check.
  \<^item> This theory: the examples of the specification as runs of the transition system.

  \<^bold>\<open>How asynchronous code is modelled.\<close> JavaScript runs one handler at a time and
  suspends it at an \<open>await\<close>. A step of the model is therefore a handler up to its first
  \<open>await\<close>, or the continuation of a suspended function when its promise settles; each
  step is atomic. A suspended function is an element of \<open>tasks\<close>: a pipeline waiting for
  its text (\<open>Text_task\<close>, with the inputs it closed over), a pipeline waiting for its
  image (\<open>Image_task\<close>, with the text it sent as context) or a refinement
  (\<open>Refine_task\<close>). The environment picks which task settles next and how, so every
  interleaving of the answers is a run. A call that throws before anything is sent (no key)
  is handled in the step that makes it, as its rejection is processed before any other
  event. \<open>Promise.allSettled\<close> is the function \<open>join\<close>: the step that settles the last
  pipeline of a batch clears \<open>isGlobalLoading\<close>. The time and the random identifier that
  the handlers read are arguments of the events. The checks of the connection
  (\<open>initCheck\<close>, the effect of the settings dialog, its Connect button) read the
  environment when they settle, and a timer of a card is an event of its own.

  \<^bold>\<open>Two levels.\<close> \<open>App_Machine\<close> describes the handlers of \<open>App\<close> and which of them
  the controls let a user invoke, without the local state of the components; \<open>App_Screen\<close>
  adds that state. \<open>screen_refines_controls\<close> connects the two: every event of the
  screen is at most one enabled event of \<open>App_Machine\<close>, so what is proved over
  \<open>ui_reachable\<close> holds on the screen.

  \<^bold>\<open>What is proved.\<close>

  \<^item> Service: each call fails before sending exactly when no key is present; the image
    prompt reads 300 code units of context; the image result is the first inline image of
    the response, and its absence is an error.
  \<^item> Pipeline: a lone pipeline walks the state machine to a terminal status; its outcome
    in every case.
  \<^item> Orchestrator: every branch of a submission (rejected, accepted with and without a
    key), of the continuations (success, failure, partial failure) and of a refinement.
  \<^item> Transition system: writes stay in their slot over any run; in every reachable state
    a loading or refining slot has a pending call, the loading flag implies a pending
    pipeline, the enabled set, the schedule and the table are well formed, and the history
    only grows and is stored; through the controls one batch runs at a time.
  \<^item> Join: any sequence of answers is bounded by the work left; when all calls are
    answered the batch is over, whatever the outcomes.
  \<^item> Interleaving: an event changes the view of a platform only by the continuation of
    that platform's callback (\<open>view_step\<close>); hence the interleaved pipelines refine
    \<open>run_pipeline\<close>, and against answers that depend on the call alone the slot a
    pipeline ends with does not depend on the order of the answers.
  \<^item> A batch as a whole (\<open>batch_computes_pipelines\<close>, in this theory): from the click
    to the last answer, an accepted submission computes the pipeline of every enabled
    platform, leaves the other slots alone, adds one history entry and clears the flag.
  \<^item> Typing: every reachable result table is well typed (\<open>slot_conforms\<close>); through the
    controls a slot holds an image only while completed or refining and on a card with an
    image area, so the unparenthesised condition of the image area has one meaning and a
    delivered image is displayed.
  \<^item> Screen: the refinement of the controls; a refinement is started only on a completed
    result, because the refine menu is closed while refining; at most one connection
    attempt is pending; a confirmed date is dropped when the card is not completed.
  \<^item> Card and dialogs: what the card shows at each step of a pipeline and after a failed
    text call; the Download button and its handler agree; the model list has one active
    entry; the key dialog calls its parent at most once.
  \<^item> Schedule: stable sorted insertion, the round trip with deletion, deletion by
    identifier. Statistics: the counts implement the rollup of the specification, the lists
    are rankings with stable ties, the bars of the dialog fit their track.
  \<^item> The examples of the specification, and the behaviours in which the code departs from
    it: refinement is guarded by the text alone, a successful refinement keeps an earlier
    error message, a failed text call keeps the text of the run before, identifiers of
    scheduled posts need not be unique, a connection can be recorded without a key, a
    refinement can overlap a submission, and a card can drop a confirmed date.

  \<^bold>\<open>Bounds and fuel.\<close> Integers are unbounded (\<open>int\<close>, \<open>nat\<close>); code units are
  16-bit words. The only fuel is that of \<open>drain\<close>, the number of answers it delivers:
  \<open>work s\<close> is enough, because every answer lowers \<open>work\<close> by at least one
  (\<open>work_settle\<close>) and \<open>work\<close> is 0 exactly when nothing is pending.

  \<^bold>\<open>Abstractions.\<close> \<open>toLowerCase\<close> is defined on the letters A to Z, which is all the
  platform names contain. The width of a bar is kept as count and scale, not as the
  floating-point percentage. \<open>new Date(scheduleDate)\<close> is a value the event carries
  (\<open>ambient\<close>). A dialog that covers the page does not disable the controls under it,
  which stay reachable by keyboard.

  \<^bold>\<open>Not modelled.\<close> Static markup, texts and class names that do not depend on the
  state; the rendering of Markdown; the date format of \<open>toLocaleString\<close>; the promise
  that \<open>clipboard.writeText\<close> returns; the Gemini SDK and the network; the JSON text in
  \<open>localStorage\<close> (the stored value is the list it parses to); logging;
  \<^verbatim>\<open>src/capacitor.config.ts\<close>, the build configuration of the mobile wrapper.
\<close>

section \<open>Evaluating runs\<close>

declare image_settle_Inl [simp] image_settle_png [simp] js_or_js [simp]

lemmas scenario_fields =
  results_after tasks_after isGlobalLoading_after frame_simps history_handleGenerate
  next_batch_handleGenerate nth_task_def remove_nth_def text_effect_Inr

section \<open>The end-to-end example\<close>

definition end_to_end :: "event list" where
  "end_to_end =
     [Generate 100,
      Text_settled 0 (Inr (Some (js ''L''))),
      Text_settled 1 (Inr (Some (js ''W''))),
      Image_settled 1 (Inr (Some [[Some png]])),
      Image_settled 0 (Inr (Some [[Some png]]))]"

definition finished :: app_state where
  "finished = run end_to_end ready"

lemma finished_simps [simp]:
  "tasks finished = []"
  "\<not> isGlobalLoading finished"
  "env finished = env_keyed"
  "topic finished = js ''T''"
  "isApiKeyConnected finished"
  "enabledPlatforms finished = [LINKEDIN, TWITTER]"
  "generateImages finished"
  "next_batch finished = 1"
  "results finished LINKEDIN =
     image_ready (js ''data:image/png;base64,AA=='')
       (text_ready True (js ''L'') (reset_result True (INITIAL_STATE LINKEDIN)))"
  "results finished TWITTER =
     image_ready (js ''data:image/png;base64,AA=='')
       (text_ready True (js ''W'') (reset_result True (INITIAL_STATE TWITTER)))"
  "results finished INSTAGRAM = INITIAL_STATE INSTAGRAM"
  "results finished THREADS = INITIAL_STATE THREADS"
  "history finished =
     [\<lparr>timestamp = 100, item_tone = PROFESSIONAL, platforms = [LINKEDIN, TWITTER]\<rparr>]"
  by (simp_all add: finished_def end_to_end_def scenario_fields)

lemma accepts_finished: "accepts finished"
  by (simp add: accepts_def truthy_def js_eq_Nil_iff)


section \<open>A batch from submission to completion\<close>

text \<open>
  C5. A batch, from the click to the last answer: when no call is pending, an accepted
  submission with a key, followed by the answers to all its calls, ends with no promise
  pending and the loading flag cleared; the slot of every enabled platform is the one its
  callback computes from the responses to its two calls, every other slot is as it was,
  and the history has one new entry in front.
\<close>

theorem batch_computes_pipelines:
  assumes "reachable s" and "accepts s" and "have_key s" and "tasks s = []"
  shows "let s' = drain (work (handleGenerate now s)) ft fi (handleGenerate now s) in
         tasks s' = [] \<and> \<not> isGlobalLoading s' \<and>
         (\<forall>p. results s' p =
            (if p \<in> set (enabledPlatforms s)
             then foreseen ft fi p (capture s) (next_batch s) (results s p)
             else results s p)) \<and>
         history s' =
           \<lparr>timestamp = now, item_tone = tone s, platforms = enabledPlatforms s\<rparr> # history s"
proof -
  let ?g = "handleGenerate now s"
  let ?s = "drain (work ?g) ft fi ?g"
  have empty: "tasks ?s = []"
    by (rule drain_done) simp
  from assms(1) have "reachable ?s"
    by (auto intro: reachable_drain reachable.step [where ev = "Generate now", simplified])
  from reachable_invariants(2) [OF this] empty have idle: "\<not> isGlobalLoading ?s"
    by (simp add: loading_pending_def gen_tasks_def)
  from assms(4) have free: "\<not> pending_for s p" for p
    by (simp add: pending_for_def)
  have "results ?s p = results s p" if "p \<notin> set (enabledPlatforms s)" for p
  proof -
    from that assms(4) have "own_tasks p ?g = []"
      by (auto simp: own_tasks_def tasks_handleGenerate filter_empty_conv)
    from idle_view_drain [OF this, of "work ?g" ft fi] that show ?thesis
      by (simp add: view_def results_handleGenerate)
  qed
  with empty idle assms(2) drain_computes_pipeline [OF assms(1-3) _ free, of _ now ft fi]
  show ?thesis
    by (simp add: history_drain history_handleGenerate)
qed

theorem batch_computes_pipelines_witness:
  "tasks (drain (work (handleGenerate 100 ready)) (\<lambda>t. Inr (Some (js ''T'')))
            (\<lambda>t. Inr (Some [[Some png]])) (handleGenerate 100 ready)) = [] \<and>
   results (drain (work (handleGenerate 100 ready)) (\<lambda>t. Inr (Some (js ''T'')))
              (\<lambda>t. Inr (Some [[Some png]])) (handleGenerate 100 ready)) TWITTER =
     \<lparr>platform = TWITTER, text' = js ''T'', imageUrl = Some (js ''data:image/png;base64,AA==''),
      imageEnabled = True, status = Completed, error = None\<rparr> \<and>
   results (drain (work (handleGenerate 100 ready)) (\<lambda>t. Inr (Some (js ''T'')))
              (\<lambda>t. Inr (Some [[Some png]])) (handleGenerate 100 ready)) THREADS =
     INITIAL_STATE THREADS"
  using batch_computes_pipelines [OF reachable_ready, where now = 100
      and ft = "\<lambda>t. Inr (Some (js ''T''))" and fi = "\<lambda>t. Inr (Some [[Some png]])"]
  by (simp add: Let_def foreseen_def run_pipeline_def generatePlatformText_settle_def
      patch_defs INITIAL_STATE_def env_keyed_def)

section \<open>The fault-isolation example\<close>



section \<open>A refinement that overlaps a submission\<close>

definition race :: "event list" where
  "race =
     [Refine TWITTER Shorten,
      Generate 200,
      Refine_settled 0 (Inr (Some (js ''short''))),
      Text_settled 1 (Inr (Some (js ''new'')))]"

text \<open>
  C26. A refinement and a submission can overlap through the rendered controls, because a
  refinement does not set the loading flag. After both slots are completed: refine
  Twitter, submit again while the refinement is pending, let the refinement answer
  first. Twitter then shows \<open>completed\<close> with the refined text while its new pipeline is
  still pending, and when the text call answers the status goes from \<open>completed\<close> to
  \<open>loading_image\<close>, which is no transition of the state machine, and the refined text is
  overwritten.
\<close>

theorem refine_submit_race:
  "ui_run finished race \<and>
   map (\<lambda>k. status (results (run (take k race) finished) TWITTER)) [0, 1, 2, 3, 4] =
     [Completed, Refining, Loading_text, Completed, Loading_image] \<and>
   map (\<lambda>k. text' (results (run (take k race) finished) TWITTER)) [0, 1, 2, 3, 4] =
     [js ''W'', js ''W'', js ''W'', js ''short'', js ''new''] \<and>
   pending_for (run (take 3 race) finished) TWITTER \<and>
   \<not> transition Completed Loading_image"
  using accepts_finished
  by (simp add: race_def scenario_fields patch_defs generate_disabled_def
      action_bar_shown_def refine_disabled_def pending_for_def truthy_def js_eq_Nil_iff
      accepts_def)

end
